theory Spec2Isabelle
  imports Main "HOL-Library.Word"
begin

section \<open>The external scanner of tree-sitter-zsh (scanner.c)\<close>

text \<open>
  A shallow embedding of the hand-written external scanner. Arrays (\<open>Array(T)\<close> of
  tree_sitter/array.h) are lists: index 0 is the head, \<open>array_push\<close> appends,
  \<open>array_back\<close> is \<open>last\<close>, \<open>array_pop\<close> is \<open>butlast\<close>. A C \<open>char\<close> is an
  \<open>8 word\<close>, \<open>uint8_t\<close> an \<open>8 word\<close>, \<open>uint32_t\<close> a \<open>32 word\<close>. The lookahead
  (\<open>int32_t\<close>, a code point) is an \<open>int\<close>.
\<close>

subsection \<open>Tokens, contexts and the scanner state\<close>

datatype TokenType =
    HEREDOC_START
  | SIMPLE_HEREDOC_BODY
  | HEREDOC_BODY_BEGINNING
  | HEREDOC_CONTENT
  | HEREDOC_END
  | FILE_DESCRIPTOR
  | EMPTY_VALUE
  | CONCAT
  | VARIABLE_NAME
  | SIMPLE_VARIABLE_NAME
  | SPECIAL_VARIABLE_NAME
  | TEST_OPERATOR
  | REGEX
  | REGEX_NO_SLASH
  | REGEX_NO_SPACE
  | EXPANSION_WORD
  | EXTGLOB_PATTERN
  | RAW_DOLLAR
  | BARE_DOLLAR
  | PEEK_BARE_DOLLAR
  | BRACE_START
  | IMMEDIATE_DOUBLE_HASH
  | ARRAY_STAR_TOKEN
  | ARRAY_AT_TOKEN
  | CLOSING_BRACE
  | CLOSING_BRACKET
  | CLOSING_PAREN
  | CLOSING_DOUBLE_PAREN
  | HEREDOC_ARROW
  | HEREDOC_ARROW_DASH
  | HASH_PATTERN
  | DOUBLE_HASH_PATTERN
  | ENTER_PATTERN
  | PATTERN_START
  | PATTERN_SUFFIX_START
  | NEWLINE
  | OPENING_PAREN
  | DOUBLE_OPENING_PAREN
  | OPENING_BRACKET
  | TEST_COMMAND_START
  | TEST_COMMAND_END
  | ESAC
  | ZSH_EXTENDED_GLOB_FLAGS
  | ERROR_RECOVERY

datatype context_type_t =
    CTX_NONE
  | CTX_PARAMETER
  | CTX_ARITHMETIC
  | CTX_COMMAND
  | CTX_TEST
  | CTX_BRACE_EXPANSION
  | CTX_PARAMETER_PATTERN_SUFFIX
  | CTX_PARAMETER_PATTERN_SUBSTITUTE

record Heredoc =
  is_raw :: bool
  started :: bool
  allows_indent :: bool
  delimiter :: "8 word list"
  current_leading_word :: "8 word list"

definition heredoc_new :: Heredoc where
  "heredoc_new = \<lparr> is_raw = False, started = False, allows_indent = False,
                   delimiter = [], current_leading_word = [] \<rparr>"

record Scanner =
  last_glob_paren_depth :: "8 word"
  ext_was_in_double_quote :: bool
  ext_saw_outside_quote :: bool
  context_stack :: "context_type_t list"
  just_returned_variable_name :: bool
  just_returned_bare_dollar :: bool
  heredocs :: "Heredoc list"

text \<open>\<open>tree_sitter_zsh_external_scanner_create\<close>: \<open>calloc\<close> and two \<open>array_init\<close>.\<close>

definition create :: Scanner where
  "create = \<lparr> last_glob_paren_depth = 0, ext_was_in_double_quote = False,
              ext_saw_outside_quote = False, context_stack = [],
              just_returned_variable_name = False, just_returned_bare_dollar = False,
              heredocs = [] \<rparr>"

subsection \<open>Context stack\<close>

definition get_current_context :: "Scanner \<Rightarrow> context_type_t" where
  "get_current_context scanner =
     (if length (context_stack scanner) = 0 then CTX_NONE
      else last (context_stack scanner))"

definition in_parameter_expansion :: "Scanner \<Rightarrow> bool" where
  "in_parameter_expansion scanner =
     (let ctx = get_current_context scanner
      in ctx = CTX_PARAMETER \<or> ctx = CTX_PARAMETER_PATTERN_SUFFIX \<or>
         ctx = CTX_PARAMETER_PATTERN_SUBSTITUTE)"

definition should_stop_at_pattern_operators :: "Scanner \<Rightarrow> bool" where
  "should_stop_at_pattern_operators scanner =
     (let ctx = get_current_context scanner
      in ctx = CTX_PARAMETER \<or> ctx = CTX_PARAMETER_PATTERN_SUFFIX \<or>
         ctx = CTX_PARAMETER_PATTERN_SUBSTITUTE)"

definition should_stop_at_pattern_slash :: "Scanner \<Rightarrow> bool" where
  "should_stop_at_pattern_slash scanner =
     (get_current_context scanner = CTX_PARAMETER_PATTERN_SUBSTITUTE)"

definition in_parameter_expansion_context :: "Scanner \<Rightarrow> bool" where
  "in_parameter_expansion_context scanner = in_parameter_expansion scanner"

definition enter_context :: "Scanner \<Rightarrow> context_type_t \<Rightarrow> Scanner" where
  "enter_context scanner context =
     scanner\<lparr>context_stack := context_stack scanner @ [context]\<rparr>"

definition exit_context :: "Scanner \<Rightarrow> context_type_t \<Rightarrow> Scanner" where
  "exit_context scanner expected_context =
     (if length (context_stack scanner) > 0 then
        (let current = last (context_stack scanner)
         in if current = expected_context
            then scanner\<lparr>context_stack := butlast (context_stack scanner)\<rparr>
            else scanner\<lparr>context_stack := butlast (context_stack scanner)\<rparr>)
      else scanner)"

subsection \<open>Reset\<close>

definition reset_string :: "8 word list \<Rightarrow> 8 word list" where
  "reset_string string = (if length string > 0 then [] else string)"

definition reset_heredoc :: "Heredoc \<Rightarrow> Heredoc" where
  "reset_heredoc heredoc =
     heredoc\<lparr>is_raw := False, started := False, allows_indent := False,
             delimiter := reset_string (delimiter heredoc)\<rparr>"

text \<open>
  \<open>reset\<close> sets \<open>context_stack.size\<close> to 0 and walks the heredoc array resetting each
  record; it never changes \<open>heredocs.size\<close>.
\<close>

definition reset :: "Scanner \<Rightarrow> Scanner" where
  "reset scanner =
     scanner\<lparr>last_glob_paren_depth := 0, ext_was_in_double_quote := False,
             ext_saw_outside_quote := False, context_stack := [],
             just_returned_variable_name := False, just_returned_bare_dollar := False,
             heredocs := map reset_heredoc (heredocs scanner)\<rparr>"

subsection \<open>Serialization\<close>

text \<open>
  \<open>TREE_SITTER_SERIALIZATION_BUFFER_SIZE\<close> comes from tree_sitter/parser.h, which is not
  part of the repository; its value there is 1024.
\<close>

definition TREE_SITTER_SERIALIZATION_BUFFER_SIZE :: nat where
  "TREE_SITTER_SERIALIZATION_BUFFER_SIZE = 1024"

text \<open>The casts \<open>(char)b\<close> of a \<open>bool\<close> and back (\<open>bool x = buffer[i]\<close>).\<close>

definition bool_char :: "bool \<Rightarrow> 8 word" where
  "bool_char b = (if b then 1 else 0)"

definition char_bool :: "8 word \<Rightarrow> bool" where
  "char_bool c = (c \<noteq> 0)"

text \<open>The cast \<open>(char)*ctx\<close> of an enumerator (the values given in the enum).\<close>

fun ctx_char :: "context_type_t \<Rightarrow> 8 word" where
  "ctx_char CTX_NONE = 0"
| "ctx_char CTX_PARAMETER = 1"
| "ctx_char CTX_ARITHMETIC = 2"
| "ctx_char CTX_COMMAND = 3"
| "ctx_char CTX_TEST = 4"
| "ctx_char CTX_BRACE_EXPANSION = 5"
| "ctx_char CTX_PARAMETER_PATTERN_SUFFIX = 6"
| "ctx_char CTX_PARAMETER_PATTERN_SUBSTITUTE = 7"

text \<open>
  The cast \<open>(context_type_t)buffer[i]\<close>. A byte outside 0..7 has no enumerator;
  \<open>serialize\<close> never writes one, and every comparison of the scanner is against one of
  the enumerators 1..7, so such a value acts as \<open>CTX_NONE\<close> does and is read as it here.
\<close>

definition char_ctx :: "8 word \<Rightarrow> context_type_t" where
  "char_ctx c =
     (if c = 1 then CTX_PARAMETER
      else if c = 2 then CTX_ARITHMETIC
      else if c = 3 then CTX_COMMAND
      else if c = 4 then CTX_TEST
      else if c = 5 then CTX_BRACE_EXPANSION
      else if c = 6 then CTX_PARAMETER_PATTERN_SUFFIX
      else if c = 7 then CTX_PARAMETER_PATTERN_SUBSTITUTE
      else CTX_NONE)"

text \<open>
  \<open>memcpy\<close> of the \<open>uint32_t\<close> \<open>delimiter.size\<close> into four bytes and back, least
  significant byte first.
\<close>

definition u32_bytes :: "nat \<Rightarrow> 8 word list" where
  "u32_bytes n =
     [of_nat (n mod 256), of_nat (n div 256 mod 256),
      of_nat (n div 65536 mod 256), of_nat (n div 16777216 mod 256)]"

definition bytes_u32 :: "8 word \<Rightarrow> 8 word \<Rightarrow> 8 word \<Rightarrow> 8 word \<Rightarrow> nat" where
  "bytes_u32 b0 b1 b2 b3 =
     unat b0 + 256 * unat b1 + 65536 * unat b2 + 16777216 * unat b3"

text \<open>
  \<open>serialize\<close> writes into the host's buffer and returns the number of bytes written,
  or 0 when the state does not fit. The model returns the bytes the host keeps: the
  written prefix, or the empty list on \<open>return 0\<close>. \<open>buffer\<close> below is what has been
  written so far, so \<open>size\<close> is its length.
\<close>

fun serialize_contexts :: "8 word list \<Rightarrow> context_type_t list \<Rightarrow> 8 word list option" where
  "serialize_contexts buffer [] = Some buffer"
| "serialize_contexts buffer (ctx # rest) =
     (if length buffer \<ge> TREE_SITTER_SERIALIZATION_BUFFER_SIZE then None
      else serialize_contexts (buffer @ [ctx_char ctx]) rest)"

fun serialize_heredocs :: "8 word list \<Rightarrow> Heredoc list \<Rightarrow> 8 word list option" where
  "serialize_heredocs buffer [] = Some buffer"
| "serialize_heredocs buffer (heredoc # rest) =
     (if length buffer + 3 + 4 + length (delimiter heredoc)
           \<ge> TREE_SITTER_SERIALIZATION_BUFFER_SIZE then None
      else serialize_heredocs
             (buffer @ [bool_char (is_raw heredoc), bool_char (started heredoc),
                        bool_char (allows_indent heredoc)]
                     @ u32_bytes (length (delimiter heredoc) mod 2 ^ 32)
                     @ delimiter heredoc) rest)"

definition serialize :: "Scanner \<Rightarrow> 8 word list" where
  "serialize scanner =
     (let buffer = [last_glob_paren_depth scanner,
                    bool_char (ext_was_in_double_quote scanner),
                    bool_char (ext_saw_outside_quote scanner),
                    of_nat (length (context_stack scanner)),
                    of_nat (length (heredocs scanner)),
                    bool_char (just_returned_variable_name scanner),
                    bool_char (just_returned_bare_dollar scanner)]
      in case serialize_contexts buffer (context_stack scanner) of
           None \<Rightarrow> []
         | Some buffer1 \<Rightarrow>
             (case serialize_heredocs buffer1 (heredocs scanner) of
                None \<Rightarrow> []
              | Some buffer2 \<Rightarrow> buffer2))"

text \<open>
  \<open>deserialize\<close> reads the \<open>length\<close> bytes the host hands back; the list argument is
  what is left to read, so \<open>size >= length\<close> is "nothing left". The result is \<open>None\<close>
  when \<open>assert(size == length)\<close> fails, which is also where every read past the end
  of the buffer ends up, \<open>size\<close> only growing.
\<close>

fun deserialize_contexts ::
  "nat \<Rightarrow> 8 word list \<Rightarrow> context_type_t list \<Rightarrow> context_type_t list \<times> 8 word list" where
  "deserialize_contexts 0 buffer stack = (stack, buffer)"
| "deserialize_contexts (Suc n) buffer stack =
     (case buffer of
        [] \<Rightarrow> (stack, buffer)
      | c # rest \<Rightarrow> deserialize_contexts n rest (stack @ [char_ctx c]))"

text \<open>
  The heredoc loop reuses the record at index \<open>i\<close> when the scanner has one
  (\<open>existing\<close> is the array from index \<open>i\<close> on) and pushes a new one otherwise; records
  past \<open>heredoc_count\<close> stay in the array.
\<close>

fun deserialize_heredocs ::
  "nat \<Rightarrow> Heredoc list \<Rightarrow> 8 word list \<Rightarrow> (Heredoc list \<times> 8 word list) option" where
  "deserialize_heredocs 0 existing buffer = Some (existing, buffer)"
| "deserialize_heredocs (Suc n) existing buffer =
     (let heredoc = (case existing of [] \<Rightarrow> heredoc_new | h # _ \<Rightarrow> h)
      in case buffer of
           r # s # a # b0 # b1 # b2 # b3 # rest \<Rightarrow>
             (let size = bytes_u32 b0 b1 b2 b3
              in if length rest < size then None
                 else (case deserialize_heredocs n (tl existing) (drop size rest) of
                         None \<Rightarrow> None
                       | Some (hs, buffer') \<Rightarrow>
                           Some (heredoc\<lparr>is_raw := char_bool r, started := char_bool s,
                                         allows_indent := char_bool a,
                                         delimiter := take size rest\<rparr> # hs, buffer')))
         | _ \<Rightarrow> None)"

definition deserialize :: "Scanner \<Rightarrow> 8 word list \<Rightarrow> Scanner option" where
  "deserialize scanner buffer =
     (if length buffer = 0 then Some (reset scanner)
      else case buffer of
             b0 # b1 # b2 # b3 # b4 # b5 # b6 # rest \<Rightarrow>
               (let context_stack_size = unat b3;
                    heredoc_count = unat b4;
                    (stack, rest1) = deserialize_contexts context_stack_size rest []
                in case deserialize_heredocs heredoc_count (heredocs scanner) rest1 of
                     None \<Rightarrow> None
                   | Some (hs, rest2) \<Rightarrow>
                       if rest2 = [] then
                         Some (scanner\<lparr>last_glob_paren_depth := b0,
                                       ext_was_in_double_quote := char_bool b1,
                                       ext_saw_outside_quote := char_bool b2,
                                       context_stack := stack,
                                       just_returned_variable_name := char_bool b5,
                                       just_returned_bare_dollar := char_bool b6,
                                       heredocs := hs\<rparr>)
                       else None)
           | _ \<Rightarrow> None)"

subsection \<open>Characters\<close>

text \<open>The character constants the scanner compares the lookahead with, as code points.\<close>

abbreviation (input) c_tab :: int where "c_tab \<equiv> 9"
abbreviation (input) c_newline :: int where "c_newline \<equiv> 10"
abbreviation (input) c_cr :: int where "c_cr \<equiv> 13"
abbreviation (input) c_space :: int where "c_space \<equiv> 32"
abbreviation (input) c_bang :: int where "c_bang \<equiv> 33"
abbreviation (input) c_dquote :: int where "c_dquote \<equiv> 34"
abbreviation (input) c_hash :: int where "c_hash \<equiv> 35"
abbreviation (input) c_dollar :: int where "c_dollar \<equiv> 36"
abbreviation (input) c_percent :: int where "c_percent \<equiv> 37"
abbreviation (input) c_amp :: int where "c_amp \<equiv> 38"
abbreviation (input) c_squote :: int where "c_squote \<equiv> 39"
abbreviation (input) c_lparen :: int where "c_lparen \<equiv> 40"
abbreviation (input) c_rparen :: int where "c_rparen \<equiv> 41"
abbreviation (input) c_star :: int where "c_star \<equiv> 42"
abbreviation (input) c_plus :: int where "c_plus \<equiv> 43"
abbreviation (input) c_minus :: int where "c_minus \<equiv> 45"
abbreviation (input) c_dot :: int where "c_dot \<equiv> 46"
abbreviation (input) c_slash :: int where "c_slash \<equiv> 47"
abbreviation (input) c_zero :: int where "c_zero \<equiv> 48"
abbreviation (input) c_colon :: int where "c_colon \<equiv> 58"
abbreviation (input) c_semicolon :: int where "c_semicolon \<equiv> 59"
abbreviation (input) c_lt :: int where "c_lt \<equiv> 60"
abbreviation (input) c_eq :: int where "c_eq \<equiv> 61"
abbreviation (input) c_gt :: int where "c_gt \<equiv> 62"
abbreviation (input) c_question :: int where "c_question \<equiv> 63"
abbreviation (input) c_at :: int where "c_at \<equiv> 64"
abbreviation (input) c_upper_B :: int where "c_upper_B \<equiv> 66"
abbreviation (input) c_upper_C :: int where "c_upper_C \<equiv> 67"
abbreviation (input) c_upper_I :: int where "c_upper_I \<equiv> 73"
abbreviation (input) c_upper_N :: int where "c_upper_N \<equiv> 78"
abbreviation (input) c_upper_U :: int where "c_upper_U \<equiv> 85"
abbreviation (input) c_upper_X :: int where "c_upper_X \<equiv> 88"
abbreviation (input) c_lbracket :: int where "c_lbracket \<equiv> 91"
abbreviation (input) c_backslash :: int where "c_backslash \<equiv> 92"
abbreviation (input) c_rbracket :: int where "c_rbracket \<equiv> 93"
abbreviation (input) c_underscore :: int where "c_underscore \<equiv> 95"
abbreviation (input) c_backtick :: int where "c_backtick \<equiv> 96"
abbreviation (input) c_a :: int where "c_a \<equiv> 97"
abbreviation (input) c_b :: int where "c_b \<equiv> 98"
abbreviation (input) c_c :: int where "c_c \<equiv> 99"
abbreviation (input) c_e :: int where "c_e \<equiv> 101"
abbreviation (input) c_f :: int where "c_f \<equiv> 102"
abbreviation (input) c_i :: int where "c_i \<equiv> 105"
abbreviation (input) c_l :: int where "c_l \<equiv> 108"
abbreviation (input) c_m :: int where "c_m \<equiv> 109"
abbreviation (input) c_n :: int where "c_n \<equiv> 110"
abbreviation (input) c_o :: int where "c_o \<equiv> 111"
abbreviation (input) c_q :: int where "c_q \<equiv> 113"
abbreviation (input) c_s :: int where "c_s \<equiv> 115"
abbreviation (input) c_lbrace :: int where "c_lbrace \<equiv> 123"
abbreviation (input) c_pipe :: int where "c_pipe \<equiv> 124"
abbreviation (input) c_rbrace :: int where "c_rbrace \<equiv> 125"

text \<open>
  The classification functions of the C library (\<open>wctype.h\<close>, \<open>ctype.h\<close>) are not part
  of the repository. They are taken as in the "C" locale: white space is space and
  \<open>\t \n \v \f \r\<close>, letters are \<open>A-Z a-z\<close>, digits are \<open>0-9\<close>.
\<close>

definition iswspace :: "int \<Rightarrow> bool" where
  "iswspace c = (c = c_space \<or> (9 \<le> c \<and> c \<le> 13))"

definition iswalpha :: "int \<Rightarrow> bool" where
  "iswalpha c = ((65 \<le> c \<and> c \<le> 90) \<or> (97 \<le> c \<and> c \<le> 122))"

definition iswdigit :: "int \<Rightarrow> bool" where
  "iswdigit c = (48 \<le> c \<and> c \<le> 57)"

definition iswalnum :: "int \<Rightarrow> bool" where
  "iswalnum c = (iswalpha c \<or> iswdigit c)"

definition isdigit :: "int \<Rightarrow> bool" where
  "isdigit c = (48 \<le> c \<and> c \<le> 57)"

subsection \<open>The lexer of the host\<close>

text \<open>
  Modelled from the spec: \<open>TSLexer\<close> (tree_sitter/parser.h and the runtime behind it)
  is the host's and not part of the repository. The spec names its capabilities: read
  the one-character lookahead, advance with or without marking (\<open>skip\<close> leaves the
  character out of the token), mark the end of the token, query the column, query EOF.
  The input is a list of code points and \<open>position\<close> an index into it. At the end of
  the input the lookahead is 0 and advancing does nothing. A token ends at the last
  marked end, or where the lexer stands when no end was marked.
\<close>

record TSLexer =
  input :: "int list"
  position :: nat
  token_start :: nat
  token_end :: "nat option"
  result_symbol :: TokenType

definition lookahead :: "TSLexer \<Rightarrow> int" where
  "lookahead lexer =
     (if position lexer < length (input lexer) then input lexer ! position lexer else 0)"

definition eof :: "TSLexer \<Rightarrow> bool" where
  "eof lexer = (length (input lexer) \<le> position lexer)"

definition advance :: "TSLexer \<Rightarrow> TSLexer" where
  "advance lexer = (if eof lexer then lexer else lexer\<lparr>position := position lexer + 1\<rparr>)"

definition skip :: "TSLexer \<Rightarrow> TSLexer" where
  "skip lexer =
     (if eof lexer then lexer
      else lexer\<lparr>position := position lexer + 1, token_start := position lexer + 1\<rparr>)"

definition mark_end :: "TSLexer \<Rightarrow> TSLexer" where
  "mark_end lexer = lexer\<lparr>token_end := Some (position lexer)\<rparr>"

definition get_column :: "TSLexer \<Rightarrow> nat" where
  "get_column lexer =
     length (takeWhile (\<lambda>c. c \<noteq> c_newline) (rev (take (position lexer) (input lexer))))"

definition token_end_position :: "TSLexer \<Rightarrow> nat" where
  "token_end_position lexer =
     (case token_end lexer of None \<Rightarrow> position lexer | Some e \<Rightarrow> e)"

text \<open>The lexer as the host hands it to \<open>scan\<close> at a position of an input.\<close>

definition lexer_at :: "int list \<Rightarrow> nat \<Rightarrow> TSLexer" where
  "lexer_at text p =
     \<lparr> input = text, position = p, token_start = p, token_end = None,
       result_symbol = HEREDOC_START \<rparr>"

definition remaining :: "TSLexer \<Rightarrow> nat" where
  "remaining lexer = length (input lexer) - position lexer"

lemma eof_remaining: "eof lexer = (remaining lexer = 0)"
  by (auto simp: eof_def remaining_def)

lemma lookahead_not_eof: "lookahead lexer \<noteq> 0 \<Longrightarrow> \<not> eof lexer"
  by (simp add: lookahead_def eof_def split: if_splits)

lemma lookahead_remaining: "lookahead lexer \<noteq> 0 \<Longrightarrow> 0 < remaining lexer"
  by (simp add: lookahead_def remaining_def split: if_splits)

lemma remaining_diff_less:
  "lookahead lexer \<noteq> 0 \<Longrightarrow> 0 < n \<Longrightarrow> remaining lexer - n < remaining lexer"
  by (drule lookahead_remaining) simp

lemma remaining_advance [simp]: "remaining (advance lexer) = remaining lexer - 1"
  by (auto simp: remaining_def advance_def eof_def)

lemma remaining_skip [simp]: "remaining (skip lexer) = remaining lexer - 1"
  by (auto simp: remaining_def skip_def eof_def)

lemma remaining_mark_end [simp]: "remaining (mark_end lexer) = remaining lexer"
  by (simp add: remaining_def mark_end_def)

lemma remaining_result_symbol [simp]:
  "remaining (lexer\<lparr>result_symbol := t\<rparr>) = remaining lexer"
  by (simp add: remaining_def)

text \<open>
  The loops \<open>while (p(lexer->lookahead)) advance(lexer);\<close> and the same with \<open>skip\<close>.
  The test for the end of the input makes the functions total; some loops of the
  source spell it out (\<open>&& !lexer->eof(lexer)\<close>), and in the others the condition is
  false at the lookahead 0 of the end of the input, so that the test changes nothing
  (\<open>advance_while_unfold\<close>, \<open>skip_while_unfold\<close> below).
\<close>

function advance_while :: "(int \<Rightarrow> bool) \<Rightarrow> TSLexer \<Rightarrow> TSLexer" where
  "advance_while p lexer =
     (if p (lookahead lexer) \<and> \<not> eof lexer then advance_while p (advance lexer) else lexer)"
  by pat_completeness auto
termination
  by (relation "measure (\<lambda>(p, lexer). remaining lexer)") (auto simp: eof_remaining)

function skip_while :: "(int \<Rightarrow> bool) \<Rightarrow> TSLexer \<Rightarrow> TSLexer" where
  "skip_while p lexer =
     (if p (lookahead lexer) \<and> \<not> eof lexer then skip_while p (skip lexer) else lexer)"
  by pat_completeness auto
termination
  by (relation "measure (\<lambda>(p, lexer). remaining lexer)") (auto simp: eof_remaining)

declare advance_while.simps [simp del] skip_while.simps [simp del]

lemma advance_while_unfold:
  "\<not> p 0 \<Longrightarrow> advance_while p lexer =
     (if p (lookahead lexer) then advance_while p (advance lexer) else lexer)"
  by (subst advance_while.simps) (auto dest: lookahead_not_eof simp: lookahead_def eof_def)

lemma skip_while_unfold:
  "\<not> p 0 \<Longrightarrow> skip_while p lexer =
     (if p (lookahead lexer) then skip_while p (skip lexer) else lexer)"
  by (subst skip_while.simps) (auto dest: lookahead_not_eof simp: lookahead_def eof_def)

lemma remaining_advance_while: "remaining (advance_while p lexer) \<le> remaining lexer"
proof (induction p lexer rule: advance_while.induct)
  case (1 p lexer)
  then show ?case by (subst advance_while.simps) auto
qed

lemma remaining_skip_while: "remaining (skip_while p lexer) \<le> remaining lexer"
proof (induction p lexer rule: skip_while.induct)
  case (1 p lexer)
  then show ?case by (subst skip_while.simps) auto
qed

subsection \<open>Outcomes of a handler\<close>

text \<open>
  \<open>scan\<close> is a sequence of handlers. A handler returns from \<open>scan\<close> (\<open>Return\<close>), falls
  through to the next handler (\<open>Continue\<close>), jumps to a label further down (\<open>Goto\<close>),
  or fails an \<open>assert\<close> of tree_sitter/array.h (\<open>Abort\<close>). The scanner and the lexer
  are mutated in place in the source and passed on here.
\<close>

datatype label = L_regex | L_extglob_pattern | L_expansion_word | L_brace_start

datatype outcome =
    Return bool Scanner TSLexer
  | Continue Scanner TSLexer
  | Goto label Scanner TSLexer
  | Abort

definition in_error_recovery :: "(TokenType \<Rightarrow> bool) \<Rightarrow> bool" where
  "in_error_recovery valid_symbols = valid_symbols ERROR_RECOVERY"

subsection \<open>The handlers of scan, in the order of the source\<close>

text \<open>
  Each handler is one top-level \<open>if\<close> of \<open>scan\<close>. The locals \<open>was_just_variable_name\<close>
  and \<open>was_just_bare_dollar\<close> are read by the handlers and assigned only right before a
  \<open>return\<close>, so they are passed as values.
\<close>

text \<open>Resolve and absorb newlines when requested. The block has no \<open>return\<close>.\<close>

definition newline_handler :: "(TokenType \<Rightarrow> bool) \<Rightarrow> Scanner \<Rightarrow> TSLexer \<Rightarrow> outcome" where
  "newline_handler valid_symbols scanner lexer =
     (if valid_symbols NEWLINE \<and> \<not> in_error_recovery valid_symbols then
        (if lookahead lexer = c_newline then
           Continue scanner
             ((mark_end (skip_while (\<lambda>c. c = c_newline) lexer))\<lparr>result_symbol := NEWLINE\<rparr>)
         else Continue scanner lexer)
      else Continue scanner lexer)"

text \<open>The closing brace of a parameter expansion.\<close>

definition closing_brace_handler ::
  "(TokenType \<Rightarrow> bool) \<Rightarrow> Scanner \<Rightarrow> TSLexer \<Rightarrow> outcome" where
  "closing_brace_handler valid_symbols scanner lexer =
     (if lookahead lexer = c_rbrace \<and> valid_symbols CLOSING_BRACE \<and>
         \<not> in_error_recovery valid_symbols then
        (let active = get_current_context scanner
         in if active = CTX_PARAMETER \<or> active = CTX_PARAMETER_PATTERN_SUFFIX \<or>
               active = CTX_PARAMETER_PATTERN_SUBSTITUTE
            then Return True (exit_context scanner active)
                   (advance (lexer\<lparr>result_symbol := CLOSING_BRACE\<rparr>))
            else Continue scanner lexer)
      else Continue scanner lexer)"

text \<open>CONCAT. \<open>concat_whitespace\<close> is the second \<open>if\<close> of the block.\<close>

definition concat_whitespace ::
  "(TokenType \<Rightarrow> bool) \<Rightarrow> context_type_t \<Rightarrow> Scanner \<Rightarrow> TSLexer \<Rightarrow> outcome" where
  "concat_whitespace valid_symbols ctx scanner lexer =
     (if iswspace (lookahead lexer) \<and>
         (ctx = CTX_PARAMETER \<or> ctx = CTX_PARAMETER_PATTERN_SUFFIX \<or>
          ctx = CTX_PARAMETER_PATTERN_SUBSTITUTE \<or> ctx = CTX_BRACE_EXPANSION) \<and>
         \<not> valid_symbols EXPANSION_WORD
      then Return True scanner (lexer\<lparr>result_symbol := CONCAT\<rparr>)
      else Continue scanner lexer)"

definition concat_handler ::
  "(TokenType \<Rightarrow> bool) \<Rightarrow> bool \<Rightarrow> Scanner \<Rightarrow> TSLexer \<Rightarrow> outcome" where
  "concat_handler valid_symbols was_just_variable_name scanner lexer =
     (if valid_symbols CONCAT \<and> \<not> in_error_recovery valid_symbols then
        (let ctx = get_current_context scanner
         in if \<not> (lookahead lexer = 0 \<or> iswspace (lookahead lexer) \<or>
                   lookahead lexer = c_gt \<or> lookahead lexer = c_lt \<or>
                   (lookahead lexer = c_rparen \<and> valid_symbols CLOSING_PAREN) \<or>
                   lookahead lexer = c_lparen \<or> lookahead lexer = c_semicolon \<or>
                   lookahead lexer = c_amp \<or> lookahead lexer = c_pipe \<or>
                   (lookahead lexer = c_rbrace \<and>
                    (ctx = CTX_PARAMETER \<or> ctx = CTX_PARAMETER_PATTERN_SUFFIX \<or>
                     ctx = CTX_PARAMETER_PATTERN_SUBSTITUTE \<or> ctx = CTX_BRACE_EXPANSION)) \<or>
                   (lookahead lexer = c_rbracket \<and> valid_symbols CLOSING_BRACKET) \<or>
                   (lookahead lexer = c_lbracket \<and> was_just_variable_name))
            then
              (let lexer1 = lexer\<lparr>result_symbol := CONCAT\<rparr>
               in if lookahead lexer1 = c_backtick then
                    (let lexer2 = advance_while (\<lambda>c. c \<noteq> c_backtick) (advance (mark_end lexer1))
                     in if eof lexer2 then Return False scanner lexer2
                        else (let lexer3 = (if lookahead lexer2 = c_backtick
                                            then advance lexer2 else lexer2)
                              in Return (iswspace (lookahead lexer3) \<or> eof lexer3)
                                   scanner lexer3))
                  else if lookahead lexer1 = c_backslash then
                    (let lexer2 = advance (mark_end lexer1)
                     in if lookahead lexer2 = c_dquote \<or> lookahead lexer2 = c_squote \<or>
                           lookahead lexer2 = c_backslash
                        then Return True scanner lexer2
                        else if eof lexer2 then Return False scanner lexer2
                        else concat_whitespace valid_symbols ctx scanner lexer2)
                  else Return True scanner lexer1)
            else concat_whitespace valid_symbols ctx scanner lexer)
      else Continue scanner lexer)"

text \<open>BARE_DOLLAR: skips blanks, consumes the dollar.\<close>

definition bare_dollar_handler ::
  "(TokenType \<Rightarrow> bool) \<Rightarrow> Scanner \<Rightarrow> TSLexer \<Rightarrow> outcome" where
  "bare_dollar_handler valid_symbols scanner lexer =
     (if valid_symbols BARE_DOLLAR \<and> \<not> in_error_recovery valid_symbols then
        (let lexer1 = (if lookahead lexer = c_space \<or> lookahead lexer = c_tab
                       then skip_while (\<lambda>c. c = c_space \<or> c = c_tab) lexer
                       else lexer)
         in if lookahead lexer1 = c_dollar then
              (let lexer2 = advance lexer1
               in if lookahead lexer2 \<noteq> c_dquote then
                    Return True (scanner\<lparr>just_returned_bare_dollar := True\<rparr>)
                      ((mark_end lexer2)\<lparr>result_symbol := BARE_DOLLAR\<rparr>)
                  else Return False scanner lexer2)
            else Continue scanner lexer1)
      else Continue scanner lexer)"

text \<open>PEEK_BARE_DOLLAR: reports a dollar without consuming it.\<close>

definition peek_bare_dollar_handler ::
  "(TokenType \<Rightarrow> bool) \<Rightarrow> Scanner \<Rightarrow> TSLexer \<Rightarrow> outcome" where
  "peek_bare_dollar_handler valid_symbols scanner lexer =
     (if valid_symbols PEEK_BARE_DOLLAR \<and> \<not> in_error_recovery valid_symbols then
        (if lookahead lexer = c_dollar
         then Return True scanner (lexer\<lparr>result_symbol := PEEK_BARE_DOLLAR\<rparr>)
         else Continue scanner lexer)
      else Continue scanner lexer)"

text \<open>BRACE_START of \<open>${\<close>: pushes \<open>CTX_PARAMETER\<close>.\<close>

definition dollar_brace_handler ::
  "(TokenType \<Rightarrow> bool) \<Rightarrow> bool \<Rightarrow> Scanner \<Rightarrow> TSLexer \<Rightarrow> outcome" where
  "dollar_brace_handler valid_symbols was_just_bare_dollar scanner lexer =
     (if valid_symbols BRACE_START \<and> \<not> in_error_recovery valid_symbols then
        (if lookahead lexer = c_lbrace then
           (if was_just_bare_dollar then
              Return True
                (enter_context (scanner\<lparr>just_returned_bare_dollar := False\<rparr>) CTX_PARAMETER)
                (mark_end ((advance lexer)\<lparr>result_symbol := BRACE_START\<rparr>))
            else Continue scanner lexer)
         else Continue scanner lexer)
      else Continue scanner lexer)"

text \<open>The characters the loop of the glob-flags scan accepts.\<close>

definition glob_flag_char :: "int \<Rightarrow> bool" where
  "glob_flag_char c =
     (c \<noteq> 0 \<and>
      (iswalnum c \<or> c = c_dot \<or> c = c_i \<or> c = c_q \<or> c = c_b \<or> c = c_m \<or> c = c_n \<or>
       c = c_s \<or> c = c_upper_B \<or> c = c_upper_I \<or> c = c_upper_N \<or> c = c_upper_U \<or>
       c = c_upper_X \<or> c = c_c \<or> c = c_e \<or> c = c_l \<or> c = c_f \<or> c = c_a \<or>
       c = c_upper_C \<or> c = c_o))"

text \<open>
  Opening parentheses and \<open>(#flags)\<close>. \<open>found_flags\<close> is set in the body of the loop,
  which runs at least once exactly when its condition holds on entry.
\<close>

definition opening_paren_handler ::
  "(TokenType \<Rightarrow> bool) \<Rightarrow> bool \<Rightarrow> Scanner \<Rightarrow> TSLexer \<Rightarrow> outcome" where
  "opening_paren_handler valid_symbols was_just_bare_dollar scanner lexer =
     (if (valid_symbols OPENING_PAREN \<or> valid_symbols DOUBLE_OPENING_PAREN \<or>
          valid_symbols ZSH_EXTENDED_GLOB_FLAGS) \<and> \<not> in_error_recovery valid_symbols then
        (let lexer1 = skip_while iswspace lexer
         in if lookahead lexer1 = c_lparen then
              (let lexer2 = mark_end (advance lexer1)
               in if was_just_bare_dollar then
                    (if lookahead lexer2 = c_lparen \<and> valid_symbols DOUBLE_OPENING_PAREN then
                       Return True
                         (enter_context (scanner\<lparr>just_returned_bare_dollar := False\<rparr>)
                            CTX_ARITHMETIC)
                         ((mark_end (advance lexer2))\<lparr>result_symbol := DOUBLE_OPENING_PAREN\<rparr>)
                     else if valid_symbols OPENING_PAREN then
                       Return True
                         (enter_context (scanner\<lparr>just_returned_bare_dollar := False\<rparr>)
                            CTX_COMMAND)
                         (lexer2\<lparr>result_symbol := OPENING_PAREN\<rparr>)
                     else Continue scanner lexer2)
                  else if valid_symbols OPENING_PAREN \<or> valid_symbols ZSH_EXTENDED_GLOB_FLAGS then
                    (if lookahead lexer2 = c_hash \<and> valid_symbols ZSH_EXTENDED_GLOB_FLAGS then
                       (let lexer3 = advance lexer2;
                            found_flags = glob_flag_char (lookahead lexer3);
                            lexer4 = advance_while glob_flag_char lexer3
                        in if found_flags \<and> lookahead lexer4 = c_rparen then
                             Return True scanner
                               ((mark_end (advance lexer4))
                                  \<lparr>result_symbol := ZSH_EXTENDED_GLOB_FLAGS\<rparr>)
                           else Return False scanner lexer4)
                     else if valid_symbols OPENING_PAREN then
                       Return True (scanner\<lparr>just_returned_bare_dollar := False\<rparr>)
                         (lexer2\<lparr>result_symbol := OPENING_PAREN\<rparr>)
                     else Continue scanner lexer2)
                  else Continue scanner lexer2)
            else Continue scanner lexer1)
      else Continue scanner lexer)"

text \<open>Opening brackets: \<open>[[\<close>, \<open>$[\<close> and \<open>[\<close>.\<close>

definition opening_bracket_handler ::
  "(TokenType \<Rightarrow> bool) \<Rightarrow> bool \<Rightarrow> Scanner \<Rightarrow> TSLexer \<Rightarrow> outcome" where
  "opening_bracket_handler valid_symbols was_just_bare_dollar scanner lexer =
     (if (valid_symbols OPENING_BRACKET \<or> valid_symbols TEST_COMMAND_START) \<and>
         \<not> in_error_recovery valid_symbols then
        (let lexer1 = skip_while iswspace lexer
         in if lookahead lexer1 = c_lbracket then
              (let lexer2 = advance lexer1
               in if lookahead lexer2 = c_lbracket \<and> valid_symbols TEST_COMMAND_START then
                    Return True
                      (enter_context (scanner\<lparr>just_returned_bare_dollar := False\<rparr>) CTX_TEST)
                      (mark_end ((advance lexer2)\<lparr>result_symbol := TEST_COMMAND_START\<rparr>))
                  else if was_just_bare_dollar \<and> valid_symbols OPENING_BRACKET then
                    Return True
                      (enter_context (scanner\<lparr>just_returned_bare_dollar := False\<rparr>)
                         CTX_ARITHMETIC)
                      (mark_end (lexer2\<lparr>result_symbol := OPENING_BRACKET\<rparr>))
                  else if valid_symbols OPENING_BRACKET then
                    Return True (scanner\<lparr>just_returned_bare_dollar := False\<rparr>)
                      (mark_end (lexer2\<lparr>result_symbol := OPENING_BRACKET\<rparr>))
                  else Continue scanner lexer2)
            else Continue scanner lexer1)
      else Continue scanner lexer)"

text \<open>Closing brackets: \<open>]]\<close> pops a context, a single \<open>]\<close> does not.\<close>

definition closing_bracket_handler ::
  "(TokenType \<Rightarrow> bool) \<Rightarrow> Scanner \<Rightarrow> TSLexer \<Rightarrow> outcome" where
  "closing_bracket_handler valid_symbols scanner lexer =
     (if (valid_symbols TEST_COMMAND_END \<or> valid_symbols CLOSING_BRACKET) \<and>
         \<not> in_error_recovery valid_symbols then
        (let lexer1 = skip_while iswspace lexer
         in if lookahead lexer1 = c_rbracket then
              (let lexer2 = advance lexer1
               in if lookahead lexer2 = c_rbracket \<and> valid_symbols TEST_COMMAND_END then
                    Return True (exit_context scanner CTX_TEST)
                      (mark_end ((advance lexer2)\<lparr>result_symbol := TEST_COMMAND_END\<rparr>))
                  else if valid_symbols CLOSING_BRACKET then
                    Return True (scanner\<lparr>just_returned_bare_dollar := False\<rparr>)
                      (mark_end (lexer2\<lparr>result_symbol := CLOSING_BRACKET\<rparr>))
                  else Return False scanner lexer2)
            else Continue scanner lexer1)
      else Continue scanner lexer)"

text \<open>Closing parentheses: both \<open>))\<close> and \<open>)\<close> pop a context.\<close>

definition closing_paren_handler ::
  "(TokenType \<Rightarrow> bool) \<Rightarrow> Scanner \<Rightarrow> TSLexer \<Rightarrow> outcome" where
  "closing_paren_handler valid_symbols scanner lexer =
     (if (valid_symbols CLOSING_PAREN \<or> valid_symbols CLOSING_DOUBLE_PAREN) \<and>
         \<not> in_error_recovery valid_symbols then
        (let lexer1 = skip_while iswspace lexer
         in if lookahead lexer1 = c_rparen then
              (let lexer2 = advance lexer1
               in if lookahead lexer2 = c_rparen \<and> valid_symbols CLOSING_DOUBLE_PAREN then
                    Return True (exit_context scanner CTX_ARITHMETIC)
                      (mark_end ((advance lexer2)\<lparr>result_symbol := CLOSING_DOUBLE_PAREN\<rparr>))
                  else if valid_symbols CLOSING_PAREN then
                    Return True (exit_context scanner CTX_ARITHMETIC)
                      (mark_end (lexer2\<lparr>result_symbol := CLOSING_PAREN\<rparr>))
                  else Return False scanner lexer2)
            else Continue scanner lexer1)
      else Continue scanner lexer)"

text \<open>PATTERN_START and PATTERN_SUFFIX_START: \<open>enter_context\<close> on top of \<open>CTX_PARAMETER\<close>.\<close>

definition pattern_start_handler ::
  "(TokenType \<Rightarrow> bool) \<Rightarrow> Scanner \<Rightarrow> TSLexer \<Rightarrow> outcome" where
  "pattern_start_handler valid_symbols scanner lexer =
     (if valid_symbols PATTERN_START \<and> \<not> in_error_recovery valid_symbols then
        (if get_current_context scanner = CTX_PARAMETER \<and> lookahead lexer \<noteq> c_rbrace then
           Return True (enter_context scanner CTX_PARAMETER_PATTERN_SUBSTITUTE)
             (mark_end (lexer\<lparr>result_symbol := PATTERN_START\<rparr>))
         else Continue scanner lexer)
      else Continue scanner lexer)"

definition pattern_suffix_start_handler ::
  "(TokenType \<Rightarrow> bool) \<Rightarrow> Scanner \<Rightarrow> TSLexer \<Rightarrow> outcome" where
  "pattern_suffix_start_handler valid_symbols scanner lexer =
     (if valid_symbols PATTERN_SUFFIX_START \<and> \<not> in_error_recovery valid_symbols then
        (if get_current_context scanner = CTX_PARAMETER \<and> lookahead lexer \<noteq> c_rbrace then
           Return True (enter_context scanner CTX_PARAMETER_PATTERN_SUFFIX)
             (mark_end (lexer\<lparr>result_symbol := PATTERN_SUFFIX_START\<rparr>))
         else Continue scanner lexer)
      else Continue scanner lexer)"

text \<open>A colon inside a parameter expansion: consumed, then \<open>return false\<close>.\<close>

definition colon_handler :: "(TokenType \<Rightarrow> bool) \<Rightarrow> Scanner \<Rightarrow> TSLexer \<Rightarrow> outcome" where
  "colon_handler valid_symbols scanner lexer =
     (if in_parameter_expansion scanner \<and> lookahead lexer = c_colon \<and>
         \<not> in_error_recovery valid_symbols
      then Return False scanner (advance lexer)
      else Continue scanner lexer)"

text \<open>HASH_PATTERN and DOUBLE_HASH_PATTERN inside a parameter expansion.\<close>

definition hash_handler :: "(TokenType \<Rightarrow> bool) \<Rightarrow> Scanner \<Rightarrow> TSLexer \<Rightarrow> outcome" where
  "hash_handler valid_symbols scanner lexer =
     (if in_parameter_expansion scanner \<and> lookahead lexer = c_hash \<and>
         \<not> in_error_recovery valid_symbols then
        (let lexer1 = advance lexer
         in if lookahead lexer1 = c_hash then
              (if valid_symbols DOUBLE_HASH_PATTERN then
                 Return True scanner
                   (mark_end ((advance lexer1)\<lparr>result_symbol := DOUBLE_HASH_PATTERN\<rparr>))
               else Return False scanner lexer1)
            else
              (if valid_symbols HASH_PATTERN then
                 Return True scanner (mark_end (lexer1\<lparr>result_symbol := HASH_PATTERN\<rparr>))
               else Return False scanner lexer1))
      else Continue scanner lexer)"

text \<open>IMMEDIATE_DOUBLE_HASH: two hashes not followed by a closing brace.\<close>

definition immediate_double_hash_handler ::
  "(TokenType \<Rightarrow> bool) \<Rightarrow> Scanner \<Rightarrow> TSLexer \<Rightarrow> outcome" where
  "immediate_double_hash_handler valid_symbols scanner lexer =
     (if valid_symbols IMMEDIATE_DOUBLE_HASH \<and> \<not> in_error_recovery valid_symbols then
        (if lookahead lexer = c_hash then
           (let lexer1 = advance (mark_end lexer)
            in if lookahead lexer1 = c_hash then
                 (let lexer2 = advance lexer1
                  in if lookahead lexer2 \<noteq> c_rbrace then
                       Return True scanner
                         (mark_end (lexer2\<lparr>result_symbol := IMMEDIATE_DOUBLE_HASH\<rparr>))
                     else Continue scanner lexer2)
               else Continue scanner lexer1)
         else Continue scanner lexer)
      else Continue scanner lexer)"

text \<open>The array operators \<open>*\<close> and \<open>@\<close> of a subscript.\<close>

definition array_token_handler ::
  "(TokenType \<Rightarrow> bool) \<Rightarrow> Scanner \<Rightarrow> TSLexer \<Rightarrow> outcome" where
  "array_token_handler valid_symbols scanner lexer =
     (if (valid_symbols ARRAY_STAR_TOKEN \<or> valid_symbols ARRAY_AT_TOKEN) \<and>
         \<not> in_error_recovery valid_symbols then
        (if lookahead lexer = c_star \<and> valid_symbols ARRAY_STAR_TOKEN \<and>
            \<not> valid_symbols REGEX \<and> \<not> valid_symbols REGEX_NO_SLASH \<and>
            \<not> valid_symbols REGEX_NO_SPACE
         then Return True scanner
                (mark_end (advance (lexer\<lparr>result_symbol := ARRAY_STAR_TOKEN\<rparr>)))
         else if lookahead lexer = c_at \<and> valid_symbols ARRAY_AT_TOKEN
         then Return True scanner
                (mark_end (advance (lexer\<lparr>result_symbol := ARRAY_AT_TOKEN\<rparr>)))
         else Continue scanner lexer)
      else Continue scanner lexer)"

text \<open>EMPTY_VALUE: nothing is consumed, and the block is not gated by error recovery.\<close>

definition empty_value_handler ::
  "(TokenType \<Rightarrow> bool) \<Rightarrow> Scanner \<Rightarrow> TSLexer \<Rightarrow> outcome" where
  "empty_value_handler valid_symbols scanner lexer =
     (if valid_symbols EMPTY_VALUE then
        (if iswspace (lookahead lexer) \<or> eof lexer \<or> lookahead lexer = c_semicolon \<or>
            lookahead lexer = c_amp
         then Return True scanner (lexer\<lparr>result_symbol := EMPTY_VALUE\<rparr>)
         else Continue scanner lexer)
      else Continue scanner lexer)"

subsection \<open>Here-documents\<close>

text \<open>
  \<open>advance_word\<close>: the loop returns \<open>(ok, empty, word, lexer)\<close> (\<open>empty_word\<close> is the local \<open>empty\<close>); \<open>ok\<close> is false on the
  \<open>return false\<close> inside the loop (a backslash at the end of the input).
  \<open>array_push(unquoted_word, lexer->lookahead)\<close> truncates the code point to a \<open>char\<close>.
\<close>

function advance_word_loop ::
  "int \<Rightarrow> bool \<Rightarrow> 8 word list \<Rightarrow> TSLexer \<Rightarrow> bool \<times> bool \<times> 8 word list \<times> TSLexer" where
  "advance_word_loop quote empty_word unquoted_word lexer =
     (if lookahead lexer \<noteq> 0 \<and>
         \<not> (if quote \<noteq> 0
            then lookahead lexer = quote \<or> lookahead lexer = c_cr \<or>
                 lookahead lexer = c_newline
            else iswspace (lookahead lexer))
      then
        (let lexer1 = (if lookahead lexer = c_backslash then advance lexer else lexer)
         in if lookahead lexer = c_backslash \<and> lookahead lexer1 = 0
            then (False, empty_word, unquoted_word, lexer1)
            else advance_word_loop quote False
                   (unquoted_word @ [word_of_int (lookahead lexer1)]) (advance lexer1))
      else (True, empty_word, unquoted_word, lexer))"
  by pat_completeness auto
termination
  by (relation "measure (\<lambda>(quote, empty_word, unquoted_word, lexer). remaining lexer)")
     (auto simp: Let_def dest!: lookahead_remaining)

declare advance_word_loop.simps [simp del]

definition advance_word :: "TSLexer \<Rightarrow> 8 word list \<Rightarrow> bool \<times> TSLexer \<times> 8 word list" where
  "advance_word lexer unquoted_word =
     (let quote = (if lookahead lexer = c_squote \<or> lookahead lexer = c_dquote
                   then lookahead lexer else 0);
          lexer1 = (if lookahead lexer = c_squote \<or> lookahead lexer = c_dquote
                    then advance lexer else lexer)
      in case advance_word_loop quote True unquoted_word lexer1 of
           (ok, empty_word, word, lexer2) \<Rightarrow>
             if \<not> ok then (False, lexer2, word)
             else (let word1 = word @ [0];
                       lexer3 = (if quote \<noteq> 0 \<and> lookahead lexer2 = quote
                                 then advance lexer2 else lexer2)
                   in (\<not> empty_word, lexer3, word1)))"

definition scan_raw_dollar :: "TSLexer \<Rightarrow> bool \<times> TSLexer" where
  "scan_raw_dollar lexer =
     (let lexer1 = skip_while (\<lambda>c. iswspace c \<and> c \<noteq> c_newline) lexer
      in if lookahead lexer1 = c_dollar then
           (let lexer2 = mark_end ((advance lexer1)\<lparr>result_symbol := BARE_DOLLAR\<rparr>)
            in (iswspace (lookahead lexer2) \<or> eof lexer2 \<or> lookahead lexer2 = c_dquote,
                lexer2))
         else (False, lexer1))"

definition scan_heredoc_start :: "Heredoc \<Rightarrow> TSLexer \<Rightarrow> bool \<times> Heredoc \<times> TSLexer" where
  "scan_heredoc_start heredoc lexer =
     (let lexer1 = (skip_while iswspace lexer)\<lparr>result_symbol := HEREDOC_START\<rparr>;
          heredoc1 = heredoc\<lparr>is_raw := (lookahead lexer1 = c_squote \<or>
                                        lookahead lexer1 = c_dquote \<or>
                                        lookahead lexer1 = c_backslash)\<rparr>
      in case advance_word lexer1 (delimiter heredoc1) of
           (found_delimiter, lexer2, word) \<Rightarrow>
             if \<not> found_delimiter
             then (False, heredoc1\<lparr>delimiter := reset_string word\<rparr>, lexer2)
             else (found_delimiter, heredoc1\<lparr>delimiter := word\<rparr>, lexer2))"

text \<open>
  \<open>strcmp(a, b) == 0\<close>: the two C strings are equal up to their first NUL. (A buffer
  without a NUL would be read past its end; every buffer compared here ends in one.)
\<close>

definition c_string :: "8 word list \<Rightarrow> 8 word list" where
  "c_string contents = takeWhile (\<lambda>c. c \<noteq> 0) contents"

text \<open>
  The loop of \<open>scan_heredoc_end_identifier\<close>. \<open>array_get(&heredoc->delimiter, size)\<close>
  asserts \<open>size < delimiter.size\<close> and stands in the condition before the test
  \<open>current_leading_word.size < delimiter.size\<close>: the result is \<open>None\<close> when the
  assertion fails. The \<open>char\<close> read is widened to \<open>int32_t\<close> as a signed value.
\<close>

function end_identifier_loop ::
  "8 word list \<Rightarrow> nat \<Rightarrow> 8 word list \<Rightarrow> TSLexer \<Rightarrow> (8 word list \<times> TSLexer) option" where
  "end_identifier_loop delim size0 leading_word lexer =
     (if lookahead lexer \<noteq> 0 \<and> lookahead lexer \<noteq> c_newline then
        (if size0 < length delim then
           (if sint (delim ! size0) = lookahead lexer \<and> length leading_word < length delim
            then end_identifier_loop delim (size0 + 1)
                   (leading_word @ [word_of_int (lookahead lexer)]) (advance lexer)
            else Some (leading_word, lexer))
         else None)
      else Some (leading_word, lexer))"
  by pat_completeness auto
termination
  by (relation "measure (\<lambda>(delim, size0, leading_word, lexer). remaining lexer)")
     (auto dest!: lookahead_remaining)

declare end_identifier_loop.simps [simp del]

definition scan_heredoc_end_identifier ::
  "Heredoc \<Rightarrow> TSLexer \<Rightarrow> (bool \<times> Heredoc \<times> TSLexer) option" where
  "scan_heredoc_end_identifier heredoc lexer =
     (let leading_word = reset_string (current_leading_word heredoc)
      in case (if length (delimiter heredoc) > 0
               then end_identifier_loop (delimiter heredoc) 0 leading_word lexer
               else Some (leading_word, lexer)) of
           None \<Rightarrow> None
         | Some (leading_word1, lexer1) \<Rightarrow>
             (let heredoc1 = heredoc\<lparr>current_leading_word := leading_word1 @ [0]\<rparr>
              in Some (if length (delimiter heredoc1) = 0 then False
                       else c_string (current_leading_word heredoc1) =
                            c_string (delimiter heredoc1),
                       heredoc1, lexer1)))"

lemma remaining_end_identifier_loop:
  "end_identifier_loop delim n w lexer = Some (w', lexer') \<Longrightarrow>
   remaining lexer' \<le> remaining lexer"
proof (induction delim n w lexer rule: end_identifier_loop.induct)
  case (1 delim size0 leading_word lexer)
  show ?case
  proof (cases "(lookahead lexer \<noteq> 0 \<and> lookahead lexer \<noteq> c_newline) \<and> size0 < length delim \<and>
                 (sint (delim ! size0) = lookahead lexer \<and> length leading_word < length delim)")
    case True
    with "1.prems" have eq: "end_identifier_loop delim (size0 + 1)
        (leading_word @ [word_of_int (lookahead lexer)]) (advance lexer) = Some (w', lexer')"
      by (subst (asm) end_identifier_loop.simps) simp
    from True have "remaining lexer' \<le> remaining (advance lexer)"
      by (intro "1.IH" [OF _ _ _ eq]) simp_all
    then show ?thesis by simp
  next
    case False
    with "1.prems" show ?thesis
      by (subst (asm) end_identifier_loop.simps) (auto split: if_splits)
  qed
qed

lemma remaining_scan_heredoc_end_identifier:
  "scan_heredoc_end_identifier heredoc lexer = Some (m, heredoc', lexer') \<Longrightarrow>
   remaining lexer' \<le> remaining lexer"
  by (auto simp: scan_heredoc_end_identifier_def Let_def split: if_splits option.splits
           dest: remaining_end_identifier_loop)

text \<open>
  \<open>scan_heredoc_content\<close> works on \<open>array_back(&scanner->heredocs)\<close>, a pointer to the
  last record: \<open>set_back\<close> writes that record back. One round of its \<open>for (;;)\<close> either
  goes round again (\<open>Inl\<close>, with \<open>did_advance\<close>) or leaves \<open>scan\<close> (\<open>Inr\<close>).
\<close>

definition set_back :: "Scanner \<Rightarrow> Heredoc \<Rightarrow> Scanner" where
  "set_back scanner heredoc =
     scanner\<lparr>heredocs := butlast (heredocs scanner) @ [heredoc]\<rparr>"

definition heredoc_content_step ::
  "TokenType \<Rightarrow> TokenType \<Rightarrow> bool \<Rightarrow> Scanner \<Rightarrow> TSLexer
     \<Rightarrow> (bool \<times> Scanner \<times> TSLexer) + outcome" where
  "heredoc_content_step middle_type end_type did_advance scanner lexer =
     (let heredoc = last (heredocs scanner)
      in if lookahead lexer = 0 then
           (if eof lexer \<and> did_advance
            then Inr (Return True (set_back scanner (reset_heredoc heredoc))
                        (lexer\<lparr>result_symbol := end_type\<rparr>))
            else Inr (Return False scanner lexer))
         else if lookahead lexer = c_backslash then
           Inl (True, scanner, advance (advance lexer))
         else if lookahead lexer = c_dollar then
           (if is_raw heredoc then Inl (True, scanner, advance lexer)
            else if did_advance then
              (let lexer1 = advance ((mark_end lexer)\<lparr>result_symbol := middle_type\<rparr>);
                   scanner1 = set_back scanner (heredoc\<lparr>started := True\<rparr>)
               in if iswalpha (lookahead lexer1) \<or> lookahead lexer1 = c_lbrace \<or>
                     lookahead lexer1 = c_lparen
                  then Inr (Return True scanner1 lexer1)
                  else Inl (did_advance, scanner1, lexer1))
            else if middle_type = HEREDOC_BODY_BEGINNING \<and> get_column lexer = 0 then
              Inr (Return True (set_back scanner (heredoc\<lparr>started := True\<rparr>))
                     (lexer\<lparr>result_symbol := middle_type\<rparr>))
            else Inr (Return False scanner lexer))
         else if lookahead lexer = c_newline then
           (let lexer1 = (if \<not> did_advance then skip lexer else advance lexer);
                lexer2 = (if allows_indent heredoc then advance_while iswspace lexer1
                          else lexer1);
                lexer3 = mark_end (lexer2\<lparr>result_symbol :=
                                     (if started heredoc then middle_type else end_type)\<rparr>)
            in case scan_heredoc_end_identifier heredoc lexer3 of
                 None \<Rightarrow> Inr Abort
               | Some (matched, heredoc1, lexer4) \<Rightarrow>
                   if matched then
                     (if result_symbol lexer4 = HEREDOC_END
                      then Inr (Return True
                                  (scanner\<lparr>heredocs := butlast (heredocs scanner)\<rparr>) lexer4)
                      else Inr (Return True (set_back scanner heredoc1) lexer4))
                   else Inl (True, set_back scanner heredoc1, lexer4))
         else
           (if get_column lexer = 0 then
              (let lexer1 = (if did_advance then advance_while iswspace lexer
                             else skip_while iswspace lexer)
               in if end_type \<noteq> SIMPLE_HEREDOC_BODY then
                    (case scan_heredoc_end_identifier heredoc
                            (lexer1\<lparr>result_symbol := middle_type\<rparr>) of
                       None \<Rightarrow> Inr Abort
                     | Some (matched, heredoc1, lexer2) \<Rightarrow>
                         if matched then Inr (Return True (set_back scanner heredoc1) lexer2)
                         else Inl (True, set_back scanner heredoc1, advance lexer2))
                  else
                    (case scan_heredoc_end_identifier heredoc
                            (mark_end (lexer1\<lparr>result_symbol := end_type\<rparr>)) of
                       None \<Rightarrow> Inr Abort
                     | Some (matched, heredoc1, lexer2) \<Rightarrow>
                         if matched then Inr (Return True (set_back scanner heredoc1) lexer2)
                         else Inl (True, set_back scanner heredoc1, advance lexer2)))
            else Inl (True, scanner, advance lexer)))"

lemma heredoc_content_step_progress:
  assumes "heredoc_content_step middle_type end_type did_advance scanner lexer =
             Inl (did_advance', scanner', lexer')"
  shows "remaining lexer' < remaining lexer"
proof -
  have "lookahead lexer \<noteq> 0"
  proof
    assume "lookahead lexer = 0"
    with assms show False by (simp add: heredoc_content_step_def Let_def split: if_splits)
  qed
  then have ne: "0 < remaining lexer" by (rule lookahead_remaining)
  from assms ne show ?thesis
    using remaining_advance_while [of iswspace "advance lexer"]
          remaining_advance_while [of iswspace "skip lexer"]
          remaining_advance_while [of iswspace lexer]
          remaining_skip_while [of iswspace lexer]
    by (auto simp add: heredoc_content_step_def Let_def split: if_splits option.splits
             dest!: remaining_scan_heredoc_end_identifier)
qed

function heredoc_content_loop ::
  "TokenType \<Rightarrow> TokenType \<Rightarrow> bool \<Rightarrow> Scanner \<Rightarrow> TSLexer \<Rightarrow> outcome" where
  "heredoc_content_loop middle_type end_type did_advance scanner lexer =
     (case heredoc_content_step middle_type end_type did_advance scanner lexer of
        Inl (did_advance1, scanner1, lexer1) \<Rightarrow>
          heredoc_content_loop middle_type end_type did_advance1 scanner1 lexer1
      | Inr result \<Rightarrow> result)"
  by pat_completeness auto
termination
  by (relation "measure (\<lambda>(middle_type, end_type, did_advance, scanner, lexer).
                           remaining lexer)")
     (auto dest: heredoc_content_step_progress)

declare heredoc_content_loop.simps [simp del]

text \<open>\<open>array_back\<close> asserts that the array is not empty.\<close>

definition scan_heredoc_content ::
  "Scanner \<Rightarrow> TSLexer \<Rightarrow> TokenType \<Rightarrow> TokenType \<Rightarrow> outcome" where
  "scan_heredoc_content scanner lexer middle_type end_type =
     (if length (heredocs scanner) = 0 then Abort
      else heredoc_content_loop middle_type end_type False scanner lexer)"

definition heredoc_body_handler ::
  "(TokenType \<Rightarrow> bool) \<Rightarrow> Scanner \<Rightarrow> TSLexer \<Rightarrow> outcome" where
  "heredoc_body_handler valid_symbols scanner lexer =
     (if (valid_symbols HEREDOC_BODY_BEGINNING \<or> valid_symbols SIMPLE_HEREDOC_BODY) \<and>
         length (heredocs scanner) > 0 \<and> \<not> started (last (heredocs scanner)) \<and>
         \<not> in_error_recovery valid_symbols
      then scan_heredoc_content scanner lexer HEREDOC_BODY_BEGINNING SIMPLE_HEREDOC_BODY
      else Continue scanner lexer)"

text \<open>
  HEREDOC_END: not gated by error recovery. On a match the two strings of the record
  are freed and the record popped; otherwise \<open>current_leading_word\<close> stays rewritten and
  the lexer stays where the comparison stopped.
\<close>

definition heredoc_end_handler ::
  "(TokenType \<Rightarrow> bool) \<Rightarrow> Scanner \<Rightarrow> TSLexer \<Rightarrow> outcome" where
  "heredoc_end_handler valid_symbols scanner lexer =
     (if valid_symbols HEREDOC_END \<and> length (heredocs scanner) > 0 then
        (case scan_heredoc_end_identifier (last (heredocs scanner)) lexer of
           None \<Rightarrow> Abort
         | Some (matched, heredoc1, lexer1) \<Rightarrow>
             if matched
             then Return True (scanner\<lparr>heredocs := butlast (heredocs scanner)\<rparr>)
                    (lexer1\<lparr>result_symbol := HEREDOC_END\<rparr>)
             else Continue (set_back scanner heredoc1) lexer1)
      else Continue scanner lexer)"

definition heredoc_content_handler ::
  "(TokenType \<Rightarrow> bool) \<Rightarrow> Scanner \<Rightarrow> TSLexer \<Rightarrow> outcome" where
  "heredoc_content_handler valid_symbols scanner lexer =
     (if valid_symbols HEREDOC_CONTENT \<and> length (heredocs scanner) > 0 \<and>
         started (last (heredocs scanner)) \<and> \<not> in_error_recovery valid_symbols
      then scan_heredoc_content scanner lexer HEREDOC_CONTENT HEREDOC_END
      else Continue scanner lexer)"

definition heredoc_start_handler ::
  "(TokenType \<Rightarrow> bool) \<Rightarrow> Scanner \<Rightarrow> TSLexer \<Rightarrow> outcome" where
  "heredoc_start_handler valid_symbols scanner lexer =
     (if valid_symbols HEREDOC_START \<and> \<not> in_error_recovery valid_symbols \<and>
         length (heredocs scanner) > 0 then
        (case scan_heredoc_start (last (heredocs scanner)) lexer of
           (found_delimiter, heredoc1, lexer1) \<Rightarrow>
             Return found_delimiter (set_back scanner heredoc1) lexer1)
      else Continue scanner lexer)"

subsection \<open>Test operators and names\<close>

text \<open>
  TEST_OPERATOR, in three parts: the line continuation after a backslash, the dash
  with its letters, and the raw dollar at the end of the block. The block is not
  gated by error recovery.
\<close>

definition test_operator_backslash ::
  "(TokenType \<Rightarrow> bool) \<Rightarrow> Scanner \<Rightarrow> TSLexer \<Rightarrow> outcome" where
  "test_operator_backslash valid_symbols scanner lexer =
     (if lookahead lexer = c_backslash then
        (if valid_symbols EXTGLOB_PATTERN then Goto L_extglob_pattern scanner lexer
         else if valid_symbols REGEX_NO_SPACE then Goto L_regex scanner lexer
         else
           (let lexer1 = skip lexer
            in if eof lexer1 then Return False scanner lexer1
               else if lookahead lexer1 = c_cr then
                 (let lexer2 = skip lexer1;
                      lexer3 = (if lookahead lexer2 = c_newline then skip lexer2 else lexer2)
                  in Continue scanner (skip_while iswspace lexer3))
               else if lookahead lexer1 = c_newline then
                 Continue scanner (skip_while iswspace (skip lexer1))
               else Return False scanner lexer1))
      else Continue scanner lexer)"

definition test_operator_dash ::
  "(TokenType \<Rightarrow> bool) \<Rightarrow> Scanner \<Rightarrow> TSLexer \<Rightarrow> outcome" where
  "test_operator_dash valid_symbols scanner lexer =
     (if lookahead lexer = c_minus then
        (let lexer1 = advance lexer;
             advanced_once = iswalpha (lookahead lexer1);
             lexer2 = advance_while iswalpha lexer1
         in if iswspace (lookahead lexer2) \<and> advanced_once then
              (let lexer3 = advance (mark_end lexer2);
                   ctx = get_current_context scanner
               in if lookahead lexer3 = c_rbrace \<and>
                     (ctx = CTX_PARAMETER \<or> ctx = CTX_PARAMETER_PATTERN_SUFFIX \<or>
                      ctx = CTX_PARAMETER_PATTERN_SUBSTITUTE) then
                    (if valid_symbols EXPANSION_WORD then
                       Return True scanner ((mark_end lexer3)\<lparr>result_symbol := EXPANSION_WORD\<rparr>)
                     else Return False scanner lexer3)
                  else Return True scanner (lexer3\<lparr>result_symbol := TEST_OPERATOR\<rparr>))
            else if iswspace (lookahead lexer2) \<and> valid_symbols EXTGLOB_PATTERN then
              Return True scanner (lexer2\<lparr>result_symbol := EXTGLOB_PATTERN\<rparr>)
            else Continue scanner lexer2)
      else Continue scanner lexer)"

definition raw_dollar_check ::
  "(TokenType \<Rightarrow> bool) \<Rightarrow> Scanner \<Rightarrow> TSLexer \<Rightarrow> outcome" where
  "raw_dollar_check valid_symbols scanner lexer =
     (if valid_symbols RAW_DOLLAR \<and> \<not> in_error_recovery valid_symbols then
        (case scan_raw_dollar lexer of
           (found, lexer1) \<Rightarrow>
             if found then Return True scanner lexer1 else Continue scanner lexer1)
      else Continue scanner lexer)"

definition test_operator_handler ::
  "(TokenType \<Rightarrow> bool) \<Rightarrow> Scanner \<Rightarrow> TSLexer \<Rightarrow> outcome" where
  "test_operator_handler valid_symbols scanner lexer =
     (if valid_symbols TEST_OPERATOR \<and> \<not> valid_symbols EXPANSION_WORD then
        (case test_operator_backslash valid_symbols scanner
                (skip_while (\<lambda>c. iswspace c \<and> c \<noteq> c_newline) lexer) of
           Continue scanner1 lexer1 \<Rightarrow>
             (case test_operator_dash valid_symbols scanner1
                     (if lookahead lexer1 = c_newline \<and> \<not> valid_symbols NEWLINE
                      then skip_while iswspace (skip lexer1) else lexer1) of
                Continue scanner2 lexer2 \<Rightarrow> raw_dollar_check valid_symbols scanner2 lexer2
              | result \<Rightarrow> result)
         | result \<Rightarrow> result)
      else Continue scanner lexer)"

text \<open>
  SIMPLE_VARIABLE_NAME. \<open>consumed\<close> counts the rounds of the loop, each of which moves
  the lexer by one character.
\<close>

definition simple_variable_name_handler ::
  "(TokenType \<Rightarrow> bool) \<Rightarrow> Scanner \<Rightarrow> TSLexer \<Rightarrow> outcome" where
  "simple_variable_name_handler valid_symbols scanner lexer =
     (if valid_symbols SIMPLE_VARIABLE_NAME \<and> \<not> in_error_recovery valid_symbols then
        (let lexer1 = skip_while iswspace lexer
         in if iswalpha (lookahead lexer1) \<or> lookahead lexer1 = c_underscore then
              (let lexer2 = advance_while (\<lambda>c. iswalnum c \<or> c = c_underscore) lexer1;
                   consumed = position lexer2 - position lexer1
               in if consumed > 0 then
                    Return True (scanner\<lparr>just_returned_bare_dollar := False\<rparr>)
                      ((mark_end lexer2)\<lparr>result_symbol := SIMPLE_VARIABLE_NAME\<rparr>)
                  else Continue scanner lexer2)
            else Continue scanner lexer1)
      else Continue scanner lexer)"

definition special_variable_name_handler ::
  "(TokenType \<Rightarrow> bool) \<Rightarrow> Scanner \<Rightarrow> TSLexer \<Rightarrow> outcome" where
  "special_variable_name_handler valid_symbols scanner lexer =
     (if valid_symbols SPECIAL_VARIABLE_NAME \<and> \<not> in_error_recovery valid_symbols then
        (let lexer1 = skip_while iswspace lexer;
             in_param_expand = in_parameter_expansion_context scanner
         in if lookahead lexer1 = c_star \<or> lookahead lexer1 = c_at \<or>
               lookahead lexer1 = c_question \<or> lookahead lexer1 = c_bang \<or>
               lookahead lexer1 = c_hash \<or> lookahead lexer1 = c_minus \<or>
               lookahead lexer1 = c_dollar \<or> lookahead lexer1 = c_underscore \<or>
               iswdigit (lookahead lexer1) then
              (let flag_char = (lookahead lexer1 = c_hash \<or> lookahead lexer1 = c_bang);
                   lexer2 = advance lexer1
               in if \<not> (in_param_expand \<and> flag_char) then
                    Return True (scanner\<lparr>just_returned_bare_dollar := False\<rparr>)
                      ((mark_end lexer2)\<lparr>result_symbol := SPECIAL_VARIABLE_NAME\<rparr>)
                  else Return False scanner lexer2)
            else Continue scanner lexer1)
      else Continue scanner lexer)"

text \<open>
  VARIABLE_NAME, FILE_DESCRIPTOR and HEREDOC_ARROW. First the \<open>for (;;)\<close> that skips
  blanks and line continuations; \<open>Continue\<close> is its \<open>break\<close>.
\<close>

function variable_name_skip ::
  "(TokenType \<Rightarrow> bool) \<Rightarrow> Scanner \<Rightarrow> TSLexer \<Rightarrow> outcome" where
  "variable_name_skip valid_symbols scanner lexer =
     (if (lookahead lexer = c_space \<or> lookahead lexer = c_tab \<or> lookahead lexer = c_cr \<or>
          (lookahead lexer = c_newline \<and> \<not> valid_symbols NEWLINE)) \<and>
         \<not> valid_symbols EXPANSION_WORD
      then variable_name_skip valid_symbols scanner (skip lexer)
      else if lookahead lexer = c_backslash then
        (let lexer1 = skip lexer
         in if eof lexer1 then
              Return True
                (scanner\<lparr>just_returned_bare_dollar := False,
                          just_returned_variable_name := True\<rparr>)
                ((mark_end lexer1)\<lparr>result_symbol := VARIABLE_NAME\<rparr>)
            else
              (let lexer2 = (if lookahead lexer1 = c_cr then skip lexer1 else lexer1)
               in if lookahead lexer2 = c_newline
                  then variable_name_skip valid_symbols scanner (skip lexer2)
                  else if lookahead lexer2 = c_backslash \<and> valid_symbols EXPANSION_WORD
                  then Goto L_expansion_word scanner lexer2
                  else Return False scanner lexer2))
      else Continue scanner lexer)"
  by pat_completeness auto
termination
  by (relation "measure (\<lambda>(valid_symbols, scanner, lexer). remaining lexer)")
     (auto simp: Let_def intro!: remaining_diff_less split: if_splits)

declare variable_name_skip.simps [simp del]

definition variable_name_special ::
  "(TokenType \<Rightarrow> bool) \<Rightarrow> Scanner \<Rightarrow> TSLexer \<Rightarrow> outcome" where
  "variable_name_special valid_symbols scanner lexer =
     (if \<not> valid_symbols EXPANSION_WORD \<and>
         (lookahead lexer = c_star \<or> lookahead lexer = c_at \<or> lookahead lexer = c_question \<or>
          lookahead lexer = c_minus \<or> lookahead lexer = c_zero \<or>
          lookahead lexer = c_underscore \<or> lookahead lexer = c_hash) then
        (let lexer1 = advance (mark_end lexer)
         in if lookahead lexer1 = c_eq \<or> lookahead lexer1 = c_lbracket \<or>
               lookahead lexer1 = c_colon \<or> lookahead lexer1 = c_minus \<or>
               lookahead lexer1 = c_percent \<or> lookahead lexer1 = c_slash
            then Return False scanner lexer1
            else if valid_symbols EXTGLOB_PATTERN \<and> iswspace (lookahead lexer1)
            then Return True scanner ((mark_end lexer1)\<lparr>result_symbol := EXTGLOB_PATTERN\<rparr>)
            else Continue scanner lexer1)
      else Continue scanner lexer)"

text \<open>The heredoc operators push a new record at the back of \<open>heredocs\<close>.\<close>

definition heredoc_arrow ::
  "(TokenType \<Rightarrow> bool) \<Rightarrow> Scanner \<Rightarrow> TSLexer \<Rightarrow> outcome" where
  "heredoc_arrow valid_symbols scanner lexer =
     (if valid_symbols HEREDOC_ARROW \<and> lookahead lexer = c_lt then
        (let lexer1 = advance lexer
         in if lookahead lexer1 = c_lt then
              (let lexer2 = advance lexer1
               in if lookahead lexer2 = c_minus then
                    Return True
                      (scanner\<lparr>heredocs := heredocs scanner @
                                  [heredoc_new\<lparr>allows_indent := True\<rparr>]\<rparr>)
                      ((advance lexer2)\<lparr>result_symbol := HEREDOC_ARROW_DASH\<rparr>)
                  else if lookahead lexer2 = c_lt \<or> lookahead lexer2 = c_eq then
                    Return False scanner lexer2
                  else
                    Return True (scanner\<lparr>heredocs := heredocs scanner @ [heredoc_new]\<rparr>)
                      (lexer2\<lparr>result_symbol := HEREDOC_ARROW\<rparr>))
            else Return False scanner lexer1)
      else Continue scanner lexer)"

text \<open>The second \<open>for (;;)\<close>: the rest of the identifier or number.\<close>

function identifier_loop :: "bool \<Rightarrow> TSLexer \<Rightarrow> bool \<times> TSLexer" where
  "identifier_loop is_number lexer =
     (if iswdigit (lookahead lexer) then identifier_loop is_number (advance lexer)
      else if iswalpha (lookahead lexer) \<or> lookahead lexer = c_underscore
      then identifier_loop False (advance lexer)
      else (is_number, lexer))"
  by pat_completeness auto
termination
  by (relation "measure (\<lambda>(is_number, lexer). remaining lexer)")
     (auto simp: iswdigit_def iswalpha_def intro!: remaining_diff_less)

declare identifier_loop.simps [simp del]

definition variable_name_tail ::
  "(TokenType \<Rightarrow> bool) \<Rightarrow> Scanner \<Rightarrow> bool \<Rightarrow> TSLexer \<Rightarrow> outcome" where
  "variable_name_tail valid_symbols scanner is_number0 lexer0 =
     (case identifier_loop is_number0 lexer0 of
        (is_number, lexer) \<Rightarrow>
          if is_number \<and> valid_symbols FILE_DESCRIPTOR \<and>
             (lookahead lexer = c_gt \<or> lookahead lexer = c_lt)
          then Return True scanner (lexer\<lparr>result_symbol := FILE_DESCRIPTOR\<rparr>)
          else if valid_symbols VARIABLE_NAME then
            (if lookahead lexer = c_plus then
               (let lexer1 = advance (mark_end lexer);
                    ctx = get_current_context scanner
                in if lookahead lexer1 = c_eq \<or> lookahead lexer1 = c_colon \<or>
                      (ctx = CTX_PARAMETER \<or> ctx = CTX_PARAMETER_PATTERN_SUFFIX \<or>
                       ctx = CTX_PARAMETER_PATTERN_SUBSTITUTE)
                   then Return True
                          (scanner\<lparr>just_returned_bare_dollar := False,
                                    just_returned_variable_name := True\<rparr>)
                          (lexer1\<lparr>result_symbol := VARIABLE_NAME\<rparr>)
                   else Return False scanner lexer1)
             else if lookahead lexer = c_slash then Return False scanner lexer
             else
               (let ctx = get_current_context scanner
                in if lookahead lexer = c_eq \<or> lookahead lexer = c_lbracket \<or>
                      lookahead lexer = c_percent \<or>
                      (lookahead lexer = c_hash \<and> \<not> is_number) \<or>
                      lookahead lexer = c_at \<or>
                      (lookahead lexer = c_minus \<and>
                       (ctx = CTX_PARAMETER \<or> ctx = CTX_PARAMETER_PATTERN_SUFFIX \<or>
                        ctx = CTX_PARAMETER_PATTERN_SUBSTITUTE))
                   then Return True
                          (scanner\<lparr>just_returned_bare_dollar := False,
                                    just_returned_variable_name := True\<rparr>)
                          ((mark_end lexer)\<lparr>result_symbol := VARIABLE_NAME\<rparr>)
                   else if lookahead lexer = c_question then
                     (let lexer1 = advance (mark_end lexer)
                      in Return (iswalpha (lookahead lexer1))
                           (scanner\<lparr>just_returned_bare_dollar := False,
                                     just_returned_variable_name := True\<rparr>)
                           (lexer1\<lparr>result_symbol := VARIABLE_NAME\<rparr>))
                   else Return False scanner lexer))
          else Return False scanner lexer)"

definition variable_name_word ::
  "(TokenType \<Rightarrow> bool) \<Rightarrow> Scanner \<Rightarrow> TSLexer \<Rightarrow> outcome" where
  "variable_name_word valid_symbols scanner lexer =
     (if iswdigit (lookahead lexer)
      then variable_name_tail valid_symbols scanner True (advance lexer)
      else if iswalpha (lookahead lexer) \<or> lookahead lexer = c_underscore
      then variable_name_tail valid_symbols scanner False (advance lexer)
      else if lookahead lexer = c_lbrace then Goto L_brace_start scanner lexer
      else if valid_symbols EXPANSION_WORD then Goto L_expansion_word scanner lexer
      else if valid_symbols EXTGLOB_PATTERN then Goto L_extglob_pattern scanner lexer
      else Return False scanner lexer)"

definition variable_name_handler ::
  "(TokenType \<Rightarrow> bool) \<Rightarrow> Scanner \<Rightarrow> TSLexer \<Rightarrow> outcome" where
  "variable_name_handler valid_symbols scanner lexer =
     (if (valid_symbols VARIABLE_NAME \<or> valid_symbols FILE_DESCRIPTOR \<or>
          valid_symbols HEREDOC_ARROW) \<and> \<not> valid_symbols REGEX_NO_SLASH \<and>
         \<not> in_error_recovery valid_symbols then
        (case variable_name_skip valid_symbols scanner lexer of
           Continue scanner1 lexer1 \<Rightarrow>
             (case variable_name_special valid_symbols scanner1 lexer1 of
                Continue scanner2 lexer2 \<Rightarrow>
                  (case heredoc_arrow valid_symbols scanner2 lexer2 of
                     Continue scanner3 lexer3 \<Rightarrow> variable_name_word valid_symbols scanner3 lexer3
                   | result \<Rightarrow> result)
              | result \<Rightarrow> result)
         | result \<Rightarrow> result)
      else Continue scanner lexer)"

text \<open>The last use of \<open>scan_raw_dollar\<close>, under BARE_DOLLAR.\<close>

definition raw_dollar_handler ::
  "(TokenType \<Rightarrow> bool) \<Rightarrow> Scanner \<Rightarrow> TSLexer \<Rightarrow> outcome" where
  "raw_dollar_handler valid_symbols scanner lexer =
     (if valid_symbols BARE_DOLLAR \<and> \<not> in_error_recovery valid_symbols then
        (case scan_raw_dollar lexer of
           (found, lexer1) \<Rightarrow>
             if found then Return True scanner lexer1 else Continue scanner lexer1)
      else Continue scanner lexer)"

subsection \<open>The regex family (label regex)\<close>

text \<open>The local \<open>State\<close> of the regex block; its \<open>uint32_t\<close> depths wrap around.\<close>

record regex_state =
  rs_done :: bool
  rs_advanced_once :: bool
  rs_found_non_alnumdollarunderdash :: bool
  rs_last_was_escape :: bool
  rs_in_single_quote :: bool
  rs_paren_depth :: "32 word"
  rs_bracket_depth :: "32 word"
  rs_brace_depth :: "32 word"

definition regex_state_init :: regex_state where
  "regex_state_init =
     \<lparr> rs_done = False, rs_advanced_once = False,
       rs_found_non_alnumdollarunderdash = False, rs_last_was_escape = False,
       rs_in_single_quote = False, rs_paren_depth = 0, rs_bracket_depth = 0,
       rs_brace_depth = 0 \<rparr>"

text \<open>
  The head of a round: leaving a single-quoted stretch consumes the quote, marks the
  end and calls \<open>enter_context(scanner, CTX_PARAMETER)\<close>.
\<close>

definition regex_quote_exit ::
  "regex_state \<Rightarrow> Scanner \<Rightarrow> TSLexer \<Rightarrow> regex_state \<times> Scanner \<times> TSLexer" where
  "regex_quote_exit st scanner lexer =
     (if rs_in_single_quote st \<and> lookahead lexer = c_squote
      then (st\<lparr>rs_in_single_quote := False\<rparr>, enter_context scanner CTX_PARAMETER,
            mark_end (advance lexer))
      else (st, scanner, lexer))"

text \<open>The \<open>switch\<close>, without its cases NUL (a return) and single quote (a continue).\<close>

definition regex_switch :: "regex_state \<Rightarrow> int \<Rightarrow> regex_state" where
  "regex_switch st c =
     (if c = c_backslash then st\<lparr>rs_last_was_escape := True\<rparr>
      else if c = c_lparen then
        st\<lparr>rs_paren_depth := rs_paren_depth st + 1, rs_last_was_escape := False\<rparr>
      else if c = c_lbracket then
        st\<lparr>rs_bracket_depth := rs_bracket_depth st + 1, rs_last_was_escape := False\<rparr>
      else if c = c_lbrace then
        (if \<not> rs_last_was_escape st
         then st\<lparr>rs_brace_depth := rs_brace_depth st + 1, rs_last_was_escape := False\<rparr>
         else st\<lparr>rs_last_was_escape := False\<rparr>)
      else if c = c_rparen then
        st\<lparr>rs_done := (if rs_paren_depth st = 0 then True else rs_done st),
           rs_paren_depth := rs_paren_depth st - 1, rs_last_was_escape := False\<rparr>
      else if c = c_rbracket then
        st\<lparr>rs_done := (if rs_bracket_depth st = 0 then True else rs_done st),
           rs_bracket_depth := rs_bracket_depth st - 1, rs_last_was_escape := False\<rparr>
      else if c = c_rbrace then
        st\<lparr>rs_done := (if rs_brace_depth st = 0 then True else rs_done st),
           rs_brace_depth := rs_brace_depth st - 1, rs_last_was_escape := False\<rparr>
      else st\<lparr>rs_last_was_escape := False\<rparr>)"

text \<open>
  The \<open>if (!state.done)\<close> part of a round. Its third test,
  \<open>valid_symbols[REGEX_NO_SPACE]\<close>, holds whenever it is reached, the block being entered
  only when one of the three regex symbols is valid. The backslash branch under
  REGEX_NO_SLASH calls \<open>enter_context(scanner, CTX_PARAMETER)\<close>.
\<close>

definition regex_consume ::
  "(TokenType \<Rightarrow> bool) \<Rightarrow> regex_state \<Rightarrow> Scanner \<Rightarrow> TSLexer
     \<Rightarrow> (regex_state \<times> Scanner \<times> TSLexer) + outcome" where
  "regex_consume valid_symbols st scanner lexer =
     (if valid_symbols REGEX then
        (let was_space = (\<not> rs_in_single_quote st \<and> iswspace (lookahead lexer));
             lexer1 = advance lexer
         in Inl (st\<lparr>rs_advanced_once := True\<rparr>, scanner,
                 if \<not> was_space \<or> rs_paren_depth st > 0 then mark_end lexer1 else lexer1))
      else if valid_symbols REGEX_NO_SLASH then
        (if lookahead lexer = c_slash then
           Inr (Return (rs_advanced_once st) scanner
                  ((mark_end lexer)\<lparr>result_symbol := REGEX_NO_SLASH\<rparr>))
         else if lookahead lexer = c_backslash then
           (let lexer1 = advance lexer
            in if \<not> eof lexer1 \<and> lookahead lexer1 \<noteq> c_lbracket \<and>
                  lookahead lexer1 \<noteq> c_slash
               then Inl (st\<lparr>rs_advanced_once := True\<rparr>,
                         enter_context scanner CTX_PARAMETER, mark_end (advance lexer1))
               else Inl (st\<lparr>rs_advanced_once := True\<rparr>, scanner, lexer1))
         else
           (let was_space = (\<not> rs_in_single_quote st \<and> iswspace (lookahead lexer));
                lexer1 = advance lexer
            in Inl (st\<lparr>rs_advanced_once := True\<rparr>, scanner,
                    if \<not> was_space then mark_end lexer1 else lexer1)))
      else
        (if lookahead lexer = c_backslash then
           (let lexer1 = advance lexer
            in Inl (st\<lparr>rs_found_non_alnumdollarunderdash := True\<rparr>, scanner,
                    if \<not> eof lexer1 then advance lexer1 else lexer1))
         else if lookahead lexer = c_dollar then
           (let lexer1 = advance (mark_end lexer)
            in if lookahead lexer1 = c_lparen then Inr (Return False scanner lexer1)
               else if iswspace (lookahead lexer1) then
                 Inr (Return True scanner
                        (mark_end (lexer1\<lparr>result_symbol := REGEX_NO_SPACE\<rparr>)))
               else Inl (st, scanner, lexer1))
         else
           (let was_space = (\<not> rs_in_single_quote st \<and> iswspace (lookahead lexer))
            in if was_space \<and> rs_paren_depth st = 0 then
                 Inr (Return (rs_found_non_alnumdollarunderdash st) scanner
                        ((mark_end lexer)\<lparr>result_symbol := REGEX_NO_SPACE\<rparr>))
               else
                 Inl (if \<not> iswalnum (lookahead lexer) \<and> lookahead lexer \<noteq> c_dollar \<and>
                         lookahead lexer \<noteq> c_minus \<and> lookahead lexer \<noteq> c_underscore
                      then st\<lparr>rs_found_non_alnumdollarunderdash := True\<rparr> else st,
                      scanner, advance lexer))))"

text \<open>One round of \<open>while (!state.done)\<close>.\<close>

definition regex_body ::
  "(TokenType \<Rightarrow> bool) \<Rightarrow> regex_state \<Rightarrow> Scanner \<Rightarrow> TSLexer
     \<Rightarrow> (regex_state \<times> Scanner \<times> TSLexer) + outcome" where
  "regex_body valid_symbols st scanner lexer =
     (case regex_quote_exit st scanner lexer of
        (st1, scanner1, lexer1) \<Rightarrow>
          if lookahead lexer1 = 0 then Inr (Return False scanner1 lexer1)
          else if lookahead lexer1 = c_squote then
            Inl (st1\<lparr>rs_in_single_quote := \<not> rs_in_single_quote st1,
                     rs_advanced_once := True, rs_last_was_escape := False\<rparr>,
                 scanner1, advance lexer1)
          else
            (let st2 = regex_switch st1 (lookahead lexer1)
             in if \<not> rs_done st2 then regex_consume valid_symbols st2 scanner1 lexer1
                else Inl (st2, scanner1, lexer1)))"

lemma regex_consume_progress:
  assumes "regex_consume valid_symbols st scanner lexer = Inl (st', scanner', lexer')"
    and "lookahead lexer \<noteq> 0"
  shows "remaining lexer' < remaining lexer"
  using assms(1) lookahead_remaining [OF assms(2)]
  by (auto simp add: regex_consume_def Let_def split: if_splits)

lemma regex_body_progress:
  assumes "regex_body valid_symbols st scanner lexer = Inl (st', scanner', lexer')"
  shows "remaining lexer' < remaining lexer \<or> (rs_done st' \<and> remaining lexer' \<le> remaining lexer)"
proof -
  obtain st1 scanner1 lexer1 where q: "regex_quote_exit st scanner lexer = (st1, scanner1, lexer1)"
    by (cases "regex_quote_exit st scanner lexer") auto
  then have le: "remaining lexer1 \<le> remaining lexer"
    by (auto simp add: regex_quote_exit_def split: if_splits)
  from assms q have ne: "lookahead lexer1 \<noteq> 0"
    by (auto simp add: regex_body_def split: if_splits)
  from assms q le lookahead_remaining [OF ne] show ?thesis
    by (auto simp add: regex_body_def Let_def split: if_splits
             dest!: regex_consume_progress [OF _ ne])
qed

function regex_loop ::
  "(TokenType \<Rightarrow> bool) \<Rightarrow> regex_state \<Rightarrow> Scanner \<Rightarrow> TSLexer
     \<Rightarrow> (regex_state \<times> Scanner \<times> TSLexer) + outcome" where
  "regex_loop valid_symbols st scanner lexer =
     (if rs_done st then Inl (st, scanner, lexer)
      else (case regex_body valid_symbols st scanner lexer of
              Inl (st1, scanner1, lexer1) \<Rightarrow> regex_loop valid_symbols st1 scanner1 lexer1
            | Inr result \<Rightarrow> Inr result))"
  by pat_completeness auto
termination
  by (relation "measure (\<lambda>(valid_symbols, st, scanner, lexer).
                           2 * remaining lexer + (if rs_done st then 0 else 1))")
     (auto dest!: regex_body_progress)

declare regex_loop.simps [simp del]

definition regex_section ::
  "(TokenType \<Rightarrow> bool) \<Rightarrow> Scanner \<Rightarrow> TSLexer \<Rightarrow> outcome" where
  "regex_section valid_symbols scanner lexer =
     (if (valid_symbols REGEX \<or> valid_symbols REGEX_NO_SLASH \<or>
          valid_symbols REGEX_NO_SPACE) \<and> \<not> in_error_recovery valid_symbols then
        (let lexer1 = (if valid_symbols REGEX \<or> valid_symbols REGEX_NO_SPACE
                       then skip_while iswspace lexer else lexer)
         in if (lookahead lexer1 \<noteq> c_dquote \<and> lookahead lexer1 \<noteq> c_squote) \<or>
               ((lookahead lexer1 = c_dollar \<or> lookahead lexer1 = c_squote) \<and>
                valid_symbols REGEX_NO_SLASH) \<or>
               (lookahead lexer1 = c_squote \<and> valid_symbols REGEX_NO_SPACE) then
              (let lexer2 = (if lookahead lexer1 = c_dollar \<and> valid_symbols REGEX_NO_SLASH
                             then advance (mark_end lexer1) else lexer1)
               in if lookahead lexer1 = c_dollar \<and> valid_symbols REGEX_NO_SLASH \<and>
                     lookahead lexer2 = c_lparen
                  then Return False scanner lexer2
                  else
                    (case regex_loop valid_symbols regex_state_init scanner
                            (mark_end lexer2) of
                       Inr result \<Rightarrow> result
                     | Inl (st, scanner1, lexer3) \<Rightarrow>
                         (let lexer4 = lexer3\<lparr>result_symbol :=
                                (if valid_symbols REGEX_NO_SLASH then REGEX_NO_SLASH
                                 else if valid_symbols REGEX_NO_SPACE then REGEX_NO_SPACE
                                 else REGEX)\<rparr>
                          in if valid_symbols REGEX \<and> \<not> rs_advanced_once st
                             then Return False scanner1 lexer4
                             else Return True scanner1 lexer4)))
            else Continue scanner lexer1)
      else Continue scanner lexer)"

subsection \<open>Extended globs (label extglob_pattern)\<close>

record extglob_state =
  es_done :: bool
  es_saw_non_alphadot :: bool
  es_paren_depth :: "32 word"
  es_bracket_depth :: "32 word"
  es_brace_depth :: "32 word"

text \<open>The start of the block: an escaped blank or quote, and a leading \<open>)\<close>.\<close>

definition extglob_lead :: "Scanner \<Rightarrow> TSLexer \<Rightarrow> outcome" where
  "extglob_lead scanner lexer =
     (case (if lookahead lexer = c_backslash then
              (let lexer1 = advance lexer
               in if (iswspace (lookahead lexer1) \<or> lookahead lexer1 = c_dquote) \<and>
                     lookahead lexer1 \<noteq> c_cr \<and> lookahead lexer1 \<noteq> c_newline
                  then Continue scanner (advance lexer1)
                  else Return False scanner lexer1)
            else Continue scanner lexer) of
        Continue scanner1 lexer1 \<Rightarrow>
          (if lookahead lexer1 = c_rparen \<and> last_glob_paren_depth scanner1 = 0 then
             (let lexer2 = advance (mark_end lexer1)
              in if iswspace (lookahead lexer2) then Return False scanner1 lexer2
                 else Continue scanner1 (mark_end lexer2))
           else Continue scanner1 (mark_end lexer1))
      | result \<Rightarrow> result)"

text \<open>The first character, with the keyword \<open>esac\<close> as a boundary.\<close>

definition extglob_first_char :: "Scanner \<Rightarrow> TSLexer \<Rightarrow> outcome" where
  "extglob_first_char scanner lexer =
     (if lookahead lexer \<noteq> c_lbracket then
        (if lookahead lexer = c_e then
           (let lexer1 = advance (mark_end lexer)
            in if lookahead lexer1 = c_s then
                 (let lexer2 = advance lexer1
                  in if lookahead lexer2 = c_a then
                       (let lexer3 = advance lexer2
                        in if lookahead lexer3 = c_c then
                             (let lexer4 = advance lexer3
                              in if iswspace (lookahead lexer4)
                                 then Return False scanner lexer4
                                 else Continue scanner lexer4)
                           else Continue scanner lexer3)
                     else Continue scanner lexer2)
               else Continue scanner lexer1)
         else Continue scanner (advance lexer))
      else Continue scanner lexer)"

definition extglob_dash :: "Scanner \<Rightarrow> TSLexer \<Rightarrow> outcome" where
  "extglob_dash scanner lexer =
     (if lookahead lexer = c_minus then
        (let lexer1 = advance_while iswalnum (advance (mark_end lexer))
         in if lookahead lexer1 = c_rparen \<or> lookahead lexer1 = c_backslash \<or>
               lookahead lexer1 = c_dot
            then Return False scanner lexer1
            else Continue scanner (mark_end lexer1))
      else Continue scanner lexer)"

text \<open>The returns between the dash and the loop.\<close>

definition extglob_case_item :: "bool \<Rightarrow> Scanner \<Rightarrow> TSLexer \<Rightarrow> outcome" where
  "extglob_case_item was_non_alpha scanner lexer =
     (if lookahead lexer = c_rparen \<and> last_glob_paren_depth scanner = 0 then
        (let lexer1 = advance (mark_end lexer)
         in if iswspace (lookahead lexer1)
            then Return was_non_alpha scanner (lexer1\<lparr>result_symbol := EXTGLOB_PATTERN\<rparr>)
            else Continue scanner lexer1)
      else Continue scanner lexer)"

definition extglob_boundary :: "Scanner \<Rightarrow> TSLexer \<Rightarrow> outcome" where
  "extglob_boundary scanner lexer =
     (if iswspace (lookahead lexer) then
        Return True (scanner\<lparr>last_glob_paren_depth := 0\<rparr>)
          ((mark_end lexer)\<lparr>result_symbol := EXTGLOB_PATTERN\<rparr>)
      else
        (case (if lookahead lexer = c_dollar then
                 (let lexer1 = advance (mark_end lexer)
                  in if lookahead lexer1 = c_lbrace \<or> lookahead lexer1 = c_lparen
                     then Return True scanner (lexer1\<lparr>result_symbol := EXTGLOB_PATTERN\<rparr>)
                     else Continue scanner lexer1)
               else Continue scanner lexer) of
           Continue scanner1 lexer1 \<Rightarrow>
             (if lookahead lexer1 = c_pipe then
                Return True scanner1
                  ((advance (mark_end lexer1))\<lparr>result_symbol := EXTGLOB_PATTERN\<rparr>)
              else if \<not> iswalnum (lookahead lexer1) \<and> lookahead lexer1 \<noteq> c_lparen \<and>
                      lookahead lexer1 \<noteq> c_dquote \<and> lookahead lexer1 \<noteq> c_lbracket \<and>
                      lookahead lexer1 \<noteq> c_question \<and> lookahead lexer1 \<noteq> c_slash \<and>
                      lookahead lexer1 \<noteq> c_backslash \<and> lookahead lexer1 \<noteq> c_underscore \<and>
                      lookahead lexer1 \<noteq> c_star
              then Return False scanner1 lexer1
              else Continue scanner1 lexer1)
         | result \<Rightarrow> result))"

text \<open>The \<open>switch\<close> of the loop, without its case NUL (a return).\<close>

definition extglob_switch :: "extglob_state \<Rightarrow> int \<Rightarrow> extglob_state" where
  "extglob_switch st c =
     (if c = c_lparen then st\<lparr>es_paren_depth := es_paren_depth st + 1\<rparr>
      else if c = c_lbracket then st\<lparr>es_bracket_depth := es_bracket_depth st + 1\<rparr>
      else if c = c_lbrace then st\<lparr>es_brace_depth := es_brace_depth st + 1\<rparr>
      else if c = c_rparen then
        st\<lparr>es_done := (if es_paren_depth st = 0 then True else es_done st),
           es_paren_depth := es_paren_depth st - 1\<rparr>
      else if c = c_rbracket then
        st\<lparr>es_done := (if es_bracket_depth st = 0 then True else es_done st),
           es_bracket_depth := es_bracket_depth st - 1\<rparr>
      else if c = c_rbrace then
        st\<lparr>es_done := (if es_brace_depth st = 0 then True else es_done st),
           es_brace_depth := es_brace_depth st - 1\<rparr>
      else st)"

definition saw_non_alphadot_update :: "extglob_state \<Rightarrow> int \<Rightarrow> extglob_state" where
  "saw_non_alphadot_update st c =
     (if \<not> iswalpha c \<and> c \<noteq> c_dot \<and> c \<noteq> c_backslash
      then st\<lparr>es_saw_non_alphadot := True\<rparr> else st)"

text \<open>
  The \<open>if (!state.done)\<close> part of a round. \<open>was_space\<close> is taken before the dollar is
  consumed. \<open>last_glob_paren_depth\<close> is a \<open>uint8_t\<close>: the depth is truncated.
\<close>

definition extglob_consume ::
  "extglob_state \<Rightarrow> Scanner \<Rightarrow> TSLexer \<Rightarrow> (extglob_state \<times> Scanner \<times> TSLexer) + outcome" where
  "extglob_consume st scanner lexer =
     (let was_space = iswspace (lookahead lexer)
      in case (if lookahead lexer = c_dollar then
                 (let st1 = saw_non_alphadot_update st (lookahead lexer);
                      lexer1 = advance (mark_end lexer)
                  in if lookahead lexer1 = c_lparen \<or> lookahead lexer1 = c_lbrace then
                       Inr (Return (es_saw_non_alphadot st1)
                              (scanner\<lparr>last_glob_paren_depth := ucast (es_paren_depth st1)\<rparr>)
                              (lexer1\<lparr>result_symbol := EXTGLOB_PATTERN\<rparr>))
                     else Inl (st1, scanner, lexer1))
               else Inl (st, scanner, lexer)) of
           Inr result \<Rightarrow> Inr result
         | Inl (st1, scanner1, lexer1) \<Rightarrow>
             if was_space then
               Inr (Return (es_saw_non_alphadot st1)
                      (scanner1\<lparr>last_glob_paren_depth := 0\<rparr>)
                      ((mark_end lexer1)\<lparr>result_symbol := EXTGLOB_PATTERN\<rparr>))
             else if lookahead lexer1 = c_dquote then
               Inr (Return (es_saw_non_alphadot st1)
                      (scanner1\<lparr>last_glob_paren_depth := 0\<rparr>)
                      ((mark_end lexer1)\<lparr>result_symbol := EXTGLOB_PATTERN\<rparr>))
             else if lookahead lexer1 = c_backslash then
               (let st2 = saw_non_alphadot_update st1 (lookahead lexer1);
                    lexer2 = advance lexer1;
                    lexer3 = (if iswspace (lookahead lexer2) \<or> lookahead lexer2 = c_dquote
                              then advance lexer2 else lexer2)
                in Inl (st2, scanner1, mark_end lexer3))
             else
               Inl (saw_non_alphadot_update st1 (lookahead lexer1), scanner1,
                    mark_end (advance lexer1)))"

text \<open>One round of \<open>while (!state.done)\<close>.\<close>

definition extglob_body ::
  "extglob_state \<Rightarrow> Scanner \<Rightarrow> TSLexer \<Rightarrow> (extglob_state \<times> Scanner \<times> TSLexer) + outcome" where
  "extglob_body st scanner lexer =
     (if lookahead lexer = 0 then Inr (Return False scanner lexer)
      else
        (let st1 = extglob_switch st (lookahead lexer);
             lexer1 = (if lookahead lexer = c_pipe then advance (mark_end lexer) else lexer)
         in if lookahead lexer = c_pipe \<and> es_paren_depth st1 = 0 \<and>
               es_bracket_depth st1 = 0 \<and> es_brace_depth st1 = 0
            then Inr (Return True scanner (lexer1\<lparr>result_symbol := EXTGLOB_PATTERN\<rparr>))
            else if \<not> es_done st1 then extglob_consume st1 scanner lexer1
            else Inl (st1, scanner, lexer1)))"

lemma extglob_consume_le:
  "extglob_consume st scanner lexer = Inl (st', scanner', lexer') \<Longrightarrow>
   remaining lexer' \<le> remaining lexer"
  by (auto simp add: extglob_consume_def Let_def split: if_splits)

lemma extglob_consume_progress:
  "extglob_consume st scanner lexer = Inl (st', scanner', lexer') \<Longrightarrow>
   lookahead lexer \<noteq> 0 \<Longrightarrow> remaining lexer' < remaining lexer"
  by (drule lookahead_remaining)
     (auto simp add: extglob_consume_def Let_def split: if_splits)

lemma extglob_body_progress:
  assumes "extglob_body st scanner lexer = Inl (st', scanner', lexer')"
  shows "remaining lexer' < remaining lexer \<or> (es_done st' \<and> remaining lexer' \<le> remaining lexer)"
proof -
  from assms have ne: "lookahead lexer \<noteq> 0"
    by (auto simp add: extglob_body_def split: if_splits)
  show ?thesis
  proof (cases "lookahead lexer = c_pipe")
    case True
    with assms ne lookahead_remaining [OF ne] show ?thesis
      by (auto simp add: extglob_body_def Let_def split: if_splits dest!: extglob_consume_le)
  next
    case False
    with assms ne show ?thesis
      by (auto simp add: extglob_body_def Let_def split: if_splits
               dest!: extglob_consume_progress)
  qed
qed

function extglob_loop ::
  "extglob_state \<Rightarrow> Scanner \<Rightarrow> TSLexer \<Rightarrow> (extglob_state \<times> Scanner \<times> TSLexer) + outcome" where
  "extglob_loop st scanner lexer =
     (if es_done st then Inl (st, scanner, lexer)
      else (case extglob_body st scanner lexer of
              Inl (st1, scanner1, lexer1) \<Rightarrow> extglob_loop st1 scanner1 lexer1
            | Inr result \<Rightarrow> Inr result))"
  by pat_completeness auto
termination
  by (relation "measure (\<lambda>(st, scanner, lexer).
                           2 * remaining lexer + (if es_done st then 0 else 1))")
     (auto dest!: extglob_body_progress)

declare extglob_loop.simps [simp del]

text \<open>The body of the block once the first character is one of the accepted ones.\<close>

definition extglob_scan :: "Scanner \<Rightarrow> TSLexer \<Rightarrow> outcome" where
  "extglob_scan scanner lexer =
     (case extglob_lead scanner lexer of
        Continue scanner1 lexer1 \<Rightarrow>
          (let was_non_alpha = (\<not> iswalpha (lookahead lexer1))
           in case extglob_first_char scanner1 lexer1 of
                Continue scanner2 lexer2 \<Rightarrow>
                  (case extglob_dash scanner2 lexer2 of
                     Continue scanner3 lexer3 \<Rightarrow>
                       (case extglob_case_item was_non_alpha scanner3 lexer3 of
                          Continue scanner4 lexer4 \<Rightarrow>
                            (case extglob_boundary scanner4 lexer4 of
                               Continue scanner5 lexer5 \<Rightarrow>
                                 (case extglob_loop
                                         \<lparr> es_done = False, es_saw_non_alphadot = was_non_alpha,
                                           es_paren_depth = ucast (last_glob_paren_depth scanner5),
                                           es_bracket_depth = 0, es_brace_depth = 0 \<rparr>
                                         scanner5 lexer5 of
                                    Inr result \<Rightarrow> result
                                  | Inl (st, scanner6, lexer6) \<Rightarrow>
                                      Return (es_saw_non_alphadot st)
                                        (scanner6\<lparr>last_glob_paren_depth := 0\<rparr>)
                                        (lexer6\<lparr>result_symbol := EXTGLOB_PATTERN\<rparr>))
                             | result \<Rightarrow> result)
                        | result \<Rightarrow> result)
                   | result \<Rightarrow> result)
              | result \<Rightarrow> result)
      | result \<Rightarrow> result)"

definition extglob_section ::
  "(TokenType \<Rightarrow> bool) \<Rightarrow> Scanner \<Rightarrow> TSLexer \<Rightarrow> outcome" where
  "extglob_section valid_symbols scanner lexer =
     (if in_parameter_expansion_context scanner \<and> valid_symbols EXTGLOB_PATTERN
      then Return False scanner lexer
      else if valid_symbols EXTGLOB_PATTERN \<and> \<not> in_error_recovery valid_symbols \<and>
              \<not> valid_symbols REGEX \<and> \<not> valid_symbols REGEX_NO_SLASH \<and>
              \<not> valid_symbols REGEX_NO_SPACE then
        (let lexer1 = skip_while iswspace lexer
         in if lookahead lexer1 = c_question \<or> lookahead lexer1 = c_star \<or>
               lookahead lexer1 = c_plus \<or> lookahead lexer1 = c_at \<or>
               lookahead lexer1 = c_bang \<or> lookahead lexer1 = c_minus \<or>
               lookahead lexer1 = c_rparen \<or> lookahead lexer1 = c_backslash \<or>
               lookahead lexer1 = c_dot \<or> lookahead lexer1 = c_lbracket \<or>
               iswalpha (lookahead lexer1)
            then extglob_scan scanner lexer1
            else Return False (scanner\<lparr>last_glob_paren_depth := 0\<rparr>) lexer1)
      else Continue scanner lexer)"

subsection \<open>Expansion words (label expansion_word)\<close>

text \<open>
  The block is not gated by error recovery. The scanner is only read.
  First the inner \<open>while\<close>, entered after an opening parenthesis: \<open>Inl\<close> is its normal
  end, with the two flags.
\<close>

function expansion_word_paren_loop ::
  "Scanner \<Rightarrow> bool \<Rightarrow> bool \<Rightarrow> TSLexer \<Rightarrow> (bool \<times> bool \<times> TSLexer) + outcome" where
  "expansion_word_paren_loop scanner advanced_once advance_once_space lexer =
     (if lookahead lexer \<noteq> c_rparen \<and> \<not> eof lexer then
        (if lookahead lexer = c_dollar then
           (let lexer1 = advance (mark_end lexer)
            in if lookahead lexer1 = c_lbrace \<or> lookahead lexer1 = c_lparen \<or>
                  lookahead lexer1 = c_squote \<or> iswalnum (lookahead lexer1)
               then Inr (Return True scanner (lexer1\<lparr>result_symbol := EXPANSION_WORD\<rparr>))
               else expansion_word_paren_loop scanner True advance_once_space lexer1)
         else if should_stop_at_pattern_operators scanner \<and> lookahead lexer = c_rbracket
         then Inr (Return True scanner ((mark_end lexer)\<lparr>result_symbol := EXPANSION_WORD\<rparr>))
         else if should_stop_at_pattern_operators scanner \<and>
                 (lookahead lexer = c_hash \<or> lookahead lexer = c_percent)
         then Inr (Return True scanner ((mark_end lexer)\<lparr>result_symbol := EXPANSION_WORD\<rparr>))
         else if should_stop_at_pattern_operators scanner \<and> lookahead lexer = c_colon
         then Inr (Return True scanner ((mark_end lexer)\<lparr>result_symbol := EXPANSION_WORD\<rparr>))
         else expansion_word_paren_loop scanner
                (advanced_once \<or> \<not> iswspace (lookahead lexer))
                (advance_once_space \<or> iswspace (lookahead lexer)) (advance lexer))
      else Inl (advanced_once, advance_once_space, lexer))"
  by pat_completeness auto
termination
  by (relation "measure (\<lambda>(scanner, advanced_once, advance_once_space, lexer).
                           remaining lexer)")
     (auto simp: eof_remaining)

declare expansion_word_paren_loop.simps [simp del]

lemma remaining_expansion_word_paren_loop:
  "expansion_word_paren_loop scanner a b lexer = Inl (a', b', lexer') \<Longrightarrow>
   remaining lexer' \<le> remaining lexer"
proof (induction scanner a b lexer rule: expansion_word_paren_loop.induct)
  case (1 scanner advanced_once advance_once_space lexer)
  from "1.prems" show ?case
    apply (subst (asm) expansion_word_paren_loop.simps)
    apply (simp split: if_splits add: Let_def)
     apply (drule "1.IH" (1) [rotated -1]; simp)
    apply (drule "1.IH" (2) [rotated -1]; simp)
    done
qed

text \<open>
  One round of the outer \<open>for (;;)\<close>, in the order of its tests: the dollar, the
  stops at \<open>/\<close> and \<open>}\<close>, the parenthesised stretch, and the rest.
\<close>

definition expansion_word_dollar ::
  "Scanner \<Rightarrow> bool \<Rightarrow> bool \<Rightarrow> TSLexer \<Rightarrow> (bool \<times> bool \<times> TSLexer) + outcome" where
  "expansion_word_dollar scanner advanced_once advance_once_space lexer =
     (if lookahead lexer = c_dollar then
        (let lexer1 = advance (mark_end lexer)
         in if lookahead lexer1 = c_lbrace \<or> lookahead lexer1 = c_lparen \<or>
               lookahead lexer1 = c_squote \<or> iswalnum (lookahead lexer1)
            then Inr (Return True scanner (lexer1\<lparr>result_symbol := EXPANSION_WORD\<rparr>))
            else Inl (True, advance_once_space, lexer1))
      else Inl (advanced_once, advance_once_space, lexer))"

definition expansion_word_paren ::
  "Scanner \<Rightarrow> bool \<Rightarrow> bool \<Rightarrow> TSLexer \<Rightarrow> (bool \<times> bool \<times> TSLexer) + outcome" where
  "expansion_word_paren scanner advanced_once advance_once_space lexer =
     (if lookahead lexer = c_lparen \<and> \<not> (advanced_once \<or> advance_once_space) then
        (case expansion_word_paren_loop scanner advanced_once advance_once_space
                (advance (mark_end lexer)) of
           Inr result \<Rightarrow> Inr result
         | Inl (advanced_once1, advance_once_space1, lexer1) \<Rightarrow>
             (let lexer2 = mark_end lexer1
              in if lookahead lexer2 = c_rparen
                 then Inl (True, advance_once_space1, mark_end (advance lexer2))
                 else Inr (Return False scanner lexer2)))
      else Inl (advanced_once, advance_once_space, lexer))"

definition expansion_word_rest ::
  "Scanner \<Rightarrow> bool \<Rightarrow> bool \<Rightarrow> TSLexer \<Rightarrow> (bool \<times> bool \<times> TSLexer) + outcome" where
  "expansion_word_rest scanner advanced_once advance_once_space lexer =
     (if lookahead lexer = c_squote then Inr (Return False scanner lexer)
      else if eof lexer then Inr (Return False scanner lexer)
      else if should_stop_at_pattern_operators scanner \<and> lookahead lexer = c_rbracket
      then Inr (Return True scanner ((mark_end lexer)\<lparr>result_symbol := EXPANSION_WORD\<rparr>))
      else if should_stop_at_pattern_operators scanner \<and>
              (lookahead lexer = c_hash \<or> lookahead lexer = c_percent \<or>
               lookahead lexer = c_slash) \<and>
              (lookahead lexer = c_slash \<and>
               get_current_context scanner = CTX_PARAMETER_PATTERN_SUBSTITUTE \<and>
               \<not> advanced_once)
      then Inr (Return True scanner ((mark_end lexer)\<lparr>result_symbol := EXPANSION_WORD\<rparr>))
      else Inl (advanced_once \<or> \<not> iswspace (lookahead lexer),
                advance_once_space \<or> iswspace (lookahead lexer), advance lexer))"

definition expansion_word_body ::
  "Scanner \<Rightarrow> bool \<Rightarrow> bool \<Rightarrow> TSLexer \<Rightarrow> (bool \<times> bool \<times> TSLexer) + outcome" where
  "expansion_word_body scanner advanced_once advance_once_space lexer =
     (if lookahead lexer = c_dquote then Inr (Return False scanner lexer)
      else
        (case expansion_word_dollar scanner advanced_once advance_once_space lexer of
           Inr result \<Rightarrow> Inr result
         | Inl (advanced_once1, advance_once_space1, lexer1) \<Rightarrow>
             if lookahead lexer1 = c_slash \<and> should_stop_at_pattern_slash scanner then
               Inr (Return True scanner ((mark_end lexer1)\<lparr>result_symbol := EXPANSION_WORD\<rparr>))
             else if lookahead lexer1 = c_rbrace \<and> in_parameter_expansion scanner then
               Inr (Return True scanner ((mark_end lexer1)\<lparr>result_symbol := EXPANSION_WORD\<rparr>))
             else
               (case expansion_word_paren scanner advanced_once1 advance_once_space1 lexer1 of
                  Inr result \<Rightarrow> Inr result
                | Inl (advanced_once2, advance_once_space2, lexer2) \<Rightarrow>
                    expansion_word_rest scanner advanced_once2 advance_once_space2 lexer2)))"

lemma expansion_word_body_progress:
  assumes "expansion_word_body scanner a b lexer = Inl (a', b', lexer')"
  shows "remaining lexer' < remaining lexer"
proof -
  from assms obtain a1 b1 lexer1 a2 b2 lexer2 where
    d: "expansion_word_dollar scanner a b lexer = Inl (a1, b1, lexer1)" and
    p: "expansion_word_paren scanner a1 b1 lexer1 = Inl (a2, b2, lexer2)" and
    r: "expansion_word_rest scanner a2 b2 lexer2 = Inl (a', b', lexer')"
    by (auto simp add: expansion_word_body_def split: if_splits sum.splits)
  from d have 1: "remaining lexer1 \<le> remaining lexer"
    by (auto simp add: expansion_word_dollar_def Let_def split: if_splits)
  from p have 2: "remaining lexer2 \<le> remaining lexer1"
    by (auto simp add: expansion_word_paren_def Let_def split: if_splits sum.splits
             dest!: remaining_expansion_word_paren_loop)
  from r have 3: "remaining lexer' < remaining lexer2"
    by (auto simp add: expansion_word_rest_def eof_remaining split: if_splits)
  from 1 2 3 show ?thesis by simp
qed

function expansion_word_loop :: "Scanner \<Rightarrow> bool \<Rightarrow> bool \<Rightarrow> TSLexer \<Rightarrow> outcome" where
  "expansion_word_loop scanner advanced_once advance_once_space lexer =
     (case expansion_word_body scanner advanced_once advance_once_space lexer of
        Inl (advanced_once1, advance_once_space1, lexer1) \<Rightarrow>
          expansion_word_loop scanner advanced_once1 advance_once_space1 lexer1
      | Inr result \<Rightarrow> result)"
  by pat_completeness auto
termination
  by (relation "measure (\<lambda>(scanner, advanced_once, advance_once_space, lexer).
                           remaining lexer)")
     (auto dest: expansion_word_body_progress)

declare expansion_word_loop.simps [simp del]

definition expansion_word_section ::
  "(TokenType \<Rightarrow> bool) \<Rightarrow> bool \<Rightarrow> Scanner \<Rightarrow> TSLexer \<Rightarrow> outcome" where
  "expansion_word_section valid_symbols was_just_variable_name scanner lexer =
     (if valid_symbols EXPANSION_WORD then
        (if was_just_variable_name \<and>
            (lookahead lexer = c_hash \<or> lookahead lexer = c_percent)
         then Return False scanner lexer
         else expansion_word_loop scanner False False lexer)
      else Continue scanner lexer)"

subsection \<open>Brace ranges (label brace_start)\<close>

definition brace_start_section ::
  "(TokenType \<Rightarrow> bool) \<Rightarrow> Scanner \<Rightarrow> TSLexer \<Rightarrow> outcome" where
  "brace_start_section valid_symbols scanner lexer =
     (if valid_symbols BRACE_START \<and> \<not> in_error_recovery valid_symbols then
        (let lexer1 = skip_while iswspace lexer
         in if lookahead lexer1 \<noteq> c_lbrace then Return False scanner lexer1
            else
              (let lexer2 = advance_while isdigit (mark_end (advance lexer1))
               in if lookahead lexer2 \<noteq> c_dot then Return False scanner lexer2
                  else
                    (let lexer3 = advance lexer2
                     in if lookahead lexer3 \<noteq> c_dot then Return False scanner lexer3
                        else
                          (let lexer4 = advance_while isdigit (advance lexer3)
                           in if lookahead lexer4 \<noteq> c_rbrace
                              then Return False scanner lexer4
                              else Return True scanner
                                     (lexer4\<lparr>result_symbol := BRACE_START\<rparr>)))))
      else Continue scanner lexer)"

subsection \<open>scan\<close>

text \<open>
  The handlers run in order until one leaves \<open>scan\<close> or jumps. The four labelled blocks
  stand at the end of \<open>scan\<close> in the order regex, extglob_pattern, expansion_word,
  brace_start, each falling through to the next and the last to \<open>return false\<close>.
\<close>

fun run_handlers ::
  "(Scanner \<Rightarrow> TSLexer \<Rightarrow> outcome) list \<Rightarrow> Scanner \<Rightarrow> TSLexer \<Rightarrow> outcome" where
  "run_handlers [] scanner lexer = Continue scanner lexer"
| "run_handlers (h # hs) scanner lexer =
     (case h scanner lexer of
        Continue scanner1 lexer1 \<Rightarrow> run_handlers hs scanner1 lexer1
      | result \<Rightarrow> result)"

definition from_brace_start ::
  "(TokenType \<Rightarrow> bool) \<Rightarrow> Scanner \<Rightarrow> TSLexer \<Rightarrow> outcome" where
  "from_brace_start valid_symbols scanner lexer =
     (case brace_start_section valid_symbols scanner lexer of
        Continue scanner1 lexer1 \<Rightarrow> Return False scanner1 lexer1
      | result \<Rightarrow> result)"

definition from_expansion_word ::
  "(TokenType \<Rightarrow> bool) \<Rightarrow> bool \<Rightarrow> Scanner \<Rightarrow> TSLexer \<Rightarrow> outcome" where
  "from_expansion_word valid_symbols was_just_variable_name scanner lexer =
     (case expansion_word_section valid_symbols was_just_variable_name scanner lexer of
        Continue scanner1 lexer1 \<Rightarrow> from_brace_start valid_symbols scanner1 lexer1
      | result \<Rightarrow> result)"

definition from_extglob_pattern ::
  "(TokenType \<Rightarrow> bool) \<Rightarrow> bool \<Rightarrow> Scanner \<Rightarrow> TSLexer \<Rightarrow> outcome" where
  "from_extglob_pattern valid_symbols was_just_variable_name scanner lexer =
     (case extglob_section valid_symbols scanner lexer of
        Continue scanner1 lexer1 \<Rightarrow>
          from_expansion_word valid_symbols was_just_variable_name scanner1 lexer1
      | result \<Rightarrow> result)"

definition from_regex ::
  "(TokenType \<Rightarrow> bool) \<Rightarrow> bool \<Rightarrow> Scanner \<Rightarrow> TSLexer \<Rightarrow> outcome" where
  "from_regex valid_symbols was_just_variable_name scanner lexer =
     (case regex_section valid_symbols scanner lexer of
        Continue scanner1 lexer1 \<Rightarrow>
          from_extglob_pattern valid_symbols was_just_variable_name scanner1 lexer1
      | result \<Rightarrow> result)"

definition handlers ::
  "(TokenType \<Rightarrow> bool) \<Rightarrow> bool \<Rightarrow> bool \<Rightarrow> (Scanner \<Rightarrow> TSLexer \<Rightarrow> outcome) list" where
  "handlers valid_symbols was_just_variable_name was_just_bare_dollar =
     [newline_handler valid_symbols,
      closing_brace_handler valid_symbols,
      concat_handler valid_symbols was_just_variable_name,
      bare_dollar_handler valid_symbols,
      peek_bare_dollar_handler valid_symbols,
      dollar_brace_handler valid_symbols was_just_bare_dollar,
      opening_paren_handler valid_symbols was_just_bare_dollar,
      opening_bracket_handler valid_symbols was_just_bare_dollar,
      closing_bracket_handler valid_symbols,
      closing_paren_handler valid_symbols,
      pattern_start_handler valid_symbols,
      pattern_suffix_start_handler valid_symbols,
      colon_handler valid_symbols,
      hash_handler valid_symbols,
      immediate_double_hash_handler valid_symbols,
      array_token_handler valid_symbols,
      empty_value_handler valid_symbols,
      heredoc_body_handler valid_symbols,
      heredoc_end_handler valid_symbols,
      heredoc_content_handler valid_symbols,
      heredoc_start_handler valid_symbols,
      test_operator_handler valid_symbols,
      simple_variable_name_handler valid_symbols,
      special_variable_name_handler valid_symbols,
      variable_name_handler valid_symbols,
      raw_dollar_handler valid_symbols]"

text \<open>
  \<open>scan\<close> first reads and clears the two history flags. Its result is \<open>Return\<close> with the
  value returned and the state left behind, or \<open>Abort\<close>.
\<close>

definition scan :: "Scanner \<Rightarrow> TSLexer \<Rightarrow> (TokenType \<Rightarrow> bool) \<Rightarrow> outcome" where
  "scan scanner0 lexer valid_symbols =
     (let was_just_variable_name = just_returned_variable_name scanner0;
          was_just_bare_dollar = just_returned_bare_dollar scanner0;
          scanner = scanner0\<lparr>just_returned_variable_name := False,
                              just_returned_bare_dollar := False\<rparr>
      in case run_handlers
                (handlers valid_symbols was_just_variable_name was_just_bare_dollar)
                scanner lexer of
           Continue scanner1 lexer1 \<Rightarrow>
             from_regex valid_symbols was_just_variable_name scanner1 lexer1
         | Goto L_regex scanner1 lexer1 \<Rightarrow>
             from_regex valid_symbols was_just_variable_name scanner1 lexer1
         | Goto L_extglob_pattern scanner1 lexer1 \<Rightarrow>
             from_extglob_pattern valid_symbols was_just_variable_name scanner1 lexer1
         | Goto L_expansion_word scanner1 lexer1 \<Rightarrow>
             from_expansion_word valid_symbols was_just_variable_name scanner1 lexer1
         | Goto L_brace_start scanner1 lexer1 \<Rightarrow>
             from_brace_start valid_symbols scanner1 lexer1
         | result \<Rightarrow> result)"

subsection \<open>Observations of an outcome, and example inputs\<close>

definition outcome_scanner :: "outcome \<Rightarrow> Scanner option" where
  "outcome_scanner out =
     (case out of
        Return b scanner lexer \<Rightarrow> Some scanner
      | Continue scanner lexer \<Rightarrow> Some scanner
      | Goto l scanner lexer \<Rightarrow> Some scanner
      | Abort \<Rightarrow> None)"

definition outcome_lexer :: "outcome \<Rightarrow> TSLexer option" where
  "outcome_lexer out =
     (case out of
        Return b scanner lexer \<Rightarrow> Some lexer
      | Continue scanner lexer \<Rightarrow> Some lexer
      | Goto l scanner lexer \<Rightarrow> Some lexer
      | Abort \<Rightarrow> None)"

definition outcome_stack :: "outcome \<Rightarrow> context_type_t list option" where
  "outcome_stack out = map_option context_stack (outcome_scanner out)"

text \<open>The array \<open>valid_symbols\<close> with exactly the listed entries true.\<close>

definition valid_only :: "TokenType list \<Rightarrow> TokenType \<Rightarrow> bool" where
  "valid_only ts t = (t \<in> set ts)"

text \<open>
  The scanner after the three scans that read \<open><<E\<close>, the delimiter \<open>E\<close> and the body
  of the here-document in the input \<open><<E\nx\nE\n\<close>: one pending heredoc whose
  \<open>current_leading_word\<close> holds the last line compared.
\<close>

definition heredoc_text :: "int list" where
  "heredoc_text = [c_lt, c_lt, 69, c_newline, 120, c_newline, 69, c_newline]"

definition heredoc_scanned :: Scanner where
  "heredoc_scanned =
     create\<lparr>heredocs := [\<lparr> is_raw = False, started = False, allows_indent = False,
                             delimiter = [69, 0], current_leading_word = [69, 0] \<rparr>]\<rparr>"

text \<open>The inputs \<open>${a/b}\<close> and \<open><<A <<B\na\nA\nb\nB\n\<close>.\<close>

definition substitution_text :: "int list" where
  "substitution_text = [c_dollar, c_lbrace, c_a, c_slash, c_b, c_rbrace]"

definition two_heredocs_text :: "int list" where
  "two_heredocs_text =
     [c_lt, c_lt, 65, c_space, c_lt, c_lt, 66, c_newline,
      c_a, c_newline, 65, c_newline, c_b, c_newline, 66, c_newline]"

text \<open>A heredoc record with the delimiter read and nothing else done.\<close>

definition pending :: "8 word list \<Rightarrow> Heredoc" where
  "pending delim = heredoc_new\<lparr>delimiter := delim\<rparr>"



text \<open>The input \<open><<\<close>, U+0100, \<open>\n$a\nx\n\<close>.\<close>

definition nul_heredoc_text :: "int list" where
  "nul_heredoc_text = [c_lt, c_lt, 256, c_newline, c_dollar, c_a, c_newline, 120, c_newline]"

subsection \<open>Conditions on the outcome of a handler\<close>

text \<open>
  \<open>outcome_sat Q I out\<close>: when \<open>out\<close> leaves \<open>scan\<close>, \<open>Q\<close> holds of the value
  returned, the scanner and the lexer; when it hands over to a later handler, \<open>I\<close> holds
  of the scanner and the lexer. \<open>step_sat\<close> and \<open>word_sat\<close> are the same for one round
  of a loop (\<open>Inl\<close> goes round again). \<open>adv p\<close>: the lexer stands at \<open>p\<close> or later and
  so does the end of the token. \<open>ends_at p t\<close>: a token returned is \<open>t\<close> and ends at \<open>p\<close>.
\<close>

definition outcome_sat ::
  "(bool \<Rightarrow> Scanner \<Rightarrow> TSLexer \<Rightarrow> bool) \<Rightarrow> (Scanner \<Rightarrow> TSLexer \<Rightarrow> bool) \<Rightarrow> outcome \<Rightarrow> bool" where
  "outcome_sat Q I out =
     (case out of
        Return b scanner lexer \<Rightarrow> Q b scanner lexer
      | Continue scanner lexer \<Rightarrow> I scanner lexer
      | Goto l scanner lexer \<Rightarrow> I scanner lexer
      | Abort \<Rightarrow> True)"

definition adv :: "nat \<Rightarrow> TSLexer \<Rightarrow> bool" where
  "adv p lexer = (p \<le> position lexer \<and> p \<le> token_end_position lexer)"



definition step_sat ::
  "(bool \<Rightarrow> Scanner \<Rightarrow> TSLexer \<Rightarrow> bool) \<Rightarrow> (Scanner \<Rightarrow> TSLexer \<Rightarrow> bool) \<Rightarrow>
   ('a \<times> Scanner \<times> TSLexer) + outcome \<Rightarrow> bool" where
  "step_sat Q I r =
     (case r of Inl (x, scanner, lexer) \<Rightarrow> I scanner lexer | Inr out \<Rightarrow> outcome_sat Q I out)"

definition word_sat ::
  "(bool \<Rightarrow> Scanner \<Rightarrow> TSLexer \<Rightarrow> bool) \<Rightarrow> (Scanner \<Rightarrow> TSLexer \<Rightarrow> bool) \<Rightarrow> Scanner \<Rightarrow>
   (bool \<times> bool \<times> TSLexer) + outcome \<Rightarrow> bool" where
  "word_sat Q I scanner r =
     (case r of Inl t \<Rightarrow> I scanner (snd (snd t)) | Inr out \<Rightarrow> outcome_sat Q I out)"


text \<open>
  For the array of heredocs. \<open>kept hs0 hs\<close>: \<open>hs\<close> is \<open>hs0\<close> with at most its last record
  rewritten. \<open>earlier hs0 hs\<close>: \<open>hs\<close> comes from \<open>hs0\<close> by rewriting the last record,
  by popping it, or by pushing one record after it.
\<close>

definition kept :: "Heredoc list \<Rightarrow> Heredoc list \<Rightarrow> bool" where
  "kept hs0 hs = (length hs = length hs0 \<and> butlast hs = butlast hs0)"

definition earlier :: "Heredoc list \<Rightarrow> Heredoc list \<Rightarrow> bool" where
  "earlier hs0 hs =
     (kept hs0 hs \<or> hs = butlast hs0 \<or> (hs \<noteq> [] \<and> kept hs0 (butlast hs)))"

definition rewritten_or_popped :: "Heredoc list \<Rightarrow> bool \<Rightarrow> Scanner \<Rightarrow> TSLexer \<Rightarrow> bool" where
  "rewritten_or_popped hs0 b scanner lexer =
     (kept hs0 (heredocs scanner) \<or> heredocs scanner = butlast hs0)"

abbreviation (input) hdQ :: "Heredoc list \<Rightarrow> bool \<Rightarrow> Scanner \<Rightarrow> TSLexer \<Rightarrow> bool" where
  "hdQ hs0 \<equiv> \<lambda>b scanner lexer. earlier hs0 (heredocs scanner)"

abbreviation (input) hdI :: "Heredoc list \<Rightarrow> Scanner \<Rightarrow> TSLexer \<Rightarrow> bool" where
  "hdI hs0 \<equiv> \<lambda>scanner lexer. kept hs0 (heredocs scanner)"

abbreviation (input) hdN :: "Heredoc list \<Rightarrow> Scanner \<Rightarrow> TSLexer \<Rightarrow> bool" where
  "hdN hs0 \<equiv> \<lambda>scanner lexer. kept hs0 (heredocs scanner) \<and> heredocs scanner \<noteq> []"

text \<open>
  For the progress of the lexer, \<open>p\<close> being the position where \<open>scan\<close> started. An
  \<open>advancing\<close> token is one that ends after \<open>p\<close>; for a \<open>consuming\<close> token the
  lexer has read at least one character, wherever the end of the token was marked.
  \<open>past p\<close>: the lexer stands after \<open>p\<close> and so does the end of the token.
  \<open>progress p\<close> is the condition on a token returned. \<open>fresh p\<close>: no end of token
  is marked at \<open>p\<close> or before. \<open>state_sat\<close> is \<open>step_sat\<close> for a loop whose
  condition to go round again bears on its local state.
\<close>

definition advancing :: "TokenType \<Rightarrow> bool" where
  "advancing t =
     (t \<in> set [CLOSING_BRACE, BARE_DOLLAR, BRACE_START, OPENING_PAREN, DOUBLE_OPENING_PAREN,
                ZSH_EXTENDED_GLOB_FLAGS, OPENING_BRACKET, TEST_COMMAND_START, CLOSING_BRACKET,
                TEST_COMMAND_END, CLOSING_PAREN, CLOSING_DOUBLE_PAREN, HASH_PATTERN,
                DOUBLE_HASH_PATTERN, IMMEDIATE_DOUBLE_HASH, ARRAY_STAR_TOKEN, ARRAY_AT_TOKEN,
                TEST_OPERATOR, SIMPLE_VARIABLE_NAME, SPECIAL_VARIABLE_NAME, VARIABLE_NAME,
                REGEX])"

definition consuming :: "TokenType \<Rightarrow> bool" where
  "consuming t =
     (t \<in> set [CLOSING_BRACE, BARE_DOLLAR, BRACE_START, OPENING_PAREN, DOUBLE_OPENING_PAREN,
                ZSH_EXTENDED_GLOB_FLAGS, OPENING_BRACKET, TEST_COMMAND_START, CLOSING_BRACKET,
                TEST_COMMAND_END, CLOSING_PAREN, CLOSING_DOUBLE_PAREN, HASH_PATTERN,
                DOUBLE_HASH_PATTERN, IMMEDIATE_DOUBLE_HASH, ARRAY_STAR_TOKEN, ARRAY_AT_TOKEN,
                TEST_OPERATOR, SIMPLE_VARIABLE_NAME, SPECIAL_VARIABLE_NAME, VARIABLE_NAME,
                REGEX, FILE_DESCRIPTOR, HEREDOC_ARROW, HEREDOC_ARROW_DASH, HEREDOC_START,
                EXTGLOB_PATTERN])"

definition past :: "nat \<Rightarrow> TSLexer \<Rightarrow> bool" where
  "past p lexer = (p < position lexer \<and> p < token_end_position lexer)"

definition progress :: "nat \<Rightarrow> bool \<Rightarrow> Scanner \<Rightarrow> TSLexer \<Rightarrow> bool" where
  "progress p b scanner lexer =
     (b \<longrightarrow> (advancing (result_symbol lexer) \<longrightarrow> past p lexer) \<and>
           (consuming (result_symbol lexer) \<longrightarrow> p < position lexer))"

definition fresh :: "nat \<Rightarrow> TSLexer \<Rightarrow> bool" where
  "fresh p lexer =
     (p \<le> position lexer \<and> (case token_end lexer of None \<Rightarrow> True | Some e \<Rightarrow> p < e))"

definition state_sat ::
  "(bool \<Rightarrow> Scanner \<Rightarrow> TSLexer \<Rightarrow> bool) \<Rightarrow> ('s \<Rightarrow> TSLexer \<Rightarrow> bool) \<Rightarrow>
   ('s \<times> Scanner \<times> TSLexer) + outcome \<Rightarrow> bool" where
  "state_sat Q J r =
     (case r of Inl t \<Rightarrow> J (fst t) (snd (snd t))
      | Inr out \<Rightarrow> outcome_sat Q (\<lambda>scanner lexer. False) out)"

text \<open>
  For the loops. \<open>regex_inv p\<close>: once the regex loop has set \<open>advanced_once\<close> the lexer
  is \<open>past p\<close>, and before that it stands at a character that is neither a blank nor a
  single quote. For the extended globs: \<open>live p\<close>, the lexer has moved or is not at
  the end of the input; \<open>begun p\<close>, it has moved or stands at an opening bracket (the
  one first character that is not consumed); \<open>glob_inv p\<close>, the same for the loop,
  which is then not done; \<open>moved p\<close>, it has moved.
\<close>

definition regex_inv :: "nat \<Rightarrow> regex_state \<Rightarrow> TSLexer \<Rightarrow> bool" where
  "regex_inv p st lexer =
     (adv p lexer \<and>
      (if rs_advanced_once st then past p lexer
       else \<not> rs_in_single_quote st \<and> lookahead lexer \<noteq> c_squote \<and>
            \<not> iswspace (lookahead lexer)))"

definition live :: "nat \<Rightarrow> TSLexer \<Rightarrow> bool" where
  "live p lexer = (adv p lexer \<and> (p < position lexer \<or> lookahead lexer \<noteq> 0))"

definition begun :: "nat \<Rightarrow> TSLexer \<Rightarrow> bool" where
  "begun p lexer = (adv p lexer \<and> (p < position lexer \<or> lookahead lexer = c_lbracket))"


definition moved :: "nat \<Rightarrow> TSLexer \<Rightarrow> bool" where
  "moved p lexer = (adv p lexer \<and> p < position lexer)"

section \<open>Properties\<close>

subsection \<open>Serialization\<close>

lemma u32_roundtrip_arith:
  fixes n :: nat
  assumes "n < 4294967296"
  shows "n mod 256 + 256 * (n div 256 mod 256) + 65536 * (n div 65536 mod 256) +
     16777216 * (n div 16777216 mod 256) = n"
proof -
  have a: "n div 65536 = n div 256 div 256" by (simp add: div_mult2_eq)
  have b: "n div 16777216 = n div 256 div 256 div 256" by (simp add: div_mult2_eq)
  have c: "n div 256 div 256 div 256 < 256"
    using assms by (simp add: b[symmetric] less_mult_imp_div_less)
  have e1: "n = n mod 256 + 256 * (n div 256)" by simp
  have e2: "n div 256 = n div 256 mod 256 + 256 * (n div 256 div 256)" by simp
  have e3: "n div 256 div 256 =
            n div 256 div 256 mod 256 + 256 * (n div 256 div 256 div 256)" by simp
  have e4: "n div 256 div 256 div 256 mod 256 = n div 256 div 256 div 256" using c by simp
  show ?thesis unfolding a b e4 using e1 e2 e3 by linarith
qed

lemma bytes_u32_of_nat:
  "n < 2 ^ 32 \<Longrightarrow>
   bytes_u32 (of_nat (n mod 256)) (of_nat (n div 256 mod 256))
             (of_nat (n div 65536 mod 256)) (of_nat (n div 16777216 mod 256)) = n"
  using u32_roundtrip_arith [of n] by (simp add: bytes_u32_def unat_of_nat)

lemma char_ctx_ctx_char: "char_ctx (ctx_char c) = c"
  by (cases c) (simp_all add: char_ctx_def)

lemma char_bool_bool_char: "char_bool (bool_char b) = b"
  by (simp add: char_bool_def bool_char_def)

text \<open>The bytes \<open>serialize\<close> writes for one heredoc.\<close>

definition heredoc_bytes :: "Heredoc \<Rightarrow> 8 word list" where
  "heredoc_bytes h =
     [bool_char (is_raw h), bool_char (started h), bool_char (allows_indent h)]
       @ u32_bytes (length (delimiter h) mod 2 ^ 32) @ delimiter h"

lemma serialize_contexts_Some:
  "serialize_contexts buf cs = Some r \<Longrightarrow> r = buf @ map ctx_char cs"
  by (induction cs arbitrary: buf) (force split: if_splits)+

lemma serialize_heredocs_Some:
  "serialize_heredocs buf hs = Some r \<Longrightarrow>
     r = buf @ concat (map heredoc_bytes hs) \<and> (\<forall>h \<in> set hs. length (delimiter h) < 1024)"
proof (induction hs arbitrary: buf)
  case Nil
  then show ?case by simp
next
  case (Cons h hs)
  from Cons.prems have fit: "length buf + 3 + 4 + length (delimiter h) < 1024"
    by (simp add: TREE_SITTER_SERIALIZATION_BUFFER_SIZE_def split: if_splits)
  from Cons.prems fit have
    "serialize_heredocs (buf @ heredoc_bytes h) hs = Some r"
    by (simp add: TREE_SITTER_SERIALIZATION_BUFFER_SIZE_def heredoc_bytes_def)
  from Cons.IH [OF this] fit show ?case by simp
qed

lemma deserialize_contexts_map:
  "deserialize_contexts (length cs) (map ctx_char cs @ rest) stack = (stack @ cs, rest)"
  by (induction cs arbitrary: stack) (simp_all add: char_ctx_ctx_char)

lemma heredoc_bytes_head:
  "length (delimiter h) < 2 ^ 32 \<Longrightarrow>
   heredoc_bytes h @ xs =
     bool_char (is_raw h) # bool_char (started h) # bool_char (allows_indent h) #
     of_nat (length (delimiter h) mod 256) # of_nat (length (delimiter h) div 256 mod 256) #
     of_nat (length (delimiter h) div 65536 mod 256) #
     of_nat (length (delimiter h) div 16777216 mod 256) # (delimiter h @ xs)"
  by (simp add: heredoc_bytes_def u32_bytes_def)

lemma deserialize_heredocs_fresh:
  "\<forall>h \<in> set hs. length (delimiter h) < 2 ^ 32 \<Longrightarrow>
   deserialize_heredocs (length hs) [] (concat (map heredoc_bytes hs) @ rest) =
     Some (map (\<lambda>h. h\<lparr>current_leading_word := []\<rparr>) hs, rest)"
proof (induction hs arbitrary: rest)
  case Nil
  then show ?case by simp
next
  case (Cons h hs)
  then have n: "length (delimiter h) < 2 ^ 32"
    and rest: "\<forall>h \<in> set hs. length (delimiter h) < 2 ^ 32"
    by simp_all
  have new: "heredoc_new\<lparr>is_raw := is_raw h, started := started h,
               allows_indent := allows_indent h, delimiter := delimiter h\<rparr>
             = h\<lparr>current_leading_word := []\<rparr>"
    by (simp add: heredoc_new_def)
  show ?case
    using Cons.IH [OF rest] new
    by (simp add: heredoc_bytes_head [OF n] bytes_u32_of_nat [OF n] char_bool_bool_char)
qed

lemma deserialize_heredocs_in_place:
  "\<forall>h \<in> set hs. length (delimiter h) < 2 ^ 32 \<Longrightarrow>
   deserialize_heredocs (length hs) hs (concat (map heredoc_bytes hs) @ rest) = Some (hs, rest)"
proof (induction hs arbitrary: rest)
  case Nil
  then show ?case by simp
next
  case (Cons h hs)
  then have n: "length (delimiter h) < 2 ^ 32"
    and rest: "\<forall>h \<in> set hs. length (delimiter h) < 2 ^ 32"
    by simp_all
  show ?case
    using Cons.IH [OF rest]
    by (simp add: heredoc_bytes_head [OF n] bytes_u32_of_nat [OF n] char_bool_bool_char)
qed

lemma serialize_shape:
  assumes "serialize S \<noteq> []"
  shows "serialize S =
           [last_glob_paren_depth S, bool_char (ext_was_in_double_quote S),
            bool_char (ext_saw_outside_quote S), of_nat (length (context_stack S)),
            of_nat (length (heredocs S)), bool_char (just_returned_variable_name S),
            bool_char (just_returned_bare_dollar S)]
           @ map ctx_char (context_stack S) @ concat (map heredoc_bytes (heredocs S))"
    and "\<forall>h \<in> set (heredocs S). length (delimiter h) < 2 ^ 32"
proof -
  let ?hdr = "[last_glob_paren_depth S, bool_char (ext_was_in_double_quote S),
            bool_char (ext_saw_outside_quote S), of_nat (length (context_stack S)),
            of_nat (length (heredocs S)), bool_char (just_returned_variable_name S),
            bool_char (just_returned_bare_dollar S)]"
  from assms obtain b1 b2 where
    b1: "serialize_contexts ?hdr (context_stack S) = Some b1" and
    b2: "serialize_heredocs b1 (heredocs S) = Some b2" and
    s: "serialize S = b2"
    by (auto simp add: serialize_def Let_def split: option.splits)
  from serialize_contexts_Some [OF b1] serialize_heredocs_Some [OF b2] s
  show "serialize S =
          ?hdr @ map ctx_char (context_stack S) @ concat (map heredoc_bytes (heredocs S))"
    by simp
  from serialize_heredocs_Some [OF b2]
  show "\<forall>h \<in> set (heredocs S). length (delimiter h) < 2 ^ 32"
    by auto
qed

lemma serialize_heredoc_scanned:
  "serialize heredoc_scanned = [0, 0, 0, 0, 1, 0, 0,  0, 0, 0,  2, 0, 0, 0,  69, 0]"
  by (simp add: heredoc_scanned_def serialize_def create_def bool_char_def u32_bytes_def
        TREE_SITTER_SERIALIZATION_BUFFER_SIZE_def)

text \<open>
  The state \<open>heredoc_scanned\<close> is reached from the fresh scanner by three scans of
  \<open><<E\nx\nE\n\<close>: the operator, the delimiter and the body.
\<close>

lemma heredoc_scanned_reached:
  "scan create (lexer_at heredoc_text 0) (valid_only [HEREDOC_ARROW]) =
     Return True (create\<lparr>heredocs := [heredoc_new]\<rparr>)
       \<lparr> input = heredoc_text, position = 2, token_start = 0, token_end = None,
         result_symbol = HEREDOC_ARROW \<rparr> \<and>
   scan (create\<lparr>heredocs := [heredoc_new]\<rparr>) (lexer_at heredoc_text 2)
        (valid_only [HEREDOC_START]) =
     Return True (create\<lparr>heredocs := [pending [69, 0]]\<rparr>)
       \<lparr> input = heredoc_text, position = 3, token_start = 2, token_end = None,
         result_symbol = HEREDOC_START \<rparr> \<and>
   scan (create\<lparr>heredocs := [pending [69, 0]]\<rparr>) (lexer_at heredoc_text 3)
        (valid_only [HEREDOC_BODY_BEGINNING, SIMPLE_HEREDOC_BODY]) =
     Return True heredoc_scanned
       \<lparr> input = heredoc_text, position = 7, token_start = 4, token_end = Some 6,
         result_symbol = SIMPLE_HEREDOC_BODY \<rparr>"
  by code_simp

text \<open>
  C1, as the spec states it, fails: \<open>current_leading_word\<close> is not written by
  \<open>serialize\<close>. The state \<open>heredoc_scanned\<close>, read back into a fresh scanner, comes
  back with an empty \<open>current_leading_word\<close>.
\<close>

theorem roundtrip_loses_leading_word:
  "deserialize create (serialize heredoc_scanned) \<noteq> Some heredoc_scanned"
  by (simp add: serialize_heredoc_scanned)
     (simp add: heredoc_scanned_def deserialize_def create_def bytes_u32_def char_bool_def
        heredoc_new_def)

text \<open>
  C1, amended: for every scanner state whose serialization fits the buffer
  (\<open>serialize\<close> returns a length other than 0) and that holds fewer than 256 contexts
  and fewer than 256 heredocs (each count is written as one byte), deserializing the
  bytes of \<open>serialize\<close> into a fresh scanner gives back every field of the state except
  each heredoc's \<open>current_leading_word\<close>, which is not serialized and comes back empty;
  deserializing them into the scanner that was serialized gives back the state itself.
\<close>

theorem serialize_roundtrip:
  assumes "serialize S \<noteq> []"
    and "length (context_stack S) < 256" and "length (heredocs S) < 256"
  shows "deserialize create (serialize S) =
           Some (S\<lparr>heredocs := map (\<lambda>h. h\<lparr>current_leading_word := []\<rparr>) (heredocs S)\<rparr>)
         \<and> deserialize S (serialize S) = Some S"
proof -
  note sh = serialize_shape [OF assms(1)]
  have c: "unat (of_nat (length (context_stack S)) :: 8 word) = length (context_stack S)"
    using assms(2) by (simp add: unat_of_nat)
  have h: "unat (of_nat (length (heredocs S)) :: 8 word) = length (heredocs S)"
    using assms(3) by (simp add: unat_of_nat)
  have fresh: "deserialize create (serialize S) =
           Some (S\<lparr>heredocs := map (\<lambda>h. h\<lparr>current_leading_word := []\<rparr>) (heredocs S)\<rparr>)"
    unfolding sh(1)
    using deserialize_heredocs_fresh [OF sh(2), of "[]"]
    by (simp add: deserialize_def c h deserialize_contexts_map [of _ _ "[]", simplified]
          char_bool_bool_char create_def)
  have inplace: "deserialize S (serialize S) = Some S"
    unfolding sh(1)
    using deserialize_heredocs_in_place [OF sh(2), of "[]"]
    by (simp add: deserialize_def c h deserialize_contexts_map [of _ _ "[]", simplified]
          char_bool_bool_char)
  from fresh inplace show ?thesis by simp
qed

theorem serialize_roundtrip_witness:
  "serialize heredoc_scanned \<noteq> [] \<and> length (context_stack heredoc_scanned) < 256 \<and>
   length (heredocs heredoc_scanned) < 256 \<and>
   deserialize create (serialize heredoc_scanned) =
     Some (heredoc_scanned\<lparr>heredocs :=
             map (\<lambda>h. h\<lparr>current_leading_word := []\<rparr>) (heredocs heredoc_scanned)\<rparr>) \<and>
   deserialize heredoc_scanned (serialize heredoc_scanned) = Some heredoc_scanned"
proof -
  have 1: "serialize heredoc_scanned \<noteq> []" by (simp add: serialize_heredoc_scanned)
  have 2: "length (context_stack heredoc_scanned) < 256"
    by (simp add: heredoc_scanned_def create_def)
  have 3: "length (heredocs heredoc_scanned) < 256"
    by (simp add: heredoc_scanned_def create_def)
  from serialize_roundtrip [OF 1 2 3] 1 2 3 show ?thesis by simp
qed

text \<open>
  C6, as the spec states it, fails: \<open>reset\<close> does not empty the heredoc array. A
  scanner with a pending heredoc keeps a (reset) record after reading a zero-length
  buffer, so it is not the fresh scanner.
\<close>

theorem deserialize_empty_keeps_heredocs:
  "deserialize heredoc_scanned [] \<noteq> Some create"
  by (simp add: deserialize_def reset_def heredoc_scanned_def create_def)

text \<open>
  C6, amended: deserializing from a zero-length buffer resets the scanner: the context
  stack is empty, \<open>glob_paren_depth\<close> is zero and the four boolean flags are false; the
  heredoc array keeps its size, each record reset (\<open>is_raw\<close>, \<open>started\<close>,
  \<open>allows_indent\<close> false, the delimiter empty, \<open>current_leading_word\<close> as it was). The
  result is the freshly created scanner exactly when the scanner held no heredoc.
\<close>

theorem deserialize_empty_buffer:
  "deserialize scanner [] = Some (reset scanner) \<and>
   context_stack (reset scanner) = [] \<and>
   last_glob_paren_depth (reset scanner) = 0 \<and>
   ext_was_in_double_quote (reset scanner) = False \<and>
   ext_saw_outside_quote (reset scanner) = False \<and>
   just_returned_variable_name (reset scanner) = False \<and>
   just_returned_bare_dollar (reset scanner) = False \<and>
   heredocs (reset scanner) =
     map (\<lambda>h. h\<lparr>is_raw := False, started := False, allows_indent := False,
                  delimiter := []\<rparr>) (heredocs scanner) \<and>
   (reset scanner = create) = (heredocs scanner = [])"
proof -
  have "reset_heredoc = (\<lambda>h. h\<lparr>is_raw := False, started := False, allows_indent := False,
                                delimiter := []\<rparr>)"
    by (rule ext) (simp add: reset_heredoc_def reset_string_def)
  then show ?thesis
    by (cases scanner) (auto simp add: deserialize_def reset_def create_def)
qed

subsection \<open>The context stack\<close>

text \<open>
  C10: the context-stack operations never underflow. On an empty stack
  \<open>get_current_context\<close> is \<open>CTX_NONE\<close> and \<open>exit_context\<close> leaves the scanner as it is;
  so each handler of a closing delimiter (\<open>}\<close>, \<open>]\<close> and \<open>]]\<close>, \<open>)\<close> and \<open>))\<close>), run
  with no open context, ends with the stack still empty.
\<close>

theorem context_stack_never_underflows:
  assumes "context_stack scanner = []"
  shows "get_current_context scanner = CTX_NONE \<and>
         exit_context scanner expected_context = scanner \<and>
         outcome_stack (closing_brace_handler valid_symbols scanner lexer) = Some [] \<and>
         outcome_stack (closing_bracket_handler valid_symbols scanner lexer) = Some [] \<and>
         outcome_stack (closing_paren_handler valid_symbols scanner lexer) = Some []"
  using assms
  by (simp add: get_current_context_def exit_context_def outcome_stack_def
        outcome_scanner_def closing_brace_handler_def closing_bracket_handler_def
        closing_paren_handler_def Let_def)

theorem context_stack_never_underflows_witness:
  "context_stack create = [] \<and>
   get_current_context create = CTX_NONE \<and>
   exit_context create CTX_TEST = create \<and>
   outcome_stack (closing_brace_handler (valid_only [CLOSING_BRACE]) create
                    (lexer_at [c_rbrace] 0)) = Some [] \<and>
   outcome_stack (closing_bracket_handler (valid_only [TEST_COMMAND_END]) create
                    (lexer_at [c_rbracket, c_rbracket] 0)) = Some [] \<and>
   outcome_stack (closing_paren_handler (valid_only [CLOSING_PAREN]) create
                    (lexer_at [c_rparen] 0)) = Some []"
proof -
  have e: "context_stack create = []" by (simp add: create_def)
  from e context_stack_never_underflows [OF e, of CTX_TEST "valid_only [CLOSING_BRACE]"
      "lexer_at [c_rbrace] 0"]
    context_stack_never_underflows [OF e, of CTX_TEST "valid_only [TEST_COMMAND_END]"
      "lexer_at [c_rbracket, c_rbracket] 0"]
    context_stack_never_underflows [OF e, of CTX_TEST "valid_only [CLOSING_PAREN]"
      "lexer_at [c_rparen] 0"]
  show ?thesis by simp
qed

subsection \<open>The scanner on concrete inputs\<close>

text \<open>
  C7: with only NEWLINE valid and the input a single newline, the handler skips the
  newline, marks the end and sets \<open>result_symbol\<close> to NEWLINE, but has no \<open>return\<close>:
  no later handler matches and \<open>scan\<close> returns false.
\<close>

theorem newline_handler_falls_through:
  "scan create (lexer_at [c_newline] 0) (valid_only [NEWLINE]) =
     Return False create
       \<lparr> input = [c_newline], position = 1, token_start = 1, token_end = Some 1,
         result_symbol = NEWLINE \<rparr>"
  by code_simp

text \<open>
  C8: \<open>(#z)\<close> is emitted as ZSH_EXTENDED_GLOB_FLAGS, although \<open>z\<close> (122) is none of
  the letters of the class: the loop accepts every \<open>iswalnum\<close> character.
\<close>

theorem glob_flags_accept_other_letters:
  "scan create (lexer_at [c_lparen, c_hash, 122, c_rparen] 0)
        (valid_only [ZSH_EXTENDED_GLOB_FLAGS]) =
     Return True create
       \<lparr> input = [c_lparen, c_hash, 122, c_rparen], position = 4, token_start = 0,
         token_end = Some 4, result_symbol = ZSH_EXTENDED_GLOB_FLAGS \<rparr>"
  by code_simp

text \<open>
  C4: scanning a regex changes the context stack. On \<open>a'b')\<close> with REGEX valid the
  scan returns REGEX and has pushed \<open>CTX_PARAMETER\<close> when it left the quoted stretch; on
  \<open>a\b/\<close> with REGEX_NO_SLASH valid it returns REGEX_NO_SLASH and has pushed
  \<open>CTX_PARAMETER\<close> after the escaped character.
\<close>

theorem regex_scan_pushes_context:
  "scan create (lexer_at [c_a, c_squote, c_b, c_squote, c_rparen] 0) (valid_only [REGEX]) =
     Return True (create\<lparr>context_stack := [CTX_PARAMETER]\<rparr>)
       \<lparr> input = [c_a, c_squote, c_b, c_squote, c_rparen], position = 4, token_start = 0,
         token_end = Some 4, result_symbol = REGEX \<rparr> \<and>
   scan create (lexer_at [c_a, c_backslash, c_b, c_slash] 0) (valid_only [REGEX_NO_SLASH]) =
     Return True (create\<lparr>context_stack := [CTX_PARAMETER]\<rparr>)
       \<lparr> input = [c_a, c_backslash, c_b, c_slash], position = 3, token_start = 0,
         token_end = Some 3, result_symbol = REGEX_NO_SLASH \<rparr>"
  by code_simp

text \<open>
  C9: under error recovery the host offers every symbol, ERROR_RECOVERY among them. The
  block of EXPANSION_WORD has no test of \<open>in_error_recovery\<close> (the blocks of the regex
  family and of the extended globs have one): on \<open>a$x\<close> the scan returns EXPANSION_WORD.
  The block of TEST_OPERATOR has none either: with TEST_OPERATOR, EXTGLOB_PATTERN and
  ERROR_RECOVERY valid, the scan returns EXTGLOB_PATTERN on a dash before a blank.
\<close>

theorem expansion_word_in_error_recovery:
  "in_error_recovery (\<lambda>t. True) \<and>
   scan create (lexer_at [c_a, c_dollar, 120] 0) (\<lambda>t. True) =
     Return True create
       \<lparr> input = [c_a, c_dollar, 120], position = 2, token_start = 0, token_end = Some 1,
         result_symbol = EXPANSION_WORD \<rparr> \<and>
   in_error_recovery (valid_only [TEST_OPERATOR, EXTGLOB_PATTERN, ERROR_RECOVERY]) \<and>
   scan create (lexer_at [c_minus, c_space] 0)
        (valid_only [TEST_OPERATOR, EXTGLOB_PATTERN, ERROR_RECOVERY]) =
     Return True create
       \<lparr> input = [c_minus, c_space], position = 1, token_start = 0, token_end = None,
         result_symbol = EXTGLOB_PATTERN \<rparr>"
  by code_simp


text \<open>
  The handler of VARIABLE_NAME marks the end of the token before it reads one of the
  characters \<open>* @ ? - 0 _ #\<close>, and the tokens FILE_DESCRIPTOR and HEREDOC_ARROW are
  returned without \<open>mark_end\<close>: on \<open>0<<E\<close> and on \<open>01>\<close> the lexer has read the
  token and the token ends where the scan started.
\<close>

lemma token_end_marked_before_reading:
  "scan create (lexer_at [c_zero, c_lt, c_lt, 69] 0) (valid_only [HEREDOC_ARROW]) =
     Return True (create\<lparr>heredocs := [heredoc_new]\<rparr>)
       \<lparr> input = [c_zero, c_lt, c_lt, 69], position = 3, token_start = 0,
         token_end = Some 0, result_symbol = HEREDOC_ARROW \<rparr> \<and>
   scan create (lexer_at [c_zero, 49, c_gt] 0) (valid_only [FILE_DESCRIPTOR]) =
     Return True create
       \<lparr> input = [c_zero, 49, c_gt], position = 2, token_start = 0,
         token_end = Some 0, result_symbol = FILE_DESCRIPTOR \<rparr>"
  by code_simp

text \<open>
  \<open>array_push\<close> truncates a character of the delimiter to a \<open>char\<close>: a code point
  that is a multiple of 256 is stored as the byte 0, the delimiter then reads as the
  empty C string and \<open>strcmp\<close> finds it wherever it looks. On \<open><<\<close> followed by
  the character U+0100 and the lines \<open>$a\<close> and \<open>x\<close>: the delimiter is read as two
  NUL bytes; the body begins at the dollar; HEREDOC_CONTENT is returned for the end of
  the line of \<open>$a\<close>, and then once more at the start of the line \<open>x\<close> with
  nothing read and the scanner as it was; so is HEREDOC_END there.
\<close>

lemma nul_delimiter_matches_at_once:
  "scan (create\<lparr>heredocs := [heredoc_new]\<rparr>) (lexer_at nul_heredoc_text 2)
        (valid_only [HEREDOC_START]) =
     Return True (create\<lparr>heredocs := [pending [0, 0]]\<rparr>)
       \<lparr> input = nul_heredoc_text, position = 3, token_start = 2, token_end = None,
         result_symbol = HEREDOC_START \<rparr> \<and>
   scan (create\<lparr>heredocs := [pending [0, 0]]\<rparr>) (lexer_at nul_heredoc_text 4)
        (valid_only [HEREDOC_BODY_BEGINNING, SIMPLE_HEREDOC_BODY]) =
     Return True (create\<lparr>heredocs := [(pending [0, 0])\<lparr>started := True\<rparr>]\<rparr>)
       \<lparr> input = nul_heredoc_text, position = 4, token_start = 4, token_end = None,
         result_symbol = HEREDOC_BODY_BEGINNING \<rparr> \<and>
   scan (create\<lparr>heredocs := [(pending [0, 0])\<lparr>started := True\<rparr>]\<rparr>)
        (lexer_at nul_heredoc_text 6) (valid_only [HEREDOC_CONTENT]) =
     Return True
       (create\<lparr>heredocs :=
                 [(pending [0, 0])\<lparr>started := True, current_leading_word := [0]\<rparr>]\<rparr>)
       \<lparr> input = nul_heredoc_text, position = 7, token_start = 7, token_end = Some 7,
         result_symbol = HEREDOC_CONTENT \<rparr> \<and>
   scan (create\<lparr>heredocs :=
                 [(pending [0, 0])\<lparr>started := True, current_leading_word := [0]\<rparr>]\<rparr>)
        (lexer_at nul_heredoc_text 7) (valid_only [HEREDOC_CONTENT]) =
     Return True
       (create\<lparr>heredocs :=
                 [(pending [0, 0])\<lparr>started := True, current_leading_word := [0]\<rparr>]\<rparr>)
       \<lparr> input = nul_heredoc_text, position = 7, token_start = 7, token_end = None,
         result_symbol = HEREDOC_CONTENT \<rparr> \<and>
   scan (create\<lparr>heredocs :=
                 [(pending [0, 0])\<lparr>started := True, current_leading_word := [0]\<rparr>]\<rparr>)
        (lexer_at nul_heredoc_text 7) (valid_only [HEREDOC_END]) =
     Return True create
       \<lparr> input = nul_heredoc_text, position = 7, token_start = 7, token_end = None,
         result_symbol = HEREDOC_END \<rparr>"
  by code_simp

text \<open>
  C3: the scanner on \<open>${a/b}\<close>, from the empty context stack. The scan of \<open>{\<close> after
  the dollar pushes \<open>CTX_PARAMETER\<close>; the scan that returns PATTERN_START after the
  slash pushes \<open>CTX_PARAMETER_PATTERN_SUBSTITUTE\<close> on top of it, so that the stack holds
  two entries where C3 has the top replaced; the scan of \<open>}\<close> pops one entry and
  leaves \<open>[CTX_PARAMETER]\<close>, where C3 has the stack restored to what it was before
  \<open>${\<close>, the empty stack. The entry of \<open>${\<close> is never popped.
\<close>

theorem pattern_start_grows_stack:
  "scan (create\<lparr>just_returned_bare_dollar := True\<rparr>) (lexer_at substitution_text 1)
        (valid_only [BRACE_START]) =
     Return True (create\<lparr>context_stack := [CTX_PARAMETER]\<rparr>)
       \<lparr> input = substitution_text, position = 2, token_start = 1, token_end = Some 2,
         result_symbol = BRACE_START \<rparr> \<and>
   scan (create\<lparr>context_stack := [CTX_PARAMETER]\<rparr>) (lexer_at substitution_text 4)
        (valid_only [PATTERN_START]) =
     Return True (create\<lparr>context_stack := [CTX_PARAMETER, CTX_PARAMETER_PATTERN_SUBSTITUTE]\<rparr>)
       \<lparr> input = substitution_text, position = 4, token_start = 4, token_end = Some 4,
         result_symbol = PATTERN_START \<rparr> \<and>
   scan (create\<lparr>context_stack := [CTX_PARAMETER, CTX_PARAMETER_PATTERN_SUBSTITUTE]\<rparr>)
        (lexer_at substitution_text 5) (valid_only [CLOSING_BRACE]) =
     Return True (create\<lparr>context_stack := [CTX_PARAMETER]\<rparr>)
       \<lparr> input = substitution_text, position = 6, token_start = 5, token_end = None,
         result_symbol = CLOSING_BRACE \<rparr>"
  by code_simp

text \<open>
  C5, as the spec states it, fails. On \<open><<A <<B\<close> followed by the lines \<open>a\<close>, \<open>A\<close>,
  \<open>b\<close>, \<open>B\<close>: the two operators push two records and each HEREDOC_START fills the
  last one; the body is then scanned for the last record, the one of \<open><<B\<close>: the token
  SIMPLE_HEREDOC_BODY runs over the line \<open>A\<close> up to the line \<open>B\<close>, and the record of
  \<open><<A\<close>, the earlier one, is untouched.
\<close>

theorem heredoc_body_of_last_operator:
  "scan (create\<lparr>heredocs := [pending [65, 0]]\<rparr>) (lexer_at two_heredocs_text 3)
        (valid_only [HEREDOC_ARROW]) =
     Return True (create\<lparr>heredocs := [pending [65, 0], heredoc_new]\<rparr>)
       \<lparr> input = two_heredocs_text, position = 6, token_start = 4, token_end = None,
         result_symbol = HEREDOC_ARROW \<rparr> \<and>
   scan (create\<lparr>heredocs := [pending [65, 0], heredoc_new]\<rparr>) (lexer_at two_heredocs_text 6)
        (valid_only [HEREDOC_START]) =
     Return True (create\<lparr>heredocs := [pending [65, 0], pending [66, 0]]\<rparr>)
       \<lparr> input = two_heredocs_text, position = 7, token_start = 6, token_end = None,
         result_symbol = HEREDOC_START \<rparr> \<and>
   scan (create\<lparr>heredocs := [pending [65, 0], pending [66, 0]]\<rparr>)
        (lexer_at two_heredocs_text 7)
        (valid_only [HEREDOC_BODY_BEGINNING, SIMPLE_HEREDOC_BODY]) =
     Return True
       (create\<lparr>heredocs := [pending [65, 0],
                               (pending [66, 0])\<lparr>current_leading_word := [66, 0]\<rparr>]\<rparr>)
       \<lparr> input = two_heredocs_text, position = 15, token_start = 8, token_end = Some 14,
         result_symbol = SIMPLE_HEREDOC_BODY \<rparr>"
  by code_simp

subsection \<open>Rules for the conditions on outcomes, and the lexer that never moves back\<close>

text \<open>
  Every operation on the lexer leaves the position where it is or moves it forward, and
  \<open>mark_end\<close> puts the end of the token at the position: \<open>adv p\<close> is kept by every
  handler, by every loop and so by \<open>scan\<close>.
\<close>

lemma outcome_sat_simps [simp]:
  "outcome_sat Q I (Return b scanner lexer) = Q b scanner lexer"
  "outcome_sat Q I (Continue scanner lexer) = I scanner lexer"
  "outcome_sat Q I (Goto l scanner lexer) = I scanner lexer"
  "outcome_sat Q I Abort = True"
  by (simp_all add: outcome_sat_def)

lemma outcome_sat_then:
  assumes "outcome_sat Q I out"
    and "\<And>scanner lexer. I scanner lexer \<Longrightarrow> outcome_sat Q I (k scanner lexer)"
  shows "outcome_sat Q I (case out of Continue scanner lexer \<Rightarrow> k scanner lexer | result \<Rightarrow> result)"
  using assms by (cases out) simp_all

lemma run_handlers_sat:
  assumes "\<And>h scanner lexer. h \<in> set hs \<Longrightarrow> I scanner lexer \<Longrightarrow> outcome_sat Q I (h scanner lexer)"
    and "I scanner lexer"
  shows "outcome_sat Q I (run_handlers hs scanner lexer)"
  using assms
proof (induction hs arbitrary: scanner lexer)
  case Nil
  then show ?case by simp
next
  case (Cons h hs)
  have "outcome_sat Q I (h scanner lexer)" using Cons.prems by simp
  then show ?case
    using Cons.IH Cons.prems(1) by (cases "h scanner lexer") simp_all
qed

lemma adv_advance [simp]: "adv p lexer \<Longrightarrow> adv p (advance lexer)"
  by (auto simp: adv_def advance_def token_end_position_def split: option.splits)

lemma adv_skip [simp]: "adv p lexer \<Longrightarrow> adv p (skip lexer)"
  by (auto simp: adv_def skip_def token_end_position_def split: option.splits)

lemma adv_mark_end [simp]: "adv p lexer \<Longrightarrow> adv p (mark_end lexer)"
  by (auto simp: adv_def mark_end_def token_end_position_def split: option.splits)

lemma adv_result_symbol [simp]: "adv p (lexer\<lparr>result_symbol := t\<rparr>) = adv p lexer"
  by (simp add: adv_def token_end_position_def split: option.splits)

lemma adv_advance_while [simp]: "adv p lexer \<Longrightarrow> adv p (advance_while q lexer)"
proof (induction q lexer rule: advance_while.induct)
  case (1 q lexer)
  then show ?case by (subst advance_while.simps) simp
qed

lemma adv_skip_while [simp]: "adv p lexer \<Longrightarrow> adv p (skip_while q lexer)"
proof (induction q lexer rule: skip_while.induct)
  case (1 q lexer)
  then show ?case by (subst skip_while.simps) simp
qed





























lemma step_sat_simps [simp]:
  "step_sat Q I (Inl t) = I (fst (snd t)) (snd (snd t))"
  "step_sat Q I (Inr out) = outcome_sat Q I out"
  by (simp_all add: step_sat_def case_prod_beta)


lemma outcome_sat_if:
  "outcome_sat Q I (if c then a else b) = ((c \<longrightarrow> outcome_sat Q I a) \<and> (\<not> c \<longrightarrow> outcome_sat Q I b))"
  by simp

lemma step_sat_if:
  "step_sat Q I (if c then a else b) = ((c \<longrightarrow> step_sat Q I a) \<and> (\<not> c \<longrightarrow> step_sat Q I b))"
  by simp

lemma adv_if: "adv p a \<Longrightarrow> adv p b \<Longrightarrow> adv p (if c then a else b)"
  by simp

lemmas sat_if = outcome_sat_if step_sat_if adv_if




lemma outcome_sat_step_then:
  assumes "step_sat Q I r"
    and "\<And>x scanner lexer. I scanner lexer \<Longrightarrow> outcome_sat Q I (k x scanner lexer)"
  shows "outcome_sat Q I (case r of Inl (x, scanner, lexer) \<Rightarrow> k x scanner lexer | Inr result \<Rightarrow> result)"
  using assms by (cases r) auto

lemma step_sat_then:
  assumes "step_sat Q I r"
    and "\<And>x scanner lexer. I scanner lexer \<Longrightarrow> step_sat Q I (k x scanner lexer)"
  shows "step_sat Q I (case r of Inl (x, scanner, lexer) \<Rightarrow> k x scanner lexer | Inr result \<Rightarrow> Inr result)"
  using assms by (cases r) auto










































text \<open>Expansion words and brace ranges.\<close>

lemma word_sat_simps [simp]:
  "word_sat Q I scanner (Inl t) = I scanner (snd (snd t))"
  "word_sat Q I scanner (Inr out) = outcome_sat Q I out"
  by (simp_all add: word_sat_def)

lemma word_sat_if:
  "word_sat Q I scanner (if c then a else b) =
     ((c \<longrightarrow> word_sat Q I scanner a) \<and> (\<not> c \<longrightarrow> word_sat Q I scanner b))"
  by simp

lemma word_sat_then:
  assumes "word_sat Q I scanner r"
    and "\<And>x y lexer. I scanner lexer \<Longrightarrow> word_sat Q I scanner (k x y lexer)"
  shows "word_sat Q I scanner
           (case r of Inl (x, y, lexer) \<Rightarrow> k x y lexer | Inr result \<Rightarrow> Inr result)"
  using assms by (cases r) auto















lemma token_end_advance [simp]: "token_end (advance lexer) = token_end lexer"
  by (simp add: advance_def)

lemma token_end_advance_while [simp]: "token_end (advance_while q lexer) = token_end lexer"
  by (induction q lexer rule: advance_while.induct) (subst advance_while.simps, simp)

lemma token_end_mark_end [simp]: "token_end (mark_end lexer) = Some (position lexer)"
  by (simp add: mark_end_def)

lemma position_mark_end [simp]: "position (mark_end lexer) = position lexer"
  by (simp add: mark_end_def)

lemma result_symbol_advance [simp]: "result_symbol (advance lexer) = result_symbol lexer"
  by (simp add: advance_def)

lemma result_symbol_skip [simp]: "result_symbol (skip lexer) = result_symbol lexer"
  by (simp add: skip_def)

lemma result_symbol_mark_end [simp]: "result_symbol (mark_end lexer) = result_symbol lexer"
  by (simp add: mark_end_def)

lemma result_symbol_advance_while [simp]:
  "result_symbol (advance_while q lexer) = result_symbol lexer"
  by (induction q lexer rule: advance_while.induct) (subst advance_while.simps, simp)

lemma result_symbol_skip_while [simp]:
  "result_symbol (skip_while q lexer) = result_symbol lexer"
  by (induction q lexer rule: skip_while.induct) (subst skip_while.simps, simp)

lemma token_end_position_result_symbol [simp]:
  "token_end_position (lexer\<lparr>result_symbol := t\<rparr>) = token_end_position lexer"
  by (simp add: token_end_position_def split: option.splits)





subsection \<open>The tokens that move the input position\<close>

text \<open>
  A handler that returns an \<open>advancing\<close> token has read a character and marked the
  end of the token after it; one that returns a \<open>consuming\<close> token has read a
  character. The closing brace is returned without \<open>mark_end\<close>, but only the handler
  of the newlines comes before it.
\<close>

lemma advancing_simps [simp]:
  "advancing HEREDOC_START = False" "advancing SIMPLE_HEREDOC_BODY = False"
  "advancing HEREDOC_BODY_BEGINNING = False" "advancing HEREDOC_CONTENT = False"
  "advancing HEREDOC_END = False" "advancing FILE_DESCRIPTOR = False"
  "advancing EMPTY_VALUE = False" "advancing CONCAT = False" "advancing VARIABLE_NAME"
  "advancing SIMPLE_VARIABLE_NAME" "advancing SPECIAL_VARIABLE_NAME" "advancing TEST_OPERATOR"
  "advancing REGEX" "advancing REGEX_NO_SLASH = False" "advancing REGEX_NO_SPACE = False"
  "advancing EXPANSION_WORD = False" "advancing EXTGLOB_PATTERN = False"
  "advancing RAW_DOLLAR = False" "advancing BARE_DOLLAR" "advancing PEEK_BARE_DOLLAR = False"
  "advancing BRACE_START" "advancing IMMEDIATE_DOUBLE_HASH" "advancing ARRAY_STAR_TOKEN"
  "advancing ARRAY_AT_TOKEN" "advancing CLOSING_BRACE" "advancing CLOSING_BRACKET"
  "advancing CLOSING_PAREN" "advancing CLOSING_DOUBLE_PAREN" "advancing HEREDOC_ARROW = False"
  "advancing HEREDOC_ARROW_DASH = False" "advancing HASH_PATTERN" "advancing DOUBLE_HASH_PATTERN"
  "advancing ENTER_PATTERN = False" "advancing PATTERN_START = False"
  "advancing PATTERN_SUFFIX_START = False" "advancing NEWLINE = False" "advancing OPENING_PAREN"
  "advancing DOUBLE_OPENING_PAREN" "advancing OPENING_BRACKET" "advancing TEST_COMMAND_START"
  "advancing TEST_COMMAND_END" "advancing ESAC = False" "advancing ZSH_EXTENDED_GLOB_FLAGS"
  "advancing ERROR_RECOVERY = False"
  by (simp_all add: advancing_def)

lemma consuming_simps [simp]:
  "consuming HEREDOC_START" "consuming SIMPLE_HEREDOC_BODY = False"
  "consuming HEREDOC_BODY_BEGINNING = False" "consuming HEREDOC_CONTENT = False"
  "consuming HEREDOC_END = False" "consuming FILE_DESCRIPTOR"
  "consuming EMPTY_VALUE = False" "consuming CONCAT = False" "consuming VARIABLE_NAME"
  "consuming SIMPLE_VARIABLE_NAME" "consuming SPECIAL_VARIABLE_NAME" "consuming TEST_OPERATOR"
  "consuming REGEX" "consuming REGEX_NO_SLASH = False" "consuming REGEX_NO_SPACE = False"
  "consuming EXPANSION_WORD = False" "consuming EXTGLOB_PATTERN"
  "consuming RAW_DOLLAR = False" "consuming BARE_DOLLAR" "consuming PEEK_BARE_DOLLAR = False"
  "consuming BRACE_START" "consuming IMMEDIATE_DOUBLE_HASH" "consuming ARRAY_STAR_TOKEN"
  "consuming ARRAY_AT_TOKEN" "consuming CLOSING_BRACE" "consuming CLOSING_BRACKET"
  "consuming CLOSING_PAREN" "consuming CLOSING_DOUBLE_PAREN" "consuming HEREDOC_ARROW"
  "consuming HEREDOC_ARROW_DASH" "consuming HASH_PATTERN" "consuming DOUBLE_HASH_PATTERN"
  "consuming ENTER_PATTERN = False" "consuming PATTERN_START = False"
  "consuming PATTERN_SUFFIX_START = False" "consuming NEWLINE = False" "consuming OPENING_PAREN"
  "consuming DOUBLE_OPENING_PAREN" "consuming OPENING_BRACKET" "consuming TEST_COMMAND_START"
  "consuming TEST_COMMAND_END" "consuming ESAC = False" "consuming ZSH_EXTENDED_GLOB_FLAGS"
  "consuming ERROR_RECOVERY = False"
  by (simp_all add: consuming_def)

lemma advancing_consuming: "advancing t \<Longrightarrow> consuming t"
  by (auto simp add: advancing_def consuming_def)

lemma not_consuming_advancing [simp]: "\<not> consuming t \<Longrightarrow> advancing t = False"
  by (auto dest: advancing_consuming)

lemma progress_simps [simp]:
  "progress p False scanner lexer"
  "progress p True scanner lexer =
     ((advancing (result_symbol lexer) \<longrightarrow> past p lexer) \<and>
      (consuming (result_symbol lexer) \<longrightarrow> p < position lexer))"
  by (simp_all add: progress_def)



text \<open>The lexer.\<close>

lemma lookahead_mark_end [simp]: "lookahead (mark_end lexer) = lookahead lexer"
  by (simp add: lookahead_def mark_end_def)

lemma lookahead_result_symbol [simp]: "lookahead (lexer\<lparr>result_symbol := t\<rparr>) = lookahead lexer"
  by (simp add: lookahead_def)

lemma eof_mark_end [simp]: "eof (mark_end lexer) = eof lexer"
  by (simp add: eof_def mark_end_def)

lemma eof_result_symbol [simp]: "eof (lexer\<lparr>result_symbol := t\<rparr>) = eof lexer"
  by (simp add: eof_def)


lemma position_advance_moves:
  "lookahead lexer \<noteq> 0 \<Longrightarrow> position (advance lexer) = Suc (position lexer)"
  by (auto simp add: advance_def dest: lookahead_not_eof)

lemma position_skip_moves:
  "lookahead lexer \<noteq> 0 \<Longrightarrow> position (skip lexer) = Suc (position lexer)"
  by (auto simp add: skip_def dest: lookahead_not_eof)

lemma position_advance_le: "position lexer \<le> position (advance lexer)"
  by (simp add: advance_def)

lemma position_skip_le: "position lexer \<le> position (skip lexer)"
  by (simp add: skip_def)

lemma position_advance_while_le: "position lexer \<le> position (advance_while q lexer)"
proof (induction q lexer rule: advance_while.induct)
  case (1 q lexer)
  then show ?case
    using position_advance_le [of lexer]
    by (subst advance_while.simps) (auto simp del: advance_while.simps)
qed

lemma position_skip_while_le: "position lexer \<le> position (skip_while q lexer)"
proof (induction q lexer rule: skip_while.induct)
  case (1 q lexer)
  then show ?case
    using position_skip_le [of lexer]
    by (subst skip_while.simps) (auto simp del: skip_while.simps)
qed

lemma beyond_advance_first [simp]:
  "adv p lexer \<Longrightarrow> lookahead lexer \<noteq> 0 \<Longrightarrow> p < position (advance lexer)"
  by (simp add: position_advance_moves adv_def)

lemma beyond_skip_first [simp]:
  "adv p lexer \<Longrightarrow> lookahead lexer \<noteq> 0 \<Longrightarrow> p < position (skip lexer)"
  by (simp add: position_skip_moves adv_def)

lemma beyond_advance [simp]: "p < position lexer \<Longrightarrow> p < position (advance lexer)"
  using position_advance_le [of lexer] by simp

lemma beyond_skip [simp]: "p < position lexer \<Longrightarrow> p < position (skip lexer)"
  using position_skip_le [of lexer] by simp

lemma beyond_advance_while [simp]:
  "p < position lexer \<Longrightarrow> p < position (advance_while q lexer)"
  using position_advance_while_le [of lexer q] by simp

lemma beyond_skip_while [simp]:
  "p < position lexer \<Longrightarrow> p < position (skip_while q lexer)"
  using position_skip_while_le [of lexer q] by simp


lemma past_result_symbol [simp]: "past p (lexer\<lparr>result_symbol := t\<rparr>) = past p lexer"
  by (simp add: past_def)

lemma past_mark_end [simp]: "past p (mark_end lexer) = (p < position lexer)"
  by (simp add: past_def token_end_position_def)

lemma token_end_position_advance_le:
  "token_end_position lexer \<le> token_end_position (advance lexer)"
  by (simp add: token_end_position_def advance_def split: option.splits)

lemma past_advance [simp]: "past p lexer \<Longrightarrow> past p (advance lexer)"
  using token_end_position_advance_le [of lexer] position_advance_le [of lexer]
  by (simp add: past_def)

lemma past_advance_while [simp]: "past p lexer \<Longrightarrow> past p (advance_while q lexer)"
proof (induction q lexer rule: advance_while.induct)
  case (1 q lexer)
  then show ?case by (subst advance_while.simps) simp
qed































lemma result_symbol_advance_word_loop [simp]:
  "result_symbol (snd (snd (snd (advance_word_loop quote e w lexer)))) = result_symbol lexer"
proof (induction quote e w lexer rule: advance_word_loop.induct)
  case (1 quote empty_word unquoted_word lexer)
  let ?l1 = "if lookahead lexer = c_backslash then advance lexer else lexer"
  show ?case
  proof (cases "(lookahead lexer \<noteq> 0 \<and>
         \<not> (if quote \<noteq> 0
            then lookahead lexer = quote \<or> lookahead lexer = c_cr \<or>
                 lookahead lexer = c_newline
            else iswspace (lookahead lexer))) \<and>
         \<not> (lookahead lexer = c_backslash \<and> lookahead ?l1 = 0)")
    case True
    then have "result_symbol (snd (snd (snd (advance_word_loop quote False
        (unquoted_word @ [word_of_int (lookahead ?l1)]) (advance ?l1))))) =
        result_symbol (advance ?l1)"
      by (intro "1.IH" [OF _ refl]) simp_all
    with True show ?thesis
      by (subst advance_word_loop.simps) (simp add: Let_def)
  next
    case False
    then show ?thesis
      by (subst advance_word_loop.simps) (auto simp add: Let_def)
  qed
qed

lemma result_symbol_advance_word [simp]:
  "result_symbol (fst (snd (advance_word lexer w))) = result_symbol lexer"
  by (simp add: advance_word_def Let_def case_prod_beta if_distrib [of result_symbol])

lemma result_symbol_scan_heredoc_start [simp]:
  "result_symbol (snd (snd (scan_heredoc_start heredoc lexer))) = HEREDOC_START"
  by (simp add: scan_heredoc_start_def Let_def case_prod_beta if_distrib [of result_symbol]
        if_distrib [of snd])

lemma result_symbol_scan_raw_dollar:
  "fst (scan_raw_dollar lexer) \<Longrightarrow> result_symbol (snd (scan_raw_dollar lexer)) = BARE_DOLLAR"
  by (simp add: scan_raw_dollar_def Let_def split: if_splits)















lemma iswdigit_nonzero: "iswdigit c \<Longrightarrow> c \<noteq> 0"
  by (auto simp add: iswdigit_def)

lemma iswalpha_nonzero: "iswalpha c \<Longrightarrow> c \<noteq> 0"
  by (auto simp add: iswalpha_def)


















text \<open>The regex family.\<close>

lemma state_sat_simps [simp]:
  "state_sat Q J (Inl t) = J (fst t) (snd (snd t))"
  "state_sat Q J (Inr out) = outcome_sat Q (\<lambda>scanner lexer. False) out"
  by (simp_all add: state_sat_def)



lemma regex_switch_keeps [simp]:
  "rs_advanced_once (regex_switch st c) = rs_advanced_once st"
  "rs_in_single_quote (regex_switch st c) = rs_in_single_quote st"
  by (simp_all add: regex_switch_def)

lemma regex_inv_switch [simp]: "regex_inv p (regex_switch st c) lexer = regex_inv p st lexer"
  by (simp add: regex_inv_def)












lemma moved_begun: "moved p lexer \<Longrightarrow> begun p lexer"
  by (simp add: moved_def begun_def)

lemma moved_advance_live: "live p lexer \<Longrightarrow> moved p (advance lexer)"
  by (auto simp add: live_def moved_def)






lemma es_done_switch_bracket [simp]:
  "es_done (extglob_switch st c_lbracket) = es_done st"
  by (simp add: extglob_switch_def)




















subsection \<open>The heredocs are a stack\<close>

text \<open>
  Every handler reaches the heredocs through \<open>array_back\<close>, \<open>array_push\<close> and
  \<open>array_pop\<close>: what it hands on to the next handler is \<open>kept\<close>, what it leaves
  \<open>scan\<close> with is \<open>earlier\<close>.
\<close>

lemma outcome_sat_weaken:
  assumes "outcome_sat Q I out"
    and "\<And>b scanner lexer. Q b scanner lexer \<Longrightarrow> Q' b scanner lexer"
    and "\<And>scanner lexer. I scanner lexer \<Longrightarrow> I' scanner lexer"
  shows "outcome_sat Q' I' out"
  using assms by (cases out) simp_all

lemma heredocs_enter_context [simp]: "heredocs (enter_context scanner c) = heredocs scanner"
  by (simp add: enter_context_def)

lemma heredocs_exit_context [simp]: "heredocs (exit_context scanner c) = heredocs scanner"
  by (simp add: exit_context_def)

lemma heredocs_set_back [simp]:
  "heredocs (set_back scanner h) = butlast (heredocs scanner) @ [h]"
  by (simp add: set_back_def)

lemma kept_refl [simp]: "kept hs hs"
  by (simp add: kept_def)

lemma kept_earlier [simp]: "kept hs0 hs \<Longrightarrow> earlier hs0 hs"
  by (simp add: earlier_def)

lemma earlier_take:
  assumes "earlier hs0 hs"
  shows "take (length hs0 - 1) hs = butlast hs0"
proof -
  from assms consider "kept hs0 hs" | "hs = butlast hs0" | "hs \<noteq> []" "kept hs0 (butlast hs)"
    by (auto simp add: earlier_def)
  then show ?thesis
  proof cases
    case 1
    then have "take (length hs0 - 1) hs = butlast hs"
      by (simp add: kept_def butlast_conv_take)
    with 1 show ?thesis by (simp add: kept_def)
  next
    case 2
    then show ?thesis by simp
  next
    case 3
    from 3(2) have l: "length hs0 = length hs - 1" and e: "butlast (butlast hs) = butlast hs0"
      by (simp_all add: kept_def)
    have "take (length hs0 - 1) hs = take (length hs0 - 1) (take (length hs - 1) hs)"
      using l by (simp add: min_def)
    also have "\<dots> = butlast (butlast hs)"
      using l by (simp add: butlast_conv_take)
    finally show ?thesis using e by simp
  qed
qed

lemma kept_rewrite_last [simp]: "kept hs0 hs \<Longrightarrow> hs \<noteq> [] \<Longrightarrow> kept hs0 (butlast hs @ [h])"
  by (cases hs rule: rev_cases) (auto simp add: kept_def)

lemma earlier_pop [simp]: "kept hs0 hs \<Longrightarrow> earlier hs0 (butlast hs)"
  by (simp add: kept_def earlier_def)

lemma earlier_push [simp]: "kept hs0 hs \<Longrightarrow> earlier hs0 (hs @ [h])"
  by (simp add: earlier_def)

lemma earlier_rewrite_last [simp]:
  "kept hs0 hs \<Longrightarrow> hs \<noteq> [] \<Longrightarrow> earlier hs0 (butlast hs @ [h])"
  by (rule kept_earlier) simp

lemma sat_end_identifier:
  assumes "\<And>m h' l'. step_sat Q I (k m h' l')"
  shows "step_sat Q I
           (case scan_heredoc_end_identifier h lexer of
              None \<Rightarrow> Inr Abort
            | Some (m, h', l') \<Rightarrow> k m h' l')"
  using assms by (auto split: option.splits)

lemma hd_newline_handler:
  "kept hs0 (heredocs scanner) \<Longrightarrow>
   outcome_sat (hdQ hs0) (hdI hs0) (newline_handler valid_symbols scanner lexer)"
  by (simp add: newline_handler_def Let_def sat_if split del: if_split)

lemma hd_closing_brace_handler:
  "kept hs0 (heredocs scanner) \<Longrightarrow>
   outcome_sat (hdQ hs0) (hdI hs0) (closing_brace_handler valid_symbols scanner lexer)"
  by (simp add: closing_brace_handler_def Let_def sat_if split del: if_split)

lemma hd_concat_whitespace:
  "kept hs0 (heredocs scanner) \<Longrightarrow>
   outcome_sat (hdQ hs0) (hdI hs0) (concat_whitespace valid_symbols ctx scanner lexer)"
  by (simp add: concat_whitespace_def Let_def sat_if split del: if_split)

lemma hd_concat_handler:
  "kept hs0 (heredocs scanner) \<Longrightarrow>
   outcome_sat (hdQ hs0) (hdI hs0) (concat_handler valid_symbols w scanner lexer)"
  by (simp add: concat_handler_def Let_def sat_if hd_concat_whitespace split del: if_split)

lemma hd_bare_dollar_handler:
  "kept hs0 (heredocs scanner) \<Longrightarrow>
   outcome_sat (hdQ hs0) (hdI hs0) (bare_dollar_handler valid_symbols scanner lexer)"
  by (simp add: bare_dollar_handler_def Let_def sat_if split del: if_split)

lemma hd_peek_bare_dollar_handler:
  "kept hs0 (heredocs scanner) \<Longrightarrow>
   outcome_sat (hdQ hs0) (hdI hs0) (peek_bare_dollar_handler valid_symbols scanner lexer)"
  by (simp add: peek_bare_dollar_handler_def Let_def sat_if split del: if_split)

lemma hd_dollar_brace_handler:
  "kept hs0 (heredocs scanner) \<Longrightarrow>
   outcome_sat (hdQ hs0) (hdI hs0) (dollar_brace_handler valid_symbols w scanner lexer)"
  by (simp add: dollar_brace_handler_def Let_def sat_if split del: if_split)

lemma hd_opening_paren_handler:
  "kept hs0 (heredocs scanner) \<Longrightarrow>
   outcome_sat (hdQ hs0) (hdI hs0) (opening_paren_handler valid_symbols w scanner lexer)"
  by (simp add: opening_paren_handler_def Let_def sat_if split del: if_split)

lemma hd_opening_bracket_handler:
  "kept hs0 (heredocs scanner) \<Longrightarrow>
   outcome_sat (hdQ hs0) (hdI hs0) (opening_bracket_handler valid_symbols w scanner lexer)"
  by (simp add: opening_bracket_handler_def Let_def sat_if split del: if_split)

lemma hd_closing_bracket_handler:
  "kept hs0 (heredocs scanner) \<Longrightarrow>
   outcome_sat (hdQ hs0) (hdI hs0) (closing_bracket_handler valid_symbols scanner lexer)"
  by (simp add: closing_bracket_handler_def Let_def sat_if split del: if_split)

lemma hd_closing_paren_handler:
  "kept hs0 (heredocs scanner) \<Longrightarrow>
   outcome_sat (hdQ hs0) (hdI hs0) (closing_paren_handler valid_symbols scanner lexer)"
  by (simp add: closing_paren_handler_def Let_def sat_if split del: if_split)

lemma hd_pattern_start_handler:
  "kept hs0 (heredocs scanner) \<Longrightarrow>
   outcome_sat (hdQ hs0) (hdI hs0) (pattern_start_handler valid_symbols scanner lexer)"
  by (simp add: pattern_start_handler_def Let_def sat_if split del: if_split)

lemma hd_pattern_suffix_start_handler:
  "kept hs0 (heredocs scanner) \<Longrightarrow>
   outcome_sat (hdQ hs0) (hdI hs0) (pattern_suffix_start_handler valid_symbols scanner lexer)"
  by (simp add: pattern_suffix_start_handler_def Let_def sat_if split del: if_split)

lemma hd_colon_handler:
  "kept hs0 (heredocs scanner) \<Longrightarrow>
   outcome_sat (hdQ hs0) (hdI hs0) (colon_handler valid_symbols scanner lexer)"
  by (simp add: colon_handler_def Let_def sat_if split del: if_split)

lemma hd_hash_handler:
  "kept hs0 (heredocs scanner) \<Longrightarrow>
   outcome_sat (hdQ hs0) (hdI hs0) (hash_handler valid_symbols scanner lexer)"
  by (simp add: hash_handler_def Let_def sat_if split del: if_split)

lemma hd_immediate_double_hash_handler:
  "kept hs0 (heredocs scanner) \<Longrightarrow>
   outcome_sat (hdQ hs0) (hdI hs0) (immediate_double_hash_handler valid_symbols scanner lexer)"
  by (simp add: immediate_double_hash_handler_def Let_def sat_if split del: if_split)

lemma hd_array_token_handler:
  "kept hs0 (heredocs scanner) \<Longrightarrow>
   outcome_sat (hdQ hs0) (hdI hs0) (array_token_handler valid_symbols scanner lexer)"
  by (simp add: array_token_handler_def Let_def sat_if split del: if_split)

lemma hd_empty_value_handler:
  "kept hs0 (heredocs scanner) \<Longrightarrow>
   outcome_sat (hdQ hs0) (hdI hs0) (empty_value_handler valid_symbols scanner lexer)"
  by (simp add: empty_value_handler_def Let_def sat_if split del: if_split)

lemma hd_heredoc_content_step:
  "kept hs0 (heredocs scanner) \<Longrightarrow> heredocs scanner \<noteq> [] \<Longrightarrow>
   step_sat (hdQ hs0) (hdN hs0) (heredoc_content_step middle_type end_type d scanner lexer)"
  apply (simp add: heredoc_content_step_def Let_def sat_if split del: if_split)
  apply (intro conjI impI allI sat_end_identifier)
  apply (simp_all add: sat_if split del: if_split)
  done

lemma hd_heredoc_content_loop:
  "kept hs0 (heredocs scanner) \<Longrightarrow> heredocs scanner \<noteq> [] \<Longrightarrow>
   outcome_sat (hdQ hs0) (hdN hs0) (heredoc_content_loop middle_type end_type d scanner lexer)"
proof (induction middle_type end_type d scanner lexer rule: heredoc_content_loop.induct)
  case (1 middle_type end_type did_advance scanner lexer)
  from hd_heredoc_content_step [OF "1.prems", of middle_type end_type did_advance lexer]
  show ?case
    by (subst heredoc_content_loop.simps)
       (auto split: sum.splits intro!: "1.IH")
qed

lemma hd_scan_heredoc_content:
  "kept hs0 (heredocs scanner) \<Longrightarrow>
   outcome_sat (hdQ hs0) (hdI hs0) (scan_heredoc_content scanner lexer middle_type end_type)"
  unfolding scan_heredoc_content_def
  by (auto intro: outcome_sat_weaken [OF hd_heredoc_content_loop])

lemma content_step_rewrites_or_pops:
  "kept hs0 (heredocs scanner) \<Longrightarrow> heredocs scanner \<noteq> [] \<Longrightarrow>
   step_sat (rewritten_or_popped hs0) (hdN hs0)
     (heredoc_content_step middle_type end_type d scanner lexer)"
  apply (simp add: heredoc_content_step_def Let_def sat_if split del: if_split)
  apply (intro conjI impI allI sat_end_identifier)
  apply (simp_all add: sat_if rewritten_or_popped_def split del: if_split)
  apply (simp_all add: kept_def)
  done

lemma content_loop_rewrites_or_pops:
  "kept hs0 (heredocs scanner) \<Longrightarrow> heredocs scanner \<noteq> [] \<Longrightarrow>
   outcome_sat (rewritten_or_popped hs0) (hdN hs0)
     (heredoc_content_loop middle_type end_type d scanner lexer)"
proof (induction middle_type end_type d scanner lexer rule: heredoc_content_loop.induct)
  case (1 middle_type end_type did_advance scanner lexer)
  from content_step_rewrites_or_pops [OF "1.prems", of middle_type end_type did_advance lexer]
  show ?case
    by (subst heredoc_content_loop.simps)
       (auto split: sum.splits intro!: "1.IH")
qed

lemma hd_heredoc_body_handler:
  "kept hs0 (heredocs scanner) \<Longrightarrow>
   outcome_sat (hdQ hs0) (hdI hs0) (heredoc_body_handler valid_symbols scanner lexer)"
  by (simp add: heredoc_body_handler_def hd_scan_heredoc_content)

lemma hd_heredoc_content_handler:
  "kept hs0 (heredocs scanner) \<Longrightarrow>
   outcome_sat (hdQ hs0) (hdI hs0) (heredoc_content_handler valid_symbols scanner lexer)"
  by (simp add: heredoc_content_handler_def hd_scan_heredoc_content)

lemma hd_heredoc_end_handler:
  "kept hs0 (heredocs scanner) \<Longrightarrow>
   outcome_sat (hdQ hs0) (hdI hs0) (heredoc_end_handler valid_symbols scanner lexer)"
  by (auto simp add: heredoc_end_handler_def split: option.splits)

lemma hd_heredoc_start_handler:
  "kept hs0 (heredocs scanner) \<Longrightarrow>
   outcome_sat (hdQ hs0) (hdI hs0) (heredoc_start_handler valid_symbols scanner lexer)"
  by (simp add: heredoc_start_handler_def case_prod_beta)


lemma hd_test_operator_backslash:
  "kept hs0 (heredocs scanner) \<Longrightarrow>
   outcome_sat (hdQ hs0) (hdI hs0) (test_operator_backslash valid_symbols scanner lexer)"
  by (simp add: test_operator_backslash_def Let_def case_prod_beta sat_if split del: if_split)

lemma hd_test_operator_dash:
  "kept hs0 (heredocs scanner) \<Longrightarrow>
   outcome_sat (hdQ hs0) (hdI hs0) (test_operator_dash valid_symbols scanner lexer)"
  by (simp add: test_operator_dash_def Let_def case_prod_beta sat_if split del: if_split)

lemma hd_raw_dollar_check:
  "kept hs0 (heredocs scanner) \<Longrightarrow>
   outcome_sat (hdQ hs0) (hdI hs0) (raw_dollar_check valid_symbols scanner lexer)"
  by (simp add: raw_dollar_check_def Let_def case_prod_beta sat_if split del: if_split)

lemma hd_test_operator_handler:
  "kept hs0 (heredocs scanner) \<Longrightarrow>
   outcome_sat (hdQ hs0) (hdI hs0) (test_operator_handler valid_symbols scanner lexer)"
  unfolding test_operator_handler_def
  by (simp add: sat_if split del: if_split)
     (intro impI outcome_sat_then hd_test_operator_backslash hd_test_operator_dash
        hd_raw_dollar_check; simp)

lemma hd_simple_variable_name_handler:
  "kept hs0 (heredocs scanner) \<Longrightarrow>
   outcome_sat (hdQ hs0) (hdI hs0) (simple_variable_name_handler valid_symbols scanner lexer)"
  by (simp add: simple_variable_name_handler_def Let_def case_prod_beta sat_if split del: if_split)

lemma hd_special_variable_name_handler:
  "kept hs0 (heredocs scanner) \<Longrightarrow>
   outcome_sat (hdQ hs0) (hdI hs0) (special_variable_name_handler valid_symbols scanner lexer)"
  by (simp add: special_variable_name_handler_def Let_def case_prod_beta sat_if split del: if_split)

lemma hd_variable_name_skip:
  "kept hs0 (heredocs scanner) \<Longrightarrow>
   outcome_sat (hdQ hs0) (hdI hs0) (variable_name_skip valid_symbols scanner lexer)"
proof (induction valid_symbols scanner lexer rule: variable_name_skip.induct)
  case (1 valid_symbols scanner lexer)
  show ?case
    apply (subst variable_name_skip.simps)
    apply (simp add: Let_def sat_if "1.prems" split del: if_split)
    apply (intro conjI impI "1.IH" (1) "1.IH" (2) [OF _ _ refl _ refl])
    apply (simp_all add: "1.prems" split: if_splits)
    done
qed

lemma hd_variable_name_special:
  "kept hs0 (heredocs scanner) \<Longrightarrow>
   outcome_sat (hdQ hs0) (hdI hs0) (variable_name_special valid_symbols scanner lexer)"
  by (simp add: variable_name_special_def Let_def case_prod_beta sat_if split del: if_split)

lemma hd_heredoc_arrow:
  "kept hs0 (heredocs scanner) \<Longrightarrow>
   outcome_sat (hdQ hs0) (hdI hs0) (heredoc_arrow valid_symbols scanner lexer)"
  by (simp add: heredoc_arrow_def Let_def case_prod_beta sat_if split del: if_split)

lemma hd_variable_name_tail:
  "kept hs0 (heredocs scanner) \<Longrightarrow>
   outcome_sat (hdQ hs0) (hdI hs0) (variable_name_tail valid_symbols scanner b lexer)"
  by (simp add: variable_name_tail_def Let_def case_prod_beta sat_if split del: if_split)

lemma hd_variable_name_word:
  "kept hs0 (heredocs scanner) \<Longrightarrow>
   outcome_sat (hdQ hs0) (hdI hs0) (variable_name_word valid_symbols scanner lexer)"
  by (simp add: variable_name_word_def hd_variable_name_tail sat_if split del: if_split)

lemma hd_variable_name_handler:
  "kept hs0 (heredocs scanner) \<Longrightarrow>
   outcome_sat (hdQ hs0) (hdI hs0) (variable_name_handler valid_symbols scanner lexer)"
  unfolding variable_name_handler_def
  by (simp add: sat_if split del: if_split)
     (intro impI outcome_sat_then hd_variable_name_skip hd_variable_name_special
        hd_heredoc_arrow hd_variable_name_word; simp)

lemma hd_raw_dollar_handler:
  "kept hs0 (heredocs scanner) \<Longrightarrow>
   outcome_sat (hdQ hs0) (hdI hs0) (raw_dollar_handler valid_symbols scanner lexer)"
  by (simp add: raw_dollar_handler_def Let_def case_prod_beta sat_if split del: if_split)

lemma heredocs_regex_quote_exit [simp]:
  "heredocs (fst (snd (regex_quote_exit st scanner lexer))) = heredocs scanner"
  by (simp add: regex_quote_exit_def)

lemma hd_regex_consume:
  "kept hs0 (heredocs scanner) \<Longrightarrow>
   step_sat (hdQ hs0) (hdI hs0) (regex_consume valid_symbols st scanner lexer)"
  by (simp add: regex_consume_def Let_def sat_if split del: if_split)

lemma hd_regex_body:
  "kept hs0 (heredocs scanner) \<Longrightarrow>
   step_sat (hdQ hs0) (hdI hs0) (regex_body valid_symbols st scanner lexer)"
  by (simp add: regex_body_def Let_def case_prod_beta hd_regex_consume sat_if
        split del: if_split)

lemma hd_regex_loop:
  "kept hs0 (heredocs scanner) \<Longrightarrow>
   step_sat (hdQ hs0) (hdI hs0) (regex_loop valid_symbols st scanner lexer)"
proof (induction valid_symbols st scanner lexer rule: regex_loop.induct)
  case (1 valid_symbols st scanner lexer)
  from hd_regex_body [OF "1.prems", of valid_symbols st lexer]
  show ?case
    by (subst regex_loop.simps)
       (auto simp add: "1.prems" split: sum.splits intro!: "1.IH")
qed

lemma hd_regex_section:
  "kept hs0 (heredocs scanner) \<Longrightarrow>
   outcome_sat (hdQ hs0) (hdI hs0) (regex_section valid_symbols scanner lexer)"
  unfolding regex_section_def Let_def
  by (simp add: sat_if split del: if_split)
     (intro impI conjI outcome_sat_step_then hd_regex_loop; simp add: sat_if split del: if_split)

lemma hd_extglob_lead:
  "kept hs0 (heredocs scanner) \<Longrightarrow>
   outcome_sat (hdQ hs0) (hdI hs0) (extglob_lead scanner lexer)"
  unfolding extglob_lead_def Let_def
  by (intro outcome_sat_then; simp add: sat_if split del: if_split)

lemma hd_extglob_first_char:
  "kept hs0 (heredocs scanner) \<Longrightarrow>
   outcome_sat (hdQ hs0) (hdI hs0) (extglob_first_char  scanner lexer)"
  by (simp add: extglob_first_char_def Let_def case_prod_beta sat_if split del: if_split)

lemma hd_extglob_dash:
  "kept hs0 (heredocs scanner) \<Longrightarrow>
   outcome_sat (hdQ hs0) (hdI hs0) (extglob_dash  scanner lexer)"
  by (simp add: extglob_dash_def Let_def case_prod_beta sat_if split del: if_split)

lemma hd_extglob_case_item:
  "kept hs0 (heredocs scanner) \<Longrightarrow>
   outcome_sat (hdQ hs0) (hdI hs0) (extglob_case_item w scanner lexer)"
  by (simp add: extglob_case_item_def Let_def case_prod_beta sat_if split del: if_split)

lemma hd_extglob_boundary:
  "kept hs0 (heredocs scanner) \<Longrightarrow>
   outcome_sat (hdQ hs0) (hdI hs0) (extglob_boundary scanner lexer)"
  unfolding extglob_boundary_def Let_def
  by (simp add: sat_if split del: if_split)
     (intro impI outcome_sat_then; simp add: sat_if split del: if_split)

lemma hd_extglob_consume:
  "kept hs0 (heredocs scanner) \<Longrightarrow>
   step_sat (hdQ hs0) (hdI hs0) (extglob_consume st scanner lexer)"
  unfolding extglob_consume_def Let_def
  by (intro step_sat_then; simp add: sat_if split del: if_split)

lemma hd_extglob_body:
  "kept hs0 (heredocs scanner) \<Longrightarrow>
   step_sat (hdQ hs0) (hdI hs0) (extglob_body st scanner lexer)"
  by (simp add: extglob_body_def Let_def hd_extglob_consume sat_if split del: if_split)

lemma hd_extglob_loop:
  "kept hs0 (heredocs scanner) \<Longrightarrow>
   step_sat (hdQ hs0) (hdI hs0) (extglob_loop st scanner lexer)"
proof (induction st scanner lexer rule: extglob_loop.induct)
  case (1 st scanner lexer)
  from hd_extglob_body [OF "1.prems", of st lexer]
  show ?case
    by (subst extglob_loop.simps)
       (auto simp add: "1.prems" split: sum.splits intro!: "1.IH")
qed

lemma hd_extglob_scan:
  "kept hs0 (heredocs scanner) \<Longrightarrow>
   outcome_sat (hdQ hs0) (hdI hs0) (extglob_scan scanner lexer)"
  unfolding extglob_scan_def Let_def
  by (intro outcome_sat_then outcome_sat_step_then hd_extglob_lead hd_extglob_first_char
        hd_extglob_dash hd_extglob_case_item hd_extglob_boundary hd_extglob_loop; simp)

lemma hd_extglob_section:
  "kept hs0 (heredocs scanner) \<Longrightarrow>
   outcome_sat (hdQ hs0) (hdI hs0) (extglob_section valid_symbols scanner lexer)"
  by (simp add: extglob_section_def Let_def hd_extglob_scan sat_if split del: if_split)

lemma hd_expansion_word_paren_loop:
  "kept hs0 (heredocs scanner) \<Longrightarrow>
   word_sat (hdQ hs0) (hdI hs0) scanner (expansion_word_paren_loop scanner a b lexer)"
proof (induction scanner a b lexer rule: expansion_word_paren_loop.induct)
  case (1 scanner advanced_once advance_once_space lexer)
  show ?case
    apply (subst expansion_word_paren_loop.simps)
    apply (simp add: Let_def sat_if word_sat_if "1.prems" split del: if_split)
    apply (intro conjI impI "1.IH" (1) [OF _ _ refl] "1.IH" (2))
    apply (simp_all add: "1.prems")
    done
qed

lemma hd_expansion_word_dollar:
  "kept hs0 (heredocs scanner) \<Longrightarrow>
   word_sat (hdQ hs0) (hdI hs0) scanner (expansion_word_dollar scanner a b lexer)"
  by (simp add: expansion_word_dollar_def Let_def sat_if word_sat_if split del: if_split)

lemma hd_expansion_word_paren:
  "kept hs0 (heredocs scanner) \<Longrightarrow>
   word_sat (hdQ hs0) (hdI hs0) scanner (expansion_word_paren scanner a b lexer)"
  unfolding expansion_word_paren_def Let_def
  by (simp add: sat_if word_sat_if split del: if_split)
     (intro impI word_sat_then hd_expansion_word_paren_loop;
      simp add: sat_if word_sat_if split del: if_split)

lemma hd_expansion_word_rest:
  "kept hs0 (heredocs scanner) \<Longrightarrow>
   word_sat (hdQ hs0) (hdI hs0) scanner (expansion_word_rest scanner a b lexer)"
  by (simp add: expansion_word_rest_def Let_def sat_if word_sat_if split del: if_split)

lemma hd_expansion_word_body:
  "kept hs0 (heredocs scanner) \<Longrightarrow>
   word_sat (hdQ hs0) (hdI hs0) scanner (expansion_word_body scanner a b lexer)"
  unfolding expansion_word_body_def Let_def
  by (simp add: sat_if word_sat_if split del: if_split)
     (intro impI word_sat_then hd_expansion_word_dollar;
      simp add: sat_if word_sat_if split del: if_split;
      intro impI word_sat_then hd_expansion_word_paren hd_expansion_word_rest; simp)

lemma hd_expansion_word_loop:
  "kept hs0 (heredocs scanner) \<Longrightarrow>
   outcome_sat (hdQ hs0) (hdI hs0) (expansion_word_loop scanner a b lexer)"
proof (induction scanner a b lexer rule: expansion_word_loop.induct)
  case (1 scanner advanced_once advance_once_space lexer)
  from hd_expansion_word_body [OF "1.prems", of advanced_once advance_once_space lexer]
  show ?case
    by (subst expansion_word_loop.simps)
       (auto simp add: "1.prems" split: sum.splits intro!: "1.IH")
qed

lemma hd_expansion_word_section:
  "kept hs0 (heredocs scanner) \<Longrightarrow>
   outcome_sat (hdQ hs0) (hdI hs0) (expansion_word_section valid_symbols w scanner lexer)"
  by (simp add: expansion_word_section_def hd_expansion_word_loop sat_if split del: if_split)

lemma hd_brace_start_section:
  "kept hs0 (heredocs scanner) \<Longrightarrow>
   outcome_sat (hdQ hs0) (hdI hs0) (brace_start_section valid_symbols scanner lexer)"
  by (simp add: brace_start_section_def Let_def case_prod_beta sat_if split del: if_split)

lemma hd_from_brace_start:
  "kept hs0 (heredocs scanner) \<Longrightarrow>
   outcome_sat (hdQ hs0) (hdI hs0) (from_brace_start valid_symbols scanner lexer)"
  using hd_brace_start_section [of hs0 scanner valid_symbols lexer]
  by (cases "brace_start_section valid_symbols scanner lexer") (simp_all add: from_brace_start_def)

lemma hd_from_expansion_word:
  "kept hs0 (heredocs scanner) \<Longrightarrow>
   outcome_sat (hdQ hs0) (hdI hs0) (from_expansion_word valid_symbols w scanner lexer)"
  unfolding from_expansion_word_def
  by (intro outcome_sat_then hd_expansion_word_section hd_from_brace_start)

lemma hd_from_extglob_pattern:
  "kept hs0 (heredocs scanner) \<Longrightarrow>
   outcome_sat (hdQ hs0) (hdI hs0) (from_extglob_pattern valid_symbols w scanner lexer)"
  unfolding from_extglob_pattern_def
  by (intro outcome_sat_then hd_extglob_section hd_from_expansion_word)

lemma hd_from_regex:
  "kept hs0 (heredocs scanner) \<Longrightarrow>
   outcome_sat (hdQ hs0) (hdI hs0) (from_regex valid_symbols w scanner lexer)"
  unfolding from_regex_def
  by (intro outcome_sat_then hd_regex_section hd_from_extglob_pattern)

lemma hd_handlers:
  "h \<in> set (handlers valid_symbols w d) \<Longrightarrow> kept hs0 (heredocs scanner) \<Longrightarrow>
   outcome_sat (hdQ hs0) (hdI hs0) (h scanner lexer)"
  unfolding handlers_def
  by (auto intro: hd_newline_handler hd_closing_brace_handler hd_concat_handler
        hd_bare_dollar_handler hd_peek_bare_dollar_handler hd_dollar_brace_handler
        hd_opening_paren_handler hd_opening_bracket_handler hd_closing_bracket_handler
        hd_closing_paren_handler hd_pattern_start_handler hd_pattern_suffix_start_handler
        hd_colon_handler hd_hash_handler hd_immediate_double_hash_handler
        hd_array_token_handler hd_empty_value_handler hd_heredoc_body_handler
        hd_heredoc_end_handler hd_heredoc_content_handler hd_heredoc_start_handler
        hd_test_operator_handler hd_simple_variable_name_handler
        hd_special_variable_name_handler hd_variable_name_handler hd_raw_dollar_handler)

lemma hd_scan:
  "outcome_sat (hdQ (heredocs scanner)) (hdI (heredocs scanner)) (scan scanner lexer valid_symbols)"
proof -
  let ?sc = "scanner\<lparr>just_returned_variable_name := False, just_returned_bare_dollar := False\<rparr>"
  let ?w = "just_returned_variable_name scanner"
  let ?r = "run_handlers (handlers valid_symbols ?w (just_returned_bare_dollar scanner)) ?sc lexer"
  have r: "outcome_sat (hdQ (heredocs scanner)) (hdI (heredocs scanner)) ?r"
    by (rule run_handlers_sat [where I = "hdI (heredocs scanner)"]) (auto intro: hd_handlers)
  show ?thesis
  proof (cases ?r)
    case (Return b s l)
    with r show ?thesis by (simp add: scan_def)
  next
    case (Continue s l)
    with r show ?thesis by (simp add: scan_def hd_from_regex)
  next
    case (Goto g s l)
    with r show ?thesis
      by (cases g)
         (simp_all add: scan_def hd_from_regex hd_from_extglob_pattern
            hd_from_expansion_word hd_from_brace_start)
  next
    case Abort
    then show ?thesis by (simp add: scan_def)
  qed
qed

text \<open>
  C5, amended: the pending heredocs form a stack, not a queue. Every scan call leaves
  every record but the last one as it was and changes the number of records by one at
  most. A heredoc operator pushes an empty record after the last one; HEREDOC_START
  reads its delimiter into the last record; the scan of a body or of content rewrites
  the last record or pops it; HEREDOC_END pops the last record. So with several
  operators pending, the body is scanned for the one met last.
\<close>

theorem heredocs_form_a_stack:
  "(scan scanner lexer valid_symbols = Return b scanner' lexer' \<longrightarrow>
      take (length (heredocs scanner) - 1) (heredocs scanner') = butlast (heredocs scanner) \<and>
      length (heredocs scanner') \<le> length (heredocs scanner) + 1) \<and>
   (heredoc_arrow valid_symbols scanner lexer = Return True scanner' lexer' \<longrightarrow>
      butlast (heredocs scanner') = heredocs scanner \<and>
      delimiter (last (heredocs scanner')) = []) \<and>
   (heredoc_start_handler valid_symbols scanner lexer = Return b scanner' lexer' \<longrightarrow>
      heredocs scanner \<noteq> [] \<and>
      heredocs scanner' =
        butlast (heredocs scanner) @
          [fst (snd (scan_heredoc_start (last (heredocs scanner)) lexer))]) \<and>
   (scan_heredoc_content scanner lexer middle_type end_type = Return b scanner' lexer' \<longrightarrow>
      heredocs scanner \<noteq> [] \<and>
      (heredocs scanner' = butlast (heredocs scanner) \<or>
       butlast (heredocs scanner') = butlast (heredocs scanner) \<and>
       length (heredocs scanner') = length (heredocs scanner))) \<and>
   (heredoc_end_handler valid_symbols scanner lexer = Return True scanner' lexer' \<longrightarrow>
      heredocs scanner \<noteq> [] \<and> heredocs scanner' = butlast (heredocs scanner))"
proof -
  have 1: "scan scanner lexer valid_symbols = Return b scanner' lexer' \<longrightarrow>
      take (length (heredocs scanner) - 1) (heredocs scanner') = butlast (heredocs scanner) \<and>
      length (heredocs scanner') \<le> length (heredocs scanner) + 1"
  proof
    assume "scan scanner lexer valid_symbols = Return b scanner' lexer'"
    with hd_scan [of scanner lexer valid_symbols]
    have e: "earlier (heredocs scanner) (heredocs scanner')" by simp
    from e have "length (heredocs scanner') \<le> length (heredocs scanner) + 1"
      by (auto simp add: earlier_def kept_def)
    with earlier_take [OF e]
    show "take (length (heredocs scanner) - 1) (heredocs scanner') = butlast (heredocs scanner) \<and>
      length (heredocs scanner') \<le> length (heredocs scanner) + 1" by simp
  qed
  have 2: "heredoc_arrow valid_symbols scanner lexer = Return True scanner' lexer' \<longrightarrow>
      butlast (heredocs scanner') = heredocs scanner \<and>
      delimiter (last (heredocs scanner')) = []"
    by (auto simp add: heredoc_arrow_def Let_def heredoc_new_def split: if_splits)
  have 3: "heredoc_start_handler valid_symbols scanner lexer = Return b scanner' lexer' \<longrightarrow>
      heredocs scanner \<noteq> [] \<and>
      heredocs scanner' =
        butlast (heredocs scanner) @
          [fst (snd (scan_heredoc_start (last (heredocs scanner)) lexer))]"
    by (auto simp add: heredoc_start_handler_def case_prod_beta split: if_splits)
  have 4: "scan_heredoc_content scanner lexer middle_type end_type = Return b scanner' lexer' \<longrightarrow>
      heredocs scanner \<noteq> [] \<and>
      (heredocs scanner' = butlast (heredocs scanner) \<or>
       butlast (heredocs scanner') = butlast (heredocs scanner) \<and>
       length (heredocs scanner') = length (heredocs scanner))"
  proof
    assume r: "scan_heredoc_content scanner lexer middle_type end_type = Return b scanner' lexer'"
    then have n: "heredocs scanner \<noteq> []"
      by (auto simp add: scan_heredoc_content_def split: if_splits)
    with r have "heredoc_content_loop middle_type end_type False scanner lexer =
        Return b scanner' lexer'"
      by (simp add: scan_heredoc_content_def)
    with content_loop_rewrites_or_pops [OF kept_refl n, of middle_type end_type False lexer]
    have "rewritten_or_popped (heredocs scanner) b scanner' lexer'" by simp
    with n show "heredocs scanner \<noteq> [] \<and>
      (heredocs scanner' = butlast (heredocs scanner) \<or>
       butlast (heredocs scanner') = butlast (heredocs scanner) \<and>
       length (heredocs scanner') = length (heredocs scanner))"
      by (auto simp add: rewritten_or_popped_def kept_def)
  qed
  have 5: "heredoc_end_handler valid_symbols scanner lexer = Return True scanner' lexer' \<longrightarrow>
      heredocs scanner \<noteq> [] \<and> heredocs scanner' = butlast (heredocs scanner)"
    by (auto simp add: heredoc_end_handler_def split: if_splits option.splits)
  from 1 2 3 4 5 show ?thesis by blast
qed

theorem heredocs_form_a_stack_witness:
  "scan (create\<lparr>heredocs := [pending [65, 0], pending [66, 0]]\<rparr>)
        (lexer_at two_heredocs_text 7)
        (valid_only [HEREDOC_BODY_BEGINNING, SIMPLE_HEREDOC_BODY]) =
     Return True
       (create\<lparr>heredocs := [pending [65, 0],
                               (pending [66, 0])\<lparr>current_leading_word := [66, 0]\<rparr>]\<rparr>)
       \<lparr> input = two_heredocs_text, position = 15, token_start = 8, token_end = Some 14,
         result_symbol = SIMPLE_HEREDOC_BODY \<rparr> \<and>
   take (length [pending [65, 0], pending [66, 0]] - 1)
        [pending [65, 0], (pending [66, 0])\<lparr>current_leading_word := [66, 0]\<rparr>] =
     [pending [65, 0]] \<and>
   heredoc_arrow (valid_only [HEREDOC_ARROW]) (create\<lparr>heredocs := [pending [65, 0]]\<rparr>)
        (lexer_at two_heredocs_text 4) =
     Return True (create\<lparr>heredocs := [pending [65, 0], heredoc_new]\<rparr>)
       \<lparr> input = two_heredocs_text, position = 6, token_start = 4, token_end = None,
         result_symbol = HEREDOC_ARROW \<rparr> \<and>
   butlast [pending [65, 0], heredoc_new] = [pending [65, 0]] \<and>
   heredoc_start_handler (valid_only [HEREDOC_START])
        (create\<lparr>heredocs := [pending [65, 0], heredoc_new]\<rparr>) (lexer_at two_heredocs_text 6) =
     Return True (create\<lparr>heredocs := [pending [65, 0], pending [66, 0]]\<rparr>)
       \<lparr> input = two_heredocs_text, position = 7, token_start = 6, token_end = None,
         result_symbol = HEREDOC_START \<rparr> \<and>
   [pending [65, 0], pending [66, 0]] =
     butlast [pending [65, 0], heredoc_new] @
       [fst (snd (scan_heredoc_start heredoc_new (lexer_at two_heredocs_text 6)))] \<and>
   scan_heredoc_content (create\<lparr>heredocs := [pending [65, 0], pending [66, 0]]\<rparr>)
        (lexer_at two_heredocs_text 7) HEREDOC_BODY_BEGINNING SIMPLE_HEREDOC_BODY =
     Return True
       (create\<lparr>heredocs := [pending [65, 0],
                               (pending [66, 0])\<lparr>current_leading_word := [66, 0]\<rparr>]\<rparr>)
       \<lparr> input = two_heredocs_text, position = 15, token_start = 8, token_end = Some 14,
         result_symbol = SIMPLE_HEREDOC_BODY \<rparr> \<and>
   heredoc_end_handler (valid_only [HEREDOC_END])
        (create\<lparr>heredocs := [pending [65, 0],
                                (pending [66, 0])\<lparr>current_leading_word := [66, 0]\<rparr>]\<rparr>)
        (lexer_at two_heredocs_text 14) =
     Return True (create\<lparr>heredocs := [pending [65, 0]]\<rparr>)
       \<lparr> input = two_heredocs_text, position = 15, token_start = 14, token_end = None,
         result_symbol = HEREDOC_END \<rparr>"
proof -
  let ?A = "pending [65, 0]" and ?B = "pending [66, 0]"
  let ?B' = "(pending [66, 0])\<lparr>current_leading_word := [66, 0]\<rparr>"
  let ?body = "\<lparr> input = two_heredocs_text, position = 15, token_start = 8,
                  token_end = Some 14, result_symbol = SIMPLE_HEREDOC_BODY \<rparr>"
  have s: "scan (create\<lparr>heredocs := [?A, ?B]\<rparr>) (lexer_at two_heredocs_text 7)
             (valid_only [HEREDOC_BODY_BEGINNING, SIMPLE_HEREDOC_BODY]) =
           Return True (create\<lparr>heredocs := [?A, ?B']\<rparr>) ?body"
    by code_simp
  have a: "heredoc_arrow (valid_only [HEREDOC_ARROW]) (create\<lparr>heredocs := [?A]\<rparr>)
             (lexer_at two_heredocs_text 4) =
           Return True (create\<lparr>heredocs := [?A, heredoc_new]\<rparr>)
             \<lparr> input = two_heredocs_text, position = 6, token_start = 4, token_end = None,
               result_symbol = HEREDOC_ARROW \<rparr>"
    by code_simp
  have d: "heredoc_start_handler (valid_only [HEREDOC_START])
             (create\<lparr>heredocs := [?A, heredoc_new]\<rparr>) (lexer_at two_heredocs_text 6) =
           Return True (create\<lparr>heredocs := [?A, ?B]\<rparr>)
             \<lparr> input = two_heredocs_text, position = 7, token_start = 6, token_end = None,
               result_symbol = HEREDOC_START \<rparr>"
    by code_simp
  have c: "scan_heredoc_content (create\<lparr>heredocs := [?A, ?B]\<rparr>)
             (lexer_at two_heredocs_text 7) HEREDOC_BODY_BEGINNING SIMPLE_HEREDOC_BODY =
           Return True (create\<lparr>heredocs := [?A, ?B']\<rparr>) ?body"
    by code_simp
  have e: "heredoc_end_handler (valid_only [HEREDOC_END]) (create\<lparr>heredocs := [?A, ?B']\<rparr>)
             (lexer_at two_heredocs_text 14) =
           Return True (create\<lparr>heredocs := [?A]\<rparr>)
             \<lparr> input = two_heredocs_text, position = 15, token_start = 14, token_end = None,
               result_symbol = HEREDOC_END \<rparr>"
    by code_simp
  from heredocs_form_a_stack [where scanner = "create\<lparr>heredocs := [?A, ?B]\<rparr>"
         and lexer = "lexer_at two_heredocs_text 7"
         and valid_symbols = "valid_only [HEREDOC_BODY_BEGINNING, SIMPLE_HEREDOC_BODY]"
         and b = True and scanner' = "create\<lparr>heredocs := [?A, ?B']\<rparr>" and lexer' = ?body
         and middle_type = HEREDOC_BODY_BEGINNING and end_type = SIMPLE_HEREDOC_BODY] s c
  have 1: "take (length [?A, ?B] - 1) [?A, ?B'] = [?A]" by simp
  from heredocs_form_a_stack [where scanner = "create\<lparr>heredocs := [?A]\<rparr>"
         and lexer = "lexer_at two_heredocs_text 4"
         and valid_symbols = "valid_only [HEREDOC_ARROW]"
         and scanner' = "create\<lparr>heredocs := [?A, heredoc_new]\<rparr>"] a
  have 2: "butlast [?A, heredoc_new] = [?A]" by simp
  from heredocs_form_a_stack [where scanner = "create\<lparr>heredocs := [?A, heredoc_new]\<rparr>"
         and lexer = "lexer_at two_heredocs_text 6"
         and valid_symbols = "valid_only [HEREDOC_START]"
         and b = True and scanner' = "create\<lparr>heredocs := [?A, ?B]\<rparr>"] d
  have 3: "[?A, ?B] = butlast [?A, heredoc_new] @
             [fst (snd (scan_heredoc_start heredoc_new (lexer_at two_heredocs_text 6)))]"
    by simp
  from heredocs_form_a_stack [where scanner = "create\<lparr>heredocs := [?A, ?B']\<rparr>"
         and lexer = "lexer_at two_heredocs_text 14"
         and valid_symbols = "valid_only [HEREDOC_END]"
         and scanner' = "create\<lparr>heredocs := [?A]\<rparr>"] e
  have 5: "[?A] = butlast [?A, ?B']" by simp
  from s a d c e 1 2 3 show ?thesis by simp
qed


end
